theory Spec2Isabelle
  imports Complex_Main "HOL-Library.Char_ord" "HOL-Library.List_Lexorder"
begin

section \<open>Values that can be thrown and caught\<close>

text \<open>
  The retry helper of \<^verbatim>\<open>email.service.ts\<close> catches \<^verbatim>\<open>unknown\<close> values and inspects them
  dynamically (\<^verbatim>\<open>typeof\<close>, \<^verbatim>\<open>in\<close>, \<^verbatim>\<open>instanceof Error\<close>). A thrown value is
  therefore a JavaScript value: a primitive, a plain object with its properties, or an
  \<^verbatim>\<open>Error\<close> instance with its message and any further own properties (the e-mail SDK
  attaches \<^verbatim>\<open>statusCode\<close> to its errors). The numbers inside thrown values are only
  compared with the status codes 400 to 404 and are modelled as reals; functions, arrays
  and symbols are not modelled.
\<close>

datatype js_value =
    JUndefined
  | JNull
  | JBoolean bool
  | JNumber real
  | JString string
  | JObject "(string \<times> js_value) list"
  | JError string "(string \<times> js_value) list"

fun typeof :: "js_value \<Rightarrow> string" where
  "typeof JUndefined = ''undefined''"
| "typeof JNull = ''object''"
| "typeof (JBoolean b) = ''boolean''"
| "typeof (JNumber n) = ''number''"
| "typeof (JString s) = ''string''"
| "typeof (JObject ps) = ''object''"
| "typeof (JError m ps) = ''object''"

fun instanceof_Error :: "js_value \<Rightarrow> bool" where
  "instanceof_Error (JError m ps) = True"
| "instanceof_Error v = False"

fun properties :: "js_value \<Rightarrow> (string \<times> js_value) list" where
  "properties (JObject ps) = ps"
| "properties (JError m ps) = (''message'', JString m) # ps"
| "properties v = []"

text \<open>\<^verbatim>\<open>key in v\<close> and \<^verbatim>\<open>v[key]\<close> for an object \<open>v\<close>.\<close>

definition has_property :: "string \<Rightarrow> js_value \<Rightarrow> bool" where
  "has_property key v = (map_of (properties v) key \<noteq> None)"

definition get_property :: "js_value \<Rightarrow> string \<Rightarrow> js_value" where
  "get_property v key = (case map_of (properties v) key of Some x \<Rightarrow> x | None \<Rightarrow> JUndefined)"

text \<open>\<^verbatim>\<open>error instanceof Error ? error.message : fallback\<close>.\<close>

fun message_or :: "js_value \<Rightarrow> string \<Rightarrow> string" where
  "message_or (JError m ps) fallback = m"
| "message_or v fallback = fallback"

section \<open>Numbers\<close>

text \<open>
  The numbers of the delay computation are IEEE 754 binary64 values. A finite double is
  an integer significand of at most 53 bits times a power of two; the pair \<open>(m, e)\<close> stands
  for \<open>m\<close> times two to the power \<open>e\<close>. An arithmetic operation returns the exact result
  rounded to the nearest double, a tie going to the even significand. The exponent is
  not bounded: of the intermediate results of the delay computation none is subnormal,
  and only the power and its product with the initial delay can overflow (from attempt
  1015 on; the loop computes a delay after the attempts 1 and 2), where \<^verbatim>\<open>Math.min\<close> caps
  \<^verbatim>\<open>Infinity\<close> at the maximal delay as it caps the exact value.
\<close>

type_synonym double = "int \<times> int"

definition d_val :: "double \<Rightarrow> real" where
  "d_val x = real_of_int (fst x) * 2 powi (snd x)"

definition is_double :: "double \<Rightarrow> bool" where
  "is_double x = (\<bar>fst x\<bar> < 2 ^ 53)"

text \<open>The number of binary digits of a natural number.\<close>

fun bit_length :: "nat \<Rightarrow> nat" where
  "bit_length n = (if n = 0 then 0 else Suc (bit_length (n div 2)))"

declare bit_length.simps [simp del]

text \<open>Dropping the last \<open>d\<close> binary digits of \<open>X\<close>, to the nearest, a tie to the even one.\<close>

definition round_half_even :: "int \<Rightarrow> nat \<Rightarrow> int" where
  "round_half_even X d =
     (let q = X div 2 ^ d; r = X mod 2 ^ d; half = 2 ^ (d - 1)
      in if r < half \<or> (r = half \<and> even q) then q else q + 1)"

text \<open>The double nearest to \<open>m\<close> times two to the power \<open>e\<close>.\<close>

definition round_to_double :: "int \<Rightarrow> int \<Rightarrow> double" where
  "round_to_double m e =
     (let n = bit_length (nat \<bar>m\<bar>)
      in if n \<le> 53 then (m, e)
         else (sgn m * round_half_even \<bar>m\<bar> (n - 53), e + int (n - 53)))"

text \<open>\<^verbatim>\<open>x * y\<close>, \<^verbatim>\<open>x + y\<close>, \<^verbatim>\<open>x - y\<close> and \<^verbatim>\<open>x <= y\<close> on doubles.\<close>

definition d_mul :: "double \<Rightarrow> double \<Rightarrow> double" where
  "d_mul x y = round_to_double (fst x * fst y) (snd x + snd y)"

definition d_add :: "double \<Rightarrow> double \<Rightarrow> double" where
  "d_add x y =
     (let e = min (snd x) (snd y)
      in round_to_double (fst x * 2 ^ nat (snd x - e) + fst y * 2 ^ nat (snd y - e)) e)"

definition d_sub :: "double \<Rightarrow> double \<Rightarrow> double" where
  "d_sub x y = d_add x (- fst y, snd y)"

definition d_le :: "double \<Rightarrow> double \<Rightarrow> bool" where
  "d_le x y =
     (let e = min (snd x) (snd y)
      in fst x * 2 ^ nat (snd x - e) \<le> fst y * 2 ^ nat (snd y - e))"

definition Math_min :: "double \<Rightarrow> double \<Rightarrow> double" where
  "Math_min x y = (if d_le x y then x else y)"

text \<open>
  \<^verbatim>\<open>Math.pow\<close> with a natural number as exponent: the exact power, rounded. (The language
  lets an engine approximate the result; a power of two is exact in each of them.)
\<close>

definition Math_pow :: "double \<Rightarrow> nat \<Rightarrow> double" where
  "Math_pow x n = round_to_double (fst x ^ n) (snd x * int n)"

text \<open>\<^verbatim>\<open>Math.round\<close>: the nearest integer, a tie going up.\<close>

definition Math_round :: "double \<Rightarrow> int" where
  "Math_round x = \<lfloor>d_val x + 1 / 2\<rfloor>"

text \<open>
  \<open>y\<close> is a correct rounding of the real number \<open>x\<close>: the relative error is at most two
  to the power -53, and no double lies between the two.
\<close>

definition rounded :: "real \<Rightarrow> real \<Rightarrow> bool" where
  "rounded x y \<longleftrightarrow>
     \<bar>y - x\<bar> \<le> \<bar>x\<bar> / 2 ^ 53 \<and>
     (\<forall>b. is_double b \<longrightarrow> (x \<le> d_val b \<longrightarrow> y \<le> d_val b) \<and> (d_val b \<le> x \<longrightarrow> d_val b \<le> y))"

section \<open>The e-mail service: configuration and backoff\<close>

record EmailMessage =
  msg_senderAddress :: string
  msg_to :: string
  msg_subject :: string

text \<open>
  The instance fields of \<^verbatim>\<open>class EmailService\<close>. The e-mail client is the behaviour of
  \<^verbatim>\<open>beginSend\<close> followed by \<^verbatim>\<open>pollUntilDone\<close>: it acts on the gateway's state \<open>'w\<close> and either
  resolves or rejects with a value.
\<close>

record 'w EmailService =
  client :: "EmailMessage \<Rightarrow> 'w \<Rightarrow> (js_value + unit) \<times> 'w"
  senderAddress :: string
  adminEmail :: string
  MAX_RETRIES :: nat
  INITIAL_DELAY_MS :: double
  MAX_DELAY_MS :: double
  BACKOFF_MULTIPLIER :: double
  JITTER_PERCENTAGE :: double

text \<open>\<^verbatim>\<open>a || b\<close> on an environment variable: unset and the empty string are falsy.\<close>

fun env_or :: "string option \<Rightarrow> string \<Rightarrow> string" where
  "env_or None d = d"
| "env_or (Some v) d = (if v = [] then d else v)"

text \<open>
  The constructor. \<open>EmailClient\<close> stands for the SDK's \<^verbatim>\<open>new EmailClient(connectionString)\<close>.
  The literal \<^verbatim>\<open>0.25\<close> is the double \<open>(1, - 2)\<close>.
\<close>

definition EmailService_new ::
  "(string \<Rightarrow> EmailMessage \<Rightarrow> 'w \<Rightarrow> (js_value + unit) \<times> 'w) \<Rightarrow> (string \<rightharpoonup> string)
     \<Rightarrow> js_value + 'w EmailService" where
  "EmailService_new EmailClient env =
     (case env ''COMMUNICATION_SERVICES_CONNECTION_STRING'' of
        None \<Rightarrow>
          Inl (JError ''COMMUNICATION_SERVICES_CONNECTION_STRING environment variable is not set'' [])
      | Some connectionString \<Rightarrow>
          if connectionString = []
          then Inl (JError ''COMMUNICATION_SERVICES_CONNECTION_STRING environment variable is not set'' [])
          else Inr \<lparr> client = EmailClient connectionString,
                     senderAddress = env_or (env ''SENDER_EMAIL'') ''noreply@agentoja.com'',
                     adminEmail = env_or (env ''ADMIN_EMAIL'') ''info@agentoja.com'',
                     MAX_RETRIES = 3,
                     INITIAL_DELAY_MS = (1000, 0),
                     MAX_DELAY_MS = (30000, 0),
                     BACKOFF_MULTIPLIER = (2, 0),
                     JITTER_PERCENTAGE = (1, - 2) \<rparr>)"

text \<open>
  The delay computed in the \<^verbatim>\<open>catch\<close> block of \<^verbatim>\<open>retryWithBackoff\<close> after failed attempt
  number \<open>attempt\<close>; \<open>rnd\<close> is the result of \<^verbatim>\<open>Math.random()\<close>.
\<close>

definition delayMs :: "'w EmailService \<Rightarrow> nat \<Rightarrow> double \<Rightarrow> int" where
  "delayMs this attempt rnd =
     (let baseDelay = d_mul (INITIAL_DELAY_MS this) (Math_pow (BACKOFF_MULTIPLIER this) attempt);
          cappedDelay = Math_min baseDelay (MAX_DELAY_MS this);
          jitter = d_mul (d_mul cappedDelay (JITTER_PERCENTAGE this))
                     (d_sub (d_mul rnd (2, 0)) (1, 0))
      in Math_round (d_add cappedDelay jitter))"

text \<open>\<^verbatim>\<open>isNonRetryableError\<close>; \<^verbatim>\<open>includes\<close> compares without coercion.\<close>

definition isNonRetryableError :: "js_value \<Rightarrow> bool" where
  "isNonRetryableError error =
     (if typeof error = ''object'' \<and> error \<noteq> JNull \<and> has_property ''statusCode'' error
      then (let nonRetryableStatusCodes = [JNumber 400, JNumber 401, JNumber 403, JNumber 404]
            in get_property error ''statusCode'' \<in> set nonRetryableStatusCodes)
      else False)"

section \<open>The submission records and the state of the outside world\<close>

datatype contact_status = New | Read | Replied

datatype waitlist_status = Active | Notified | Converted

record ContactSubmission =
  c_id :: string
  c_name :: string
  c_email :: string
  c_message :: string
  c_status :: contact_status
  c_submittedAt :: string
  c_partitionKey :: string

record WaitlistSubmission =
  w_id :: string
  w_email :: string
  w_name :: "string option"
  w_status :: waitlist_status
  w_position :: nat
  w_submittedAt :: string
  w_partitionKey :: string

datatype level = Info | Warn | Err

text \<open>
  What a request does to the outside world, in the order it happens: an awaited call of the
  operation handed to \<^verbatim>\<open>retryWithBackoff\<close> (with its \<^verbatim>\<open>operationName\<close>), a completed
  \<^verbatim>\<open>sleep\<close>, a line written to the console or the invocation log (its level and the fixed
  part of its text), and an item written to a Cosmos DB container (container and item id).
\<close>

datatype event =
    Invoked string
  | Slept int
  | Console level string
  | Created string string

text \<open>
  The state a request runs in. \<open>gateway\<close> is the state of the e-mail gateway;
  \<open>randoms\<close>, \<open>uuids\<close> and \<open>clock\<close> are the successive results of \<^verbatim>\<open>Math.random()\<close>,
  \<^verbatim>\<open>randomUUID()\<close> and \<^verbatim>\<open>new Date().toISOString()\<close>; the two lists are the items of the two
  Cosmos DB containers; \<open>cosmos_faults\<close> says for each successive request to Cosmos DB
  whether it is served (\<open>None\<close>) or rejected with an error; \<open>process_env\<close> is \<^verbatim>\<open>process.env\<close>.
\<close>

record 'w state =
  gateway :: 'w
  randoms :: "nat \<Rightarrow> double"
  uuids :: "nat \<Rightarrow> string"
  clock :: "nat \<Rightarrow> string"
  ContactSubmissions :: "ContactSubmission list"
  WaitlistSubmissions :: "WaitlistSubmission list"
  cosmos_faults :: "nat \<Rightarrow> js_value option"
  process_env :: "string \<rightharpoonup> string"
  trace :: "event list"

definition emit :: "event \<Rightarrow> 'w state \<Rightarrow> 'w state" where
  "emit e s = s\<lparr>trace := trace s @ [e]\<rparr>"

definition console :: "level \<Rightarrow> string \<Rightarrow> 'w state \<Rightarrow> 'w state" where
  "console l text s = emit (Console l text) s"

definition sleep :: "int \<Rightarrow> 'w state \<Rightarrow> 'w state" where
  "sleep ms s = emit (Slept ms) s"

definition Math_random :: "'w state \<Rightarrow> double \<times> 'w state" where
  "Math_random s = (randoms s 0, s\<lparr>randoms := (\<lambda>n. randoms s (Suc n))\<rparr>)"

text \<open>\<^verbatim>\<open>await operation()\<close>: the operation acts on the gateway, and the call is recorded.\<close>

definition invoke ::
  "string \<Rightarrow> ('w \<Rightarrow> (js_value + 'a) \<times> 'w) \<Rightarrow> 'w state \<Rightarrow> (js_value + 'a) \<times> 'w state" where
  "invoke operationName operation s =
     (case operation (gateway s) of
        (r, g) \<Rightarrow> (r, emit (Invoked operationName) (s\<lparr>gateway := g\<rparr>)))"

section \<open>The retry executor\<close>

text \<open>
  The \<^verbatim>\<open>for\<close> loop of \<^verbatim>\<open>retryWithBackoff\<close>, entered with the loop variable \<open>attempt\<close> and
  the variable \<open>lastError\<close>; \<open>Inl\<close> is a \<^verbatim>\<open>throw\<close>, \<open>Inr\<close> a \<^verbatim>\<open>return\<close>. Leaving the loop
  reaches \<^verbatim>\<open>throw lastError\<close>.
\<close>

function retry_loop ::
  "'w EmailService \<Rightarrow> ('w \<Rightarrow> (js_value + 'a) \<times> 'w) \<Rightarrow> string \<Rightarrow> nat \<Rightarrow> js_value
     \<Rightarrow> 'w state \<Rightarrow> (js_value + 'a) \<times> 'w state" where
  "retry_loop this operation operationName attempt lastError s =
     (if attempt \<le> MAX_RETRIES this then
        (case invoke operationName operation s of
           (Inr result, s1) \<Rightarrow>
             (Inr result, if 1 < attempt then console Info ''succeeded on attempt'' s1 else s1)
         | (Inl error, s1) \<Rightarrow>
             if isNonRetryableError error
             then (Inl error, console Err ''failed with non-retryable error'' s1)
             else if attempt < MAX_RETRIES this
             then (case Math_random s1 of
                     (rnd, s2) \<Rightarrow>
                       retry_loop this operation operationName (attempt + 1) error
                         (sleep (delayMs this attempt rnd)
                           (console Err ''Error details''
                             (console Info ''failed. Retrying'' s2))))
             else retry_loop this operation operationName (attempt + 1) error
                    (console Err ''failed after attempts'' s1))
      else (Inl lastError, s))"
  by pat_completeness auto
termination
  by (relation "measure (\<lambda>(this, operation, operationName, attempt, lastError, s).
                  Suc (MAX_RETRIES this) - attempt)") auto

declare retry_loop.simps [simp del]

definition retryWithBackoff ::
  "'w EmailService \<Rightarrow> ('w \<Rightarrow> (js_value + 'a) \<times> 'w) \<Rightarrow> string \<Rightarrow> 'w state
     \<Rightarrow> (js_value + 'a) \<times> 'w state" where
  "retryWithBackoff this operation operationName s =
     retry_loop this operation operationName 1 JUndefined s"

section \<open>The database service\<close>

text \<open>
  Cosmos DB and its SDK (\<^verbatim>\<open>@azure/cosmos\<close>) are outside the repository. The model keeps the
  contract the service's calls rely on. A request is served or rejected.
  \<^verbatim>\<open>items.create\<close> appends the item to its container (an item with the id and partition key
  of a stored one is rejected with a conflict) and returns it as the resource. A query
  yields the items its text selects, in the order its text asks for (items with equal
  keys in the order a stable sort leaves them), through an iterator; the option
  \<^verbatim>\<open>maxItemCount\<close> of \<^verbatim>\<open>FeedOptions\<close> is the number of items the iterator delivers per page,
  and \<^verbatim>\<open>fetchAll\<close> fetches all pages of the query and returns their items in one response.
  The two containers of the database \<^verbatim>\<open>AgentOjaDB\<close> are fields of the state, so the methods
  of the service take the state where the source reaches the container through \<^verbatim>\<open>this\<close>.
\<close>

definition cosmos_request :: "'w state \<Rightarrow> js_value option \<times> 'w state" where
  "cosmos_request s =
     (cosmos_faults s 0, s\<lparr>cosmos_faults := (\<lambda>n. cosmos_faults s (Suc n))\<rparr>)"

definition randomUUID :: "'w state \<Rightarrow> string \<times> 'w state" where
  "randomUUID s = (uuids s 0, s\<lparr>uuids := (\<lambda>n. uuids s (Suc n))\<rparr>)"

definition Date_toISOString :: "'w state \<Rightarrow> string \<times> 'w state" where
  "Date_toISOString s = (clock s 0, s\<lparr>clock := (\<lambda>n. clock s (Suc n))\<rparr>)"

definition conflict :: js_value where
  "conflict = JError ''Entity with the specified id already exists in the system.''
                [(''code'', JNumber 409)]"

function pages_of :: "nat \<Rightarrow> 'a list \<Rightarrow> 'a list list" where
  "pages_of maxItemCount xs =
     (if maxItemCount = 0 \<or> length xs \<le> maxItemCount then [xs]
      else take maxItemCount xs # pages_of maxItemCount (drop maxItemCount xs))"
  by pat_completeness auto
termination
  by (relation "measure (\<lambda>(maxItemCount, xs). length xs)") auto

declare pages_of.simps [simp del]

definition fetchAll :: "'a list list \<Rightarrow> 'a list" where
  "fetchAll pages = concat pages"

text \<open>
  \<^verbatim>\<open>container.items.query(querySpec, { maxItemCount }).fetchAll()\<close>, where \<open>matching\<close> is what
  the query text selects from the state; without options the page size is the server's
  (one page here).
\<close>

definition query_fetchAll ::
  "('w state \<Rightarrow> 'a list) \<Rightarrow> nat option \<Rightarrow> 'w state \<Rightarrow> (js_value + 'a list) \<times> 'w state" where
  "query_fetchAll matching maxItemCount s =
     (case cosmos_request s of
        (Some err, s1) \<Rightarrow> (Inl err, s1)
      | (None, s1) \<Rightarrow>
          (Inr (fetchAll (pages_of (case maxItemCount of None \<Rightarrow> 0 | Some n \<Rightarrow> n) (matching s1))),
           s1))"

definition create_contact_item ::
  "ContactSubmission \<Rightarrow> 'w state \<Rightarrow> (js_value + ContactSubmission option) \<times> 'w state" where
  "create_contact_item item s =
     (case cosmos_request s of
        (Some err, s1) \<Rightarrow> (Inl err, s1)
      | (None, s1) \<Rightarrow>
          if list_ex (\<lambda>x. c_id x = c_id item \<and> c_partitionKey x = c_partitionKey item)
               (ContactSubmissions s1)
          then (Inl conflict, s1)
          else (Inr (Some item),
                emit (Created ''ContactSubmissions'' (c_id item))
                  (s1\<lparr>ContactSubmissions := ContactSubmissions s1 @ [item]\<rparr>)))"

definition create_waitlist_item ::
  "WaitlistSubmission \<Rightarrow> 'w state \<Rightarrow> (js_value + WaitlistSubmission option) \<times> 'w state" where
  "create_waitlist_item item s =
     (case cosmos_request s of
        (Some err, s1) \<Rightarrow> (Inl err, s1)
      | (None, s1) \<Rightarrow>
          if list_ex (\<lambda>x. w_id x = w_id item \<and> w_partitionKey x = w_partitionKey item)
               (WaitlistSubmissions s1)
          then (Inl conflict, s1)
          else (Inr (Some item),
                emit (Created ''WaitlistSubmissions'' (w_id item))
                  (s1\<lparr>WaitlistSubmissions := WaitlistSubmissions s1 @ [item]\<rparr>)))"

record DatabaseService =
  databaseName :: string

definition DatabaseService_new :: "(string \<rightharpoonup> string) \<Rightarrow> js_value + DatabaseService" where
  "DatabaseService_new env =
     (if env_or (env ''COSMOS_CONNECTION_STRING'') [] = []
      then Inl (JError ''COSMOS_CONNECTION_STRING environment variable is not set'' [])
      else Inr \<lparr> databaseName = ''AgentOjaDB'' \<rparr>)"

text \<open>The argument of \<^verbatim>\<open>createContactSubmission\<close>: a submission without id and partition key.\<close>

record ContactData =
  cd_name :: string
  cd_email :: string
  cd_message :: string
  cd_status :: contact_status
  cd_submittedAt :: string

text \<open>The line a \<^verbatim>\<open>catch\<close> block of the service writes before it rethrows.\<close>

definition log_rethrown :: "string \<Rightarrow> string \<Rightarrow> js_value \<Rightarrow> 'w state \<Rightarrow> 'w state" where
  "log_rethrown known unknown error s =
     console Err (if instanceof_Error error then known else unknown) s"

definition createContactSubmission ::
  "ContactData \<Rightarrow> 'w state \<Rightarrow> (js_value + ContactSubmission) \<times> 'w state" where
  "createContactSubmission submission s =
     (case randomUUID s of
        (uuid, s1) \<Rightarrow>
          let id = ''contact-'' @ uuid;
              submissionData =
                \<lparr> c_id = id, c_name = cd_name submission, c_email = cd_email submission,
                  c_message = cd_message submission, c_status = cd_status submission,
                  c_submittedAt = cd_submittedAt submission,
                  c_partitionKey = cd_email submission \<rparr>
          in (case create_contact_item submissionData s1 of
                (Inr (Some resource), s2) \<Rightarrow> (Inr resource, s2)
              | (Inr None, s2) \<Rightarrow>
                  (Inl (JError ''Failed to create contact submission in database'' []),
                   console Err ''Error creating contact submission:'' s2)
              | (Inl error, s2) \<Rightarrow>
                  (Inl error,
                   log_rethrown ''Error creating contact submission:''
                     ''Unknown error occurred while creating contact submission'' error s2)))"

text \<open>The \<open>limit\<close> argument may be omitted; it is then 100.\<close>

definition getAllContactSubmissions ::
  "contact_status option \<Rightarrow> nat option \<Rightarrow> 'w state
     \<Rightarrow> (js_value + ContactSubmission list) \<times> 'w state" where
  "getAllContactSubmissions status limit_arg s =
     (let limit = (case limit_arg of None \<Rightarrow> 100 | Some l \<Rightarrow> l);
          matching =
            (case status of
               None \<Rightarrow> (\<lambda>s. rev (sort_key c_submittedAt (ContactSubmissions s)))
             | Some st \<Rightarrow>
                 (\<lambda>s. rev (sort_key c_submittedAt
                              (filter (\<lambda>c. c_status c = st) (ContactSubmissions s)))))
      in case query_fetchAll matching (Some limit) s of
           (Inr resources, s1) \<Rightarrow> (Inr resources, s1)
         | (Inl error, s1) \<Rightarrow>
             (Inl error,
              log_rethrown ''Error fetching contact submissions:''
                ''Unknown error occurred while fetching contact submissions'' error s1))"

text \<open>The argument of \<^verbatim>\<open>createWaitlistSubmission\<close>: no id, partition key or position.\<close>

record WaitlistData =
  wd_email :: string
  wd_name :: "string option"
  wd_status :: waitlist_status
  wd_submittedAt :: string

definition getWaitlistCount :: "'w state \<Rightarrow> (js_value + nat) \<times> 'w state" where
  "getWaitlistCount s =
     (case query_fetchAll
             (\<lambda>s. [length (filter (\<lambda>c. w_status c = Active) (WaitlistSubmissions s))]) None s of
        (Inr resources, s1) \<Rightarrow> (Inr (if length resources > 0 then hd resources else 0), s1)
      | (Inl error, s1) \<Rightarrow>
          (Inl error,
           log_rethrown ''Error getting waitlist count:''
             ''Unknown error occurred while getting waitlist count'' error s1))"

definition createWaitlistSubmission ::
  "WaitlistData \<Rightarrow> 'w state \<Rightarrow> (js_value + WaitlistSubmission) \<times> 'w state" where
  "createWaitlistSubmission submission s =
     (case randomUUID s of
        (uuid, s1) \<Rightarrow>
          let id = ''waitlist-'' @ uuid
          in (case getWaitlistCount s1 of
                (Inl error, s2) \<Rightarrow> (Inl error, s2)
              | (Inr count, s2) \<Rightarrow>
                  let position = count + 1;
                      submissionData =
                        \<lparr> w_id = id, w_email = wd_email submission, w_name = wd_name submission,
                          w_status = wd_status submission, w_position = position,
                          w_submittedAt = wd_submittedAt submission,
                          w_partitionKey = wd_email submission \<rparr>
                  in (case create_waitlist_item submissionData s2 of
                        (Inr (Some resource), s3) \<Rightarrow> (Inr resource, s3)
                      | (Inr None, s3) \<Rightarrow>
                          (Inl (JError ''Failed to create waitlist submission in database'' []),
                           console Err ''Error creating waitlist submission:'' s3)
                      | (Inl error, s3) \<Rightarrow>
                          (Inl error,
                           log_rethrown ''Error creating waitlist submission:''
                             ''Unknown error occurred while creating waitlist submission'' error s3))))"

definition getWaitlistSubmissionByEmail ::
  "string \<Rightarrow> 'w state \<Rightarrow> (js_value + WaitlistSubmission option) \<times> 'w state" where
  "getWaitlistSubmissionByEmail email s =
     (case query_fetchAll (\<lambda>s. filter (\<lambda>c. w_email c = email) (WaitlistSubmissions s)) (Some 1) s of
        (Inr resources, s1) \<Rightarrow>
          (Inr (if length resources > 0 then Some (hd resources) else None), s1)
      | (Inl error, s1) \<Rightarrow>
          (Inl error,
           log_rethrown ''Error fetching waitlist submission by email:''
             ''Unknown error occurred while fetching waitlist submission'' error s1))"

definition getAllWaitlistSubmissions ::
  "waitlist_status option \<Rightarrow> nat option \<Rightarrow> 'w state
     \<Rightarrow> (js_value + WaitlistSubmission list) \<times> 'w state" where
  "getAllWaitlistSubmissions status limit_arg s =
     (let limit = (case limit_arg of None \<Rightarrow> 100 | Some l \<Rightarrow> l);
          matching =
            (case status of
               None \<Rightarrow> (\<lambda>s. sort_key w_position (WaitlistSubmissions s))
             | Some st \<Rightarrow>
                 (\<lambda>s. sort_key w_position
                         (filter (\<lambda>c. w_status c = st) (WaitlistSubmissions s))))
      in case query_fetchAll matching (Some limit) s of
           (Inr resources, s1) \<Rightarrow> (Inr resources, s1)
         | (Inl error, s1) \<Rightarrow>
             (Inl error,
              log_rethrown ''Error fetching waitlist submissions:''
                ''Unknown error occurred while fetching waitlist submissions'' error s1))"

section \<open>Sending the e-mails\<close>

text \<open>
  The four send methods build the message (the rendered bodies are left out of
  \<open>EmailMessage\<close>) and run the gateway call under \<^verbatim>\<open>retryWithBackoff\<close>.
\<close>

definition sendContactConfirmationEmail ::
  "'w EmailService \<Rightarrow> ContactSubmission \<Rightarrow> 'w state \<Rightarrow> (js_value + unit) \<times> 'w state" where
  "sendContactConfirmationEmail this submission s =
     (let emailMessage =
            \<lparr> msg_senderAddress = senderAddress this, msg_to = c_email submission,
              msg_subject = ''Thank You for Contacting AgentOja'' \<rparr>
      in case retryWithBackoff this (client this emailMessage)
                (''Contact confirmation email to '' @ c_email submission) s of
           (Inr u, s1) \<Rightarrow> (Inr (), console Info ''Confirmation email sent to:'' s1)
         | (Inl error, s1) \<Rightarrow>
             (Inl (JError (''Failed to send confirmation email: ''
                            @ message_or error ''Unknown error'') []),
              console Err ''Failed to send contact confirmation email after all retries:'' s1))"

definition sendContactNotificationEmail ::
  "'w EmailService \<Rightarrow> ContactSubmission \<Rightarrow> 'w state \<Rightarrow> (js_value + unit) \<times> 'w state" where
  "sendContactNotificationEmail this submission s =
     (let emailMessage =
            \<lparr> msg_senderAddress = senderAddress this, msg_to = adminEmail this,
              msg_subject = ''New Contact Form Submission - '' @ c_name submission \<rparr>
      in case retryWithBackoff this (client this emailMessage)
                (''Contact notification email to '' @ adminEmail this) s of
           (Inr u, s1) \<Rightarrow> (Inr (), console Info ''Contact notification sent to:'' s1)
         | (Inl error, s1) \<Rightarrow>
             (Inr (), console Err ''Contact notification failed after all retries. Logging for further investigation.'' s1))"

text \<open>
  The two waitlist methods of the class are the ones declared at its head; the
  retrying versions further down the file stand after the brace that closes the class.
\<close>

definition sendWaitlistConfirmationEmail ::
  "'w EmailService \<Rightarrow> WaitlistSubmission \<Rightarrow> 'w state \<Rightarrow> (js_value + unit) \<times> 'w state" where
  "sendWaitlistConfirmationEmail this submission s =
     (Inl (JError ''Method not implemented.'' []), s)"

definition sendWaitlistNotificationEmail ::
  "'w EmailService \<Rightarrow> WaitlistSubmission \<Rightarrow> 'w state \<Rightarrow> (js_value + unit) \<times> 'w state" where
  "sendWaitlistNotificationEmail this submission s =
     (Inl (JError ''Method not implemented.'' []), s)"

section \<open>The request handlers\<close>

text \<open>
  String methods, on ASCII text: \<^verbatim>\<open>trim\<close> strips the six ASCII white-space characters; the
  white space outside ASCII that it strips as well does not occur in such text.
\<close>

definition toLowerCase :: "string \<Rightarrow> string" where
  "toLowerCase str =
     map (\<lambda>c. case map_of (zip ''ABCDEFGHIJKLMNOPQRSTUVWXYZ'' ''abcdefghijklmnopqrstuvwxyz'') c of
                 Some l \<Rightarrow> l | None \<Rightarrow> c) str"

definition is_whitespace :: "char \<Rightarrow> bool" where
  "is_whitespace c = (c \<in> set [CHR '' '', CHR 0x09, CHR 0x0A, CHR 0x0B, CHR 0x0C, CHR 0x0D])"

definition trim :: "string \<Rightarrow> string" where
  "trim str = rev (dropWhile is_whitespace (rev (dropWhile is_whitespace str)))"

definition sanitizeString :: "string \<Rightarrow> nat \<Rightarrow> string" where
  "sanitizeString input maxLength = take maxLength (trim input)"

fun starts_with :: "string \<Rightarrow> string \<Rightarrow> bool" where
  "starts_with str [] = True"
| "starts_with [] (p # ps) = False"
| "starts_with (c # cs) (p # ps) = (c = p \<and> starts_with cs ps)"

fun string_includes :: "string \<Rightarrow> string \<Rightarrow> bool" where
  "string_includes [] sub = (sub = [])"
| "string_includes (c # cs) sub = (starts_with (c # cs) sub \<or> string_includes cs sub)"

record ContactRequest =
  req_name :: string
  req_email :: string
  req_message :: string

record WaitlistRequest =
  wreq_email :: string
  wreq_name :: "string option"

text \<open>
  Parsing and validating the request body are outside the model; their outcome is the
  handler's input: \<^verbatim>\<open>request.json()\<close> rejects, the validator throws a
  \<^verbatim>\<open>ValidationError\<close> with its message, or the body is a valid request.
\<close>

datatype 'r parsed = JsonThrows js_value | ValidationFails string | Validated 'r

record ContactResponseData =
  submissionId :: string
  email :: string

record WaitlistResponseData = ContactResponseData +
  position :: nat

text \<open>The HTTP response: the status and the fields of the JSON body.\<close>

record 'd response =
  r_status :: nat
  r_success :: bool
  r_message :: string
  r_error :: "string option"
  r_data :: "'d option"

text \<open>The outer \<^verbatim>\<open>catch\<close> of both handlers; the texts differ between them.\<close>

definition failure_response ::
  "string \<Rightarrow> string \<Rightarrow> js_value \<Rightarrow> 'w state \<Rightarrow> 'd response \<times> 'w state" where
  "failure_response log_text generic_message err s =
     (let errorMessage = message_or err ''Unknown error occurred'';
          s1 = console Err log_text s;
          showDetailedErrors = (process_env s1 ''SHOW_DETAILED_ERRORS'' = Some ''true'')
      in if instanceof_Error err \<and> string_includes (message_or err []) ''Resource Not Found''
         then (\<lparr> r_status = 503, r_success = False,
                  r_message = ''We could not process your request right now. Please try again.'',
                  r_error = Some (if showDetailedErrors then errorMessage
                                  else ''Service temporarily unavailable''),
                  r_data = None \<rparr>, s1)
         else (\<lparr> r_status = 500, r_success = False,
                  r_message = generic_message,
                  r_error = Some (if showDetailedErrors then errorMessage
                                  else ''Internal server error''),
                  r_data = None \<rparr>, s1))"

definition validation_response :: "string \<Rightarrow> 'w state \<Rightarrow> 'd response \<times> 'w state" where
  "validation_response msg s =
     (\<lparr> r_status = 400, r_success = False, r_message = ''Validation failed'',
        r_error = Some msg, r_data = None \<rparr>,
      console Warn ''Validation failed:'' s)"

text \<open>
  \<^verbatim>\<open>contactForm\<close> from the point where \<^verbatim>\<open>createContactSubmission\<close> has returned the
  persisted submission: the confirmation e-mail is awaited; the admin notification is
  started without being awaited (here it runs to its end, and only a log line depends on
  its outcome).
\<close>

definition contact_notify ::
  "'w EmailService \<Rightarrow> ContactSubmission \<Rightarrow> 'w state \<Rightarrow> ContactResponseData response \<times> 'w state" where
  "contact_notify emailService submission s2 =
     (case sendContactConfirmationEmail emailService submission
             (console Info ''Contact submission saved to database:'' s2) of
        (Inl err, s3) \<Rightarrow>
          (\<lparr> r_status = 500, r_success = False,
             r_message = ''Your message was saved, but we could not send the confirmation email. Please try again or contact us directly.'',
             r_error = Some ''Failed to send confirmation email'',
             r_data = Some \<lparr> submissionId = c_id submission, email = c_email submission \<rparr> \<rparr>,
           console Err ''Failed to send confirmation email after retries:'' s3)
      | (Inr u, s3) \<Rightarrow>
          (case sendContactNotificationEmail emailService submission
                  (console Info ''Confirmation email sent successfully'' s3) of
             (outcome, s4) \<Rightarrow>
               (\<lparr> r_status = 200, r_success = True,
                  r_message = ''Thank you for contacting us! We will get back to you within 24-48 hours.'',
                  r_error = None,
                  r_data = Some \<lparr> submissionId = c_id submission, email = c_email submission \<rparr> \<rparr>,
                (case outcome of
                   Inr u \<Rightarrow> console Info ''Admin notification sent successfully'' s4
                 | Inl err \<Rightarrow>
                     console Warn ''Failed to send admin notification (non-critical):'' s4))))"

definition contactForm ::
  "(string \<Rightarrow> EmailMessage \<Rightarrow> 'w \<Rightarrow> (js_value + unit) \<times> 'w) \<Rightarrow> ContactRequest parsed \<Rightarrow> 'w state
     \<Rightarrow> ContactResponseData response \<times> 'w state" where
  "contactForm EmailClient body s0 =
     (let failed = failure_response ''Error processing contact form:''
                     ''An error occurred while processing your message. Please try again later.'';
          s = console Info ''Contact form submission received'' s0
      in case body of
           JsonThrows err \<Rightarrow> failed err s
         | ValidationFails msg \<Rightarrow> validation_response msg (console Info ''Contact from:'' s)
         | Validated requestData \<Rightarrow>
             (case DatabaseService_new (process_env s) of
                Inl err \<Rightarrow> failed err (console Info ''Contact from:'' s)
              | Inr dbService \<Rightarrow>
             (case EmailService_new EmailClient (process_env s) of
                Inl err \<Rightarrow> failed err (console Info ''Contact from:'' s)
              | Inr emailService \<Rightarrow>
             (case Date_toISOString (console Info ''Contact from:'' s) of
                (submittedAt, s1) \<Rightarrow>
             (case createContactSubmission
                     \<lparr> cd_name = sanitizeString (req_name requestData) 100,
                       cd_email = trim (toLowerCase (req_email requestData)),
                       cd_message = sanitizeString (req_message requestData) 2000,
                       cd_status = New,
                       cd_submittedAt = submittedAt \<rparr> s1 of
                (Inl err, s2) \<Rightarrow> failed err s2
              | (Inr submission, s2) \<Rightarrow> contact_notify emailService submission s2)))))"

text \<open>
  \<^verbatim>\<open>waitlist\<close> from the point where \<^verbatim>\<open>createWaitlistSubmission\<close> has returned the persisted
  submission; both e-mails are awaited.
\<close>

definition waitlist_notify ::
  "'w EmailService \<Rightarrow> WaitlistSubmission \<Rightarrow> 'w state \<Rightarrow> WaitlistResponseData response \<times> 'w state" where
  "waitlist_notify emailService submission s3 =
     (case sendWaitlistConfirmationEmail emailService submission
             (console Info ''Waitlist submission saved to database:'' s3) of
        (Inl err, s4) \<Rightarrow>
          (\<lparr> r_status = 500, r_success = False,
             r_message = ''You have been added to the waitlist, but we could not send the confirmation email. Please try again or contact us directly.'',
             r_error = Some ''Failed to send confirmation email'',
             r_data = Some \<lparr> submissionId = w_id submission, email = w_email submission,
                             position = w_position submission \<rparr> \<rparr>,
           console Err ''Failed to send waitlist confirmation email after retries:'' s4)
      | (Inr u, s4) \<Rightarrow>
          (case sendWaitlistNotificationEmail emailService submission
                  (console Info ''Waitlist confirmation email sent successfully'' s4) of
             (outcome, s5) \<Rightarrow>
               (\<lparr> r_status = 200, r_success = True,
                  r_message = ''Welcome to the waitlist! You will be notified when AgentOja launches.'',
                  r_error = None,
                  r_data = Some \<lparr> submissionId = w_id submission, email = w_email submission,
                                  position = w_position submission \<rparr> \<rparr>,
                (case outcome of
                   Inr u \<Rightarrow> console Info ''Waitlist admin notification sent successfully'' s5
                 | Inl err \<Rightarrow>
                     console Warn ''Failed to send waitlist admin notification (non-critical):'' s5))))"

definition waitlist ::
  "(string \<Rightarrow> EmailMessage \<Rightarrow> 'w \<Rightarrow> (js_value + unit) \<times> 'w) \<Rightarrow> WaitlistRequest parsed \<Rightarrow> 'w state
     \<Rightarrow> WaitlistResponseData response \<times> 'w state" where
  "waitlist EmailClient body s0 =
     (let failed = failure_response ''Error processing waitlist submission:''
                     ''An error occurred while processing your waitlist signup. Please try again later.'';
          s = console Info ''Waitlist submission received'' s0
      in case body of
           JsonThrows err \<Rightarrow> failed err s
         | ValidationFails msg \<Rightarrow> validation_response msg (console Info ''Waitlist signup from:'' s)
         | Validated requestData \<Rightarrow>
             (case DatabaseService_new (process_env s) of
                Inl err \<Rightarrow> failed err (console Info ''Waitlist signup from:'' s)
              | Inr dbService \<Rightarrow>
             (case EmailService_new EmailClient (process_env s) of
                Inl err \<Rightarrow> failed err (console Info ''Waitlist signup from:'' s)
              | Inr emailService \<Rightarrow>
             (case getWaitlistSubmissionByEmail (trim (toLowerCase (wreq_email requestData)))
                     (console Info ''Waitlist signup from:'' s) of
                (Inl err, s1) \<Rightarrow> failed err s1
              | (Inr (Some existingSubmission), s1) \<Rightarrow>
                  (\<lparr> r_status = 200, r_success = True,
                     r_message = ''You are already on our waitlist! We will notify you when we launch.'',
                     r_error = None,
                     r_data = Some \<lparr> submissionId = w_id existingSubmission,
                                     email = w_email existingSubmission,
                                     position = w_position existingSubmission \<rparr> \<rparr>,
                   console Info ''Email already exists in waitlist:'' s1)
              | (Inr None, s1) \<Rightarrow>
             (case Date_toISOString s1 of
                (submittedAt, s2) \<Rightarrow>
             (case createWaitlistSubmission
                     \<lparr> wd_email = trim (toLowerCase (wreq_email requestData)),
                       wd_name = (case wreq_name requestData of
                                    None \<Rightarrow> None
                                  | Some n \<Rightarrow> if n = [] then None else Some (sanitizeString n 100)),
                       wd_status = Active,
                       wd_submittedAt = submittedAt \<rparr> s2 of
                (Inl err, s3) \<Rightarrow> failed err s3
              | (Inr submission, s3) \<Rightarrow> waitlist_notify emailService submission s3))))))"

section \<open>Reading a run off its events\<close>

fun is_Invoked :: "event \<Rightarrow> bool" where
  "is_Invoked (Invoked n) = True"
| "is_Invoked e = False"

fun is_Slept :: "event \<Rightarrow> bool" where
  "is_Slept (Slept n) = True"
| "is_Slept e = False"

fun is_Created :: "event \<Rightarrow> bool" where
  "is_Created (Created c i) = True"
| "is_Created e = False"

text \<open>How often the operation was called, and how often the executor slept.\<close>

definition invocations :: "event list \<Rightarrow> nat" where
  "invocations evs = length (filter is_Invoked evs)"

definition sleeps :: "event list \<Rightarrow> nat" where
  "sleeps evs = length (filter is_Slept evs)"

text \<open>The events of a run that started in \<open>s\<close> and ended in \<open>s'\<close>.\<close>

definition events_since :: "'w state \<Rightarrow> 'w state \<Rightarrow> event list" where
  "events_since s s' = drop (length (trace s)) (trace s')"


text \<open>
  From \<open>s\<close> to \<open>s'\<close> no container changed and no item was written: only events that are
  not writes were added.
\<close>

definition only_notifies :: "'w state \<Rightarrow> 'w state \<Rightarrow> bool" where
  "only_notifies s s' =
     (ContactSubmissions s' = ContactSubmissions s \<and>
      WaitlistSubmissions s' = WaitlistSubmissions s \<and>
      take (length (trace s)) (trace s') = trace s \<and>
      list_all (\<lambda>e. \<not> is_Created e) (events_since s s'))"

text \<open>A run that wrote nothing and attempted no send.\<close>

definition quiet :: "'w state \<Rightarrow> 'w state \<Rightarrow> bool" where
  "quiet s s' =
     (ContactSubmissions s' = ContactSubmissions s \<and>
      WaitlistSubmissions s' = WaitlistSubmissions s \<and>
      gateway s' = gateway s \<and>
      take (length (trace s)) (trace s') = trace s \<and>
      list_all (\<lambda>e. \<not> is_Created e \<and> \<not> is_Invoked e) (events_since s s'))"

text \<open>
  What a failed attempt that will be retried leaves behind: the call, two log lines and
  the sleep of the computed delay.
\<close>

definition retry_round :: "'w EmailService \<Rightarrow> string \<Rightarrow> nat \<Rightarrow> double \<Rightarrow> event list" where
  "retry_round this name k rnd =
     [Invoked name, Console Info ''failed. Retrying'', Console Err ''Error details'',
      Slept (delayMs this k rnd)]"

text \<open>The rounds of the failed attempts \<open>a, \<dots>, b - 1\<close>, drawing \<open>rs 0, rs 1, \<dots>\<close>.\<close>

definition retry_rounds ::
  "'w EmailService \<Rightarrow> string \<Rightarrow> (nat \<Rightarrow> double) \<Rightarrow> nat \<Rightarrow> nat \<Rightarrow> event list" where
  "retry_rounds this name rs a b =
     concat (map (\<lambda>k. retry_round this name k (rs (k - a))) [a..<b])"

text \<open>The gateway after \<open>n\<close> calls of the operation.\<close>

definition after_invocations :: "('w \<Rightarrow> (js_value + 'a) \<times> 'w) \<Rightarrow> nat \<Rightarrow> 'w \<Rightarrow> 'w" where
  "after_invocations operation n g = ((\<lambda>g. snd (operation g)) ^^ n) g"

section \<open>Concrete inputs\<close>

text \<open>
  A process environment with both connection strings; gateways whose state counts the
  accepted messages (one accepts, one times out, one answers 404, one accepts all but the
  admin's mail, one times out once and then answers 404); requests, stored records and a
  state with empty containers and a reachable database.
\<close>

definition demo_env :: "string \<rightharpoonup> string" where
  "demo_env = [''COMMUNICATION_SERVICES_CONNECTION_STRING'' \<mapsto> ''endpoint=acs'',
               ''COSMOS_CONNECTION_STRING'' \<mapsto> ''AccountEndpoint=cosmos'']"

definition timed_out :: js_value where
  "timed_out = JError ''Request timed out'' []"

definition not_found :: js_value where
  "not_found = JError ''Not Found'' [(''statusCode'', JNumber 404)]"

definition accepting :: "string \<Rightarrow> EmailMessage \<Rightarrow> nat \<Rightarrow> (js_value + unit) \<times> nat" where
  "accepting connectionString m n = (Inr (), Suc n)"

definition timing_out :: "string \<Rightarrow> EmailMessage \<Rightarrow> nat \<Rightarrow> (js_value + unit) \<times> nat" where
  "timing_out connectionString m n = (Inl timed_out, n)"

definition answering_404 :: "string \<Rightarrow> EmailMessage \<Rightarrow> nat \<Rightarrow> (js_value + unit) \<times> nat" where
  "answering_404 connectionString m n = (Inl not_found, n)"

definition admin_unreachable :: "string \<Rightarrow> EmailMessage \<Rightarrow> nat \<Rightarrow> (js_value + unit) \<times> nat" where
  "admin_unreachable connectionString m n =
     (if msg_to m = ''info@agentoja.com'' then (Inl timed_out, n) else (Inr (), Suc n))"

definition timeout_then_404 :: "nat \<Rightarrow> (js_value + unit) \<times> nat" where
  "timeout_then_404 n = (if n = 0 then (Inl timed_out, 1) else (Inl not_found, Suc n))"

definition demo_message :: EmailMessage where
  "demo_message =
     \<lparr> msg_senderAddress = ''noreply@agentoja.com'', msg_to = ''jane@x.com'',
       msg_subject = ''Thank You for Contacting AgentOja'' \<rparr>"

definition demo_service ::
  "(string \<Rightarrow> EmailMessage \<Rightarrow> nat \<Rightarrow> (js_value + unit) \<times> nat) \<Rightarrow> nat EmailService" where
  "demo_service EmailClient =
     \<lparr> client = EmailClient ''endpoint=acs'',
       senderAddress = ''noreply@agentoja.com'',
       adminEmail = ''info@agentoja.com'',
       MAX_RETRIES = 3,
       INITIAL_DELAY_MS = (1000, 0),
       MAX_DELAY_MS = (30000, 0),
       BACKOFF_MULTIPLIER = (2, 0),
       JITTER_PERCENTAGE = (1, - 2) \<rparr>"

definition demo_request :: ContactRequest where
  "demo_request = \<lparr> req_name = ''Jane Doe'', req_email = ''Jane@X.com'', req_message = ''hi'' \<rparr>"

definition demo_signup :: WaitlistRequest where
  "demo_signup = \<lparr> wreq_email = ''Jane@X.com'', wreq_name = Some ''Jane Doe'' \<rparr>"

definition demo_submission :: ContactSubmission where
  "demo_submission =
     \<lparr> c_id = ''contact-uuid-'', c_name = ''Jane Doe'', c_email = ''jane@x.com'',
       c_message = ''hi'', c_status = New, c_submittedAt = ''2024-05-01T10:00:00.000Z'',
       c_partitionKey = ''jane@x.com'' \<rparr>"

definition demo_waitlisted :: WaitlistSubmission where
  "demo_waitlisted =
     \<lparr> w_id = ''waitlist-uuid-'', w_email = ''jane@x.com'', w_name = Some ''Jane Doe'',
       w_status = Active, w_position = 1, w_submittedAt = ''2024-05-01T10:00:00.000Z'',
       w_partitionKey = ''jane@x.com'' \<rparr>"

definition demo_notified :: WaitlistSubmission where
  "demo_notified =
     \<lparr> w_id = ''waitlist-0001'', w_email = ''jane@x.com'', w_name = None,
       w_status = Notified, w_position = 3, w_submittedAt = ''2024-01-15T08:30:00.000Z'',
       w_partitionKey = ''jane@x.com'' \<rparr>"

definition five_active :: "WaitlistSubmission list" where
  "five_active =
     map (\<lambda>n. \<lparr> w_id = ''waitlist-'' @ replicate n (CHR ''a''), w_email = ''user@x.com'', w_name = None,
                 w_status = Active, w_position = n, w_submittedAt = ''2024-01-15T08:30:00.000Z'',
                 w_partitionKey = ''user@x.com'' \<rparr>) [1, 2, 3, 4, 5]"

definition demo_data :: WaitlistData where
  "demo_data = \<lparr> wd_email = ''jane@x.com'', wd_name = Some ''Jane Doe'', wd_status = Active,
                 wd_submittedAt = ''2024-05-01T10:00:00.000Z'' \<rparr>"

definition later_submission :: ContactSubmission where
  "later_submission =
     \<lparr> c_id = ''contact-0002'', c_name = ''John Roe'', c_email = ''john@x.com'',
       c_message = ''hello'', c_status = Read, c_submittedAt = ''2024-06-01T09:00:00.000Z'',
       c_partitionKey = ''john@x.com'' \<rparr>"

text \<open>
  A result of \<^verbatim>\<open>Math.random()\<close> for which the double arithmetic of the delay computation
  arrives at 1560.5 where the sum over the reals stays below it.
\<close>

definition demo_random :: double where
  "demo_random = (272467777455915, - 52)"

definition demo_state :: "nat state" where
  "demo_state =
     \<lparr> gateway = 0,
       randoms = (\<lambda>n. (1, - 1)),
       uuids = (\<lambda>n. ''uuid-'' @ replicate n (CHR ''x'')),
       clock = (\<lambda>n. ''2024-05-01T10:00:00.000Z''),
       ContactSubmissions = [],
       WaitlistSubmissions = [],
       cosmos_faults = (\<lambda>n. None),
       process_env = demo_env,
       trace = [] \<rparr>"

section \<open>Rounding to the nearest double\<close>

lemma bit_length_bounds:
  "0 < n \<Longrightarrow> 2 ^ (bit_length n - 1) \<le> n \<and> n < 2 ^ bit_length n"
proof (induction n rule: bit_length.induct)
  case (1 n)
  show ?case
  proof (cases "n div 2 = 0")
    case True
    with 1(2) have "n = 1" by (simp add: div_eq_0_iff) 
    then show ?thesis by (simp add: bit_length.simps)
  next
    case False
    then have pos: "0 < n div 2" by simp
    have n0: "n \<noteq> 0" using 1(2) by simp
    note ih = 1(1) [OF n0 pos]
    have bl: "bit_length n = Suc (bit_length (n div 2))"
      using n0 by (subst bit_length.simps) simp
    have b1: "1 \<le> bit_length (n div 2)"
      using False by (subst bit_length.simps) simp
    have "2 ^ (bit_length n - 1) = 2 * 2 ^ (bit_length (n div 2) - 1)"
      using b1 unfolding bl by (cases "bit_length (n div 2)") simp_all
    also have "\<dots> \<le> 2 * (n div 2)" using ih by simp
    also have "\<dots> \<le> n" by simp
    finally have lo: "2 ^ (bit_length n - 1) \<le> n" .
    have "n < 2 * (n div 2 + 1)" by presburger
    also have "\<dots> \<le> 2 * 2 ^ bit_length (n div 2)" using ih by simp
    finally have hi: "n < 2 ^ bit_length n" unfolding bl by simp
    show ?thesis using lo hi by simp
  qed
qed

lemma round_half_even_facts:
  fixes X :: int
  assumes X: "0 < X" and n: "bit_length (nat X) = 53 + d" and d: "1 \<le> d"
  obtains q r where "X = q * 2 ^ d + r" "0 \<le> r" "r < 2 ^ d" "2 ^ 52 \<le> q" "q < 2 ^ 53"
    "q \<le> round_half_even X d" "round_half_even X d \<le> q + 1"
    "r = 0 \<Longrightarrow> round_half_even X d = q"
    "2 * \<bar>round_half_even X d * 2 ^ d - X\<bar> \<le> 2 ^ d"
proof -
  define D :: int where "D = 2 ^ d"
  define q where "q = X div D"
  define r where "r = X mod D"
  define h :: int where "h = 2 ^ (d - 1)"
  have Dpos: "0 < D" unfolding D_def by simp
  have Dh: "D = 2 * h" unfolding D_def h_def using d by (cases d) simp_all
  have hpos: "0 < h" unfolding h_def by simp
  have dec: "X = q * D + r" unfolding q_def r_def by simp
  have r0: "0 \<le> r" and r1: "r < D" unfolding r_def using Dpos by simp_all
  have pos: "0 < nat X" using X by simp
  from bit_length_bounds [OF pos] have "2 ^ (52 + d) \<le> nat X" "nat X < 2 ^ (53 + d)"
    unfolding n by simp_all
  then have lo: "(2::int) ^ 52 * D \<le> X" and hi: "X < (2::int) ^ 53 * D"
    using X unfolding D_def by (simp_all add: le_nat_iff nat_less_iff power_add)
  have "2 ^ 52 * D < (q + 1) * D" using lo dec r1 by (simp add: algebra_simps)
  then have "2 ^ 52 < q + 1" using Dpos by (simp only: mult_less_cancel_right_pos)
  then have q0: "2 ^ 52 \<le> q" by simp
  have "q * D < 2 ^ 53 * D" using hi dec r0 by simp
  then have q1: "q < 2 ^ 53" using Dpos by (simp only: mult_less_cancel_right_pos)
  have rhe: "round_half_even X d = (if r < h \<or> (r = h \<and> even q) then q else q + 1)"
    unfolding round_half_even_def Let_def q_def r_def h_def D_def ..
  have a: "q \<le> round_half_even X d" "round_half_even X d \<le> q + 1"
    unfolding rhe by simp_all
  have b: "round_half_even X d = q" if "r = 0"
    unfolding rhe using that hpos by simp
  have c: "2 * \<bar>round_half_even X d * D - X\<bar> \<le> D"
  proof (cases "r < h \<or> (r = h \<and> even q)")
    case True
    then have "round_half_even X d * D - X = - r" unfolding rhe using dec by simp
    then show ?thesis using True r0 Dh by auto
  next
    case False
    then have "round_half_even X d = q + 1" unfolding rhe by (simp only: if_False)
    then have "round_half_even X d * D - X = D - r" using dec
      by (simp add: algebra_simps)
    then show ?thesis using False r1 Dh by auto
  qed
  show ?thesis
    using that [of q r] dec r0 r1 q0 q1 a b c unfolding D_def by blast
qed

lemma no_double_inside:
  fixes q mb k :: int and d :: nat
  assumes q: "2 ^ 52 \<le> q" and mb: "\<bar>mb\<bar> < 2 ^ 53"
    and lo: "real_of_int (q * 2 ^ d) < real_of_int mb * 2 powi k"
    and hi: "real_of_int mb * 2 powi k < real_of_int ((q + 1) * 2 ^ d)"
  shows False
proof -
  have p: "(0::real) < 2 powi k" by simp
  have qpos: "0 < q" using q by (simp add: less_le_trans [of 0 "2 ^ 52"])
  have "(0::real) < real_of_int (q * 2 ^ d)" using qpos by simp
  then have "0 < real_of_int mb * 2 powi k" using lo by linarith
  then have mbpos: "0 < mb" using p by (simp add: zero_less_mult_iff)
  have kd: "int d \<le> k"
  proof (rule ccontr)
    assume "\<not> int d \<le> k"
    then have "k \<le> int d - 1" by simp
    then have "(2::real) powi k \<le> 2 powi (int d - 1)"
      by (intro power_int_increasing) simp_all
    also have "\<dots> = 2 ^ d / 2" by (simp add: power_int_diff)
    finally have le: "(2::real) powi k \<le> 2 ^ d / 2" .
    have "real_of_int mb < 2 ^ 53" using mb mbpos
      by (metis abs_of_pos of_int_less_numeral_power_cancel_iff)
    then have "real_of_int mb * 2 powi k < 2 ^ 53 * 2 powi k" using p by simp
    also have "\<dots> \<le> 2 ^ 53 * (2 ^ d / 2)" using le by simp
    also have "\<dots> = 2 ^ 52 * 2 ^ d" by simp
    also have "\<dots> \<le> real_of_int q * 2 ^ d" using q
      by simp
    finally show False using lo by simp
  qed
  define j where "j = nat (k - int d)"
  have k: "k = int j + int d" unfolding j_def using kd by simp
  have "(2::real) powi k = 2 ^ j * 2 ^ d" unfolding k by (simp add: power_int_add)
  then have b: "real_of_int mb * 2 powi k = real_of_int (mb * 2 ^ j) * 2 ^ d" by simp
  have "real_of_int q * 2 ^ d < real_of_int (mb * 2 ^ j) * 2 ^ d" using lo unfolding b by simp
  then have "real_of_int q < real_of_int (mb * 2 ^ j)" by (simp only: mult_less_cancel_right_pos zero_less_power zero_less_numeral)
  then have 1: "q < mb * 2 ^ j" by (simp only: of_int_less_iff)
  have "real_of_int (mb * 2 ^ j) * 2 ^ d < real_of_int (q + 1) * 2 ^ d" using hi unfolding b by simp
  then have "real_of_int (mb * 2 ^ j) < real_of_int (q + 1)" by (simp only: mult_less_cancel_right_pos zero_less_power zero_less_numeral)
  then have 2: "mb * 2 ^ j < q + 1" by (simp only: of_int_less_iff)
  show False using 1 2 by simp
qed

lemma round_half_even_grid:
  fixes X mb k :: int
  assumes X: "0 < X" and n: "bit_length (nat X) = 53 + d" and d: "1 \<le> d"
    and mb: "\<bar>mb\<bar> < 2 ^ 53"
  shows "real_of_int X \<le> real_of_int mb * 2 powi k
           \<Longrightarrow> real_of_int (round_half_even X d * 2 ^ d) \<le> real_of_int mb * 2 powi k"
    and "real_of_int mb * 2 powi k \<le> real_of_int X
           \<Longrightarrow> real_of_int mb * 2 powi k \<le> real_of_int (round_half_even X d * 2 ^ d)"
proof -
  define b where "b = real_of_int mb * 2 powi k"
  obtain q r where f: "X = q * 2 ^ d + r" "0 \<le> r" "r < 2 ^ d" "2 ^ 52 \<le> q"
    "q \<le> round_half_even X d" "round_half_even X d \<le> q + 1"
    "r = 0 \<Longrightarrow> round_half_even X d = q"
    using round_half_even_facts [OF X n d] by metis
  define q' where "q' = round_half_even X d"
  have up: "real_of_int (q' * 2 ^ d) \<le> real_of_int ((q + 1) * 2 ^ d)"
    using f(6) unfolding q'_def of_int_le_iff by (intro mult_right_mono) simp_all
  have down: "real_of_int (q * 2 ^ d) \<le> real_of_int (q' * 2 ^ d)"
    using f(5) unfolding q'_def of_int_le_iff by (intro mult_right_mono) simp_all
  have Xhi: "real_of_int X < real_of_int ((q + 1) * 2 ^ d)"
    using f(1,3) by (simp only: of_int_less_iff) (simp add: algebra_simps)
  have Xlo: "real_of_int (q * 2 ^ d) \<le> real_of_int X"
    using f(1,2) by simp
  show "real_of_int (q' * 2 ^ d) \<le> b" if le: "real_of_int X \<le> b"
  proof (cases "r = 0")
    case True
    then have "q' * 2 ^ d = X" using f(1) f(7) unfolding q'_def by simp
    then show ?thesis using le by simp
  next
    case False
    then have "real_of_int (q * 2 ^ d) < real_of_int X"
      using f(1,2) by simp
    then have lo: "real_of_int (q * 2 ^ d) < b" using le by linarith
    have "\<not> b < real_of_int ((q + 1) * 2 ^ d)"
      using no_double_inside [OF f(4) mb, of d k] lo unfolding b_def by blast
    then show ?thesis using up by linarith
  qed
  show "b \<le> real_of_int (q' * 2 ^ d)" if le: "b \<le> real_of_int X"
  proof (cases "b \<le> real_of_int (q * 2 ^ d)")
    case True
    then show ?thesis using down by linarith
  next
    case False
    then have lo: "real_of_int (q * 2 ^ d) < b" by simp
    have hi: "b < real_of_int ((q + 1) * 2 ^ d)" using le Xhi by linarith
    show ?thesis using no_double_inside [OF f(4) mb, of d k] lo hi unfolding b_def by blast
  qed
qed

lemma round_to_double_shape:
  obtains Y where "d_val (round_to_double m e) = real_of_int Y * 2 powi e"
    "\<bar>Y - m\<bar> * 2 ^ 53 \<le> \<bar>m\<bar>"
    "\<And>mb k. \<bar>mb\<bar> < 2 ^ 53 \<Longrightarrow> real_of_int m \<le> real_of_int mb * 2 powi k
        \<Longrightarrow> real_of_int Y \<le> real_of_int mb * 2 powi k"
    "\<And>mb k. \<bar>mb\<bar> < 2 ^ 53 \<Longrightarrow> real_of_int mb * 2 powi k \<le> real_of_int m
        \<Longrightarrow> real_of_int mb * 2 powi k \<le> real_of_int Y"
proof (cases "bit_length (nat \<bar>m\<bar>) \<le> 53")
  case True
  then have "round_to_double m e = (m, e)" by (simp add: round_to_double_def)
  then have "d_val (round_to_double m e) = real_of_int m * 2 powi e" by (simp add: d_val_def)
  then show ?thesis using that [of m] by simp
next
  case False
  define d where "d = bit_length (nat \<bar>m\<bar>) - 53"
  define X where "X = \<bar>m\<bar>"
  define q' where "q' = round_half_even X d"
  have d: "1 \<le> d" and n: "bit_length (nat X) = 53 + d"
    using False unfolding d_def X_def by simp_all
  have "nat X \<noteq> 0" using n by (subst (asm) bit_length.simps) (simp split: if_splits)
  then have X: "0 < X" by simp
  then have m0: "m \<noteq> 0" unfolding X_def by simp
  have m: "m = sgn m * X" unfolding X_def by (simp add: mult_sgn_abs)
  obtain q r where f: "X = q * 2 ^ d + r" "0 \<le> r" "2 ^ 52 \<le> q"
    "2 * \<bar>q' * 2 ^ d - X\<bar> \<le> 2 ^ d"
    using round_half_even_facts [OF X n d] unfolding q'_def by metis
  define Y where "Y = sgn m * (q' * 2 ^ d)"
  have r: "round_to_double m e = (sgn m * q', e + int d)"
    using False unfolding round_to_double_def Let_def q'_def d_def X_def by simp
  have v: "d_val (round_to_double m e) = real_of_int Y * 2 powi e"
    unfolding r d_val_def Y_def by (simp add: power_int_add)
  have "Y - m = sgn m * (q' * 2 ^ d - X)"
    unfolding Y_def by (subst (2) m) (simp add: algebra_simps)
  then have "\<bar>Y - m\<bar> = \<bar>q' * 2 ^ d - X\<bar>" using m0 by (simp add: abs_mult abs_sgn_eq)
  then have "\<bar>Y - m\<bar> * 2 ^ 53 = 2 * \<bar>q' * 2 ^ d - X\<bar> * 2 ^ 52" by simp
  also have "\<dots> \<le> 2 ^ d * 2 ^ 52" using f(4) by (simp only: mult_le_cancel_right) simp
  also have "\<dots> \<le> q * 2 ^ d" using f(3) by simp
  also have "\<dots> \<le> X" using f(1,2) by simp
  finally have err: "\<bar>Y - m\<bar> * 2 ^ 53 \<le> \<bar>m\<bar>" unfolding X_def .
  have up: "real_of_int Y \<le> real_of_int mb * 2 powi k"
    if mb: "\<bar>mb\<bar> < 2 ^ 53" and le: "real_of_int m \<le> real_of_int mb * 2 powi k" for mb k
  proof (cases "0 < m")
    case True
    then have "m = X" "Y = q' * 2 ^ d" unfolding X_def Y_def by simp_all
    then show ?thesis
      using round_half_even_grid(1) [OF X n d mb, of k] le unfolding q'_def by simp
  next
    case False
    then have "m = - X" "Y = - (q' * 2 ^ d)" using m0 unfolding X_def Y_def by simp_all
    moreover have "\<bar>- mb\<bar> < 2 ^ 53" using mb by simp
    ultimately show ?thesis
      using round_half_even_grid(2) [OF X n d \<open>\<bar>- mb\<bar> < 2 ^ 53\<close>, of k] le unfolding q'_def by simp
  qed
  have down: "real_of_int mb * 2 powi k \<le> real_of_int Y"
    if mb: "\<bar>mb\<bar> < 2 ^ 53" and le: "real_of_int mb * 2 powi k \<le> real_of_int m" for mb k
  proof (cases "0 < m")
    case True
    then have "m = X" "Y = q' * 2 ^ d" unfolding X_def Y_def by simp_all
    then show ?thesis
      using round_half_even_grid(2) [OF X n d mb, of k] le unfolding q'_def by simp
  next
    case False
    then have "m = - X" "Y = - (q' * 2 ^ d)" using m0 unfolding X_def Y_def by simp_all
    moreover have "\<bar>- mb\<bar> < 2 ^ 53" using mb by simp
    ultimately show ?thesis
      using round_half_even_grid(1) [OF X n d \<open>\<bar>- mb\<bar> < 2 ^ 53\<close>, of k] le unfolding q'_def by simp
  qed
  show ?thesis using that [of Y] v err up down by blast
qed

lemma rounded_le: "rounded x y \<Longrightarrow> is_double b \<Longrightarrow> x \<le> d_val b \<Longrightarrow> y \<le> d_val b"
  unfolding rounded_def by blast

lemma rounded_ge: "rounded x y \<Longrightarrow> is_double b \<Longrightarrow> d_val b \<le> x \<Longrightarrow> d_val b \<le> y"
  unfolding rounded_def by blast

lemma rounded_exact: "rounded x y \<Longrightarrow> is_double b \<Longrightarrow> x = d_val b \<Longrightarrow> y = x"
  using rounded_le [of x y b] rounded_ge [of x y b] by simp

lemma rounded_error: "rounded x y \<Longrightarrow> \<bar>y - x\<bar> \<le> \<bar>x\<bar> / 2 ^ 53"
  unfolding rounded_def by blast

lemma rounded_round_to_double: "rounded (d_val (m, e)) (d_val (round_to_double m e))"
proof (rule round_to_double_shape [of m e])
  fix Y
  assume Y: "d_val (round_to_double m e) = real_of_int Y * 2 powi e"
    "\<bar>Y - m\<bar> * 2 ^ 53 \<le> \<bar>m\<bar>"
    "\<And>mb k. \<bar>mb\<bar> < 2 ^ 53 \<Longrightarrow> real_of_int m \<le> real_of_int mb * 2 powi k
        \<Longrightarrow> real_of_int Y \<le> real_of_int mb * 2 powi k"
    "\<And>mb k. \<bar>mb\<bar> < 2 ^ 53 \<Longrightarrow> real_of_int mb * 2 powi k \<le> real_of_int m
        \<Longrightarrow> real_of_int mb * 2 powi k \<le> real_of_int Y"
  have p: "(0::real) < 2 powi e" by simp
  have x: "d_val (m, e) = real_of_int m * 2 powi e" by (simp add: d_val_def)
  have "real_of_int (\<bar>Y - m\<bar> * 2 ^ 53) \<le> real_of_int \<bar>m\<bar>" using Y(2) by (simp only: of_int_le_iff)
  then have "\<bar>real_of_int Y - real_of_int m\<bar> \<le> \<bar>real_of_int m\<bar> / 2 ^ 53"
    by (simp add: field_simps)
  then have "\<bar>real_of_int Y - real_of_int m\<bar> * 2 powi e \<le> \<bar>real_of_int m\<bar> / 2 ^ 53 * 2 powi e"
    using p by (simp only: mult_le_cancel_right_pos)
  moreover have "\<bar>real_of_int Y * 2 powi e - real_of_int m * 2 powi e\<bar>
      = \<bar>real_of_int Y - real_of_int m\<bar> * 2 powi e"
    by (simp add: abs_mult flip: left_diff_distrib)
  moreover have "\<bar>real_of_int m * 2 powi e\<bar> / 2 ^ 53 = \<bar>real_of_int m\<bar> / 2 ^ 53 * 2 powi e"
    by (simp add: abs_mult)
  ultimately have err: "\<bar>d_val (round_to_double m e) - d_val (m, e)\<bar> \<le> \<bar>d_val (m, e)\<bar> / 2 ^ 53"
    unfolding Y(1) x by simp
  have grid: "(d_val (m, e) \<le> d_val b \<longrightarrow> d_val (round_to_double m e) \<le> d_val b) \<and>
      (d_val b \<le> d_val (m, e) \<longrightarrow> d_val b \<le> d_val (round_to_double m e))"
    if b: "is_double b" for b
  proof -
    obtain mb kb where bb: "b = (mb, kb)" by (cases b)
    have mb: "\<bar>mb\<bar> < 2 ^ 53" using b unfolding bb is_double_def by simp
    have s: "d_val b = (real_of_int mb * 2 powi (kb - e)) * 2 powi e"
      unfolding bb d_val_def by (simp add: power_int_diff)
    show ?thesis
      unfolding Y(1) x s using Y(3) [OF mb, of "kb - e"] Y(4) [OF mb, of "kb - e"] p
      by (simp only: mult_le_cancel_right_pos) blast
  qed
  show ?thesis unfolding rounded_def using err grid by blast
qed

lemma rounded_d_mul: "rounded (d_val x * d_val y) (d_val (d_mul x y))"
proof -
  have "d_val (fst x * fst y, snd x + snd y) = d_val x * d_val y"
    by (simp add: d_val_def power_int_add)
  then show ?thesis
    unfolding d_mul_def using rounded_round_to_double [of "fst x * fst y" "snd x + snd y"] by simp
qed

lemma aligned:
  fixes e k :: int
  assumes "e \<le> k"
  shows "real_of_int (m * 2 ^ nat (k - e)) * 2 powi e = real_of_int m * 2 powi k"
proof -
  define j where "j = nat (k - e)"
  have k: "k = int j + e" unfolding j_def using assms by simp
  have "(2::real) powi k = 2 powi int j * 2 powi e"
    unfolding k by (rule power_int_add) simp
  then show ?thesis unfolding j_def [symmetric] by simp
qed

lemma rounded_d_add: "rounded (d_val x + d_val y) (d_val (d_add x y))"
proof -
  define e where "e = min (snd x) (snd y)"
  have ex: "e \<le> snd x" and ey: "e \<le> snd y" unfolding e_def by simp_all
  have "d_val (fst x * 2 ^ nat (snd x - e) + fst y * 2 ^ nat (snd y - e), e) = d_val x + d_val y"
    unfolding d_val_def fst_conv snd_conv of_int_add distrib_right
    by (simp only: aligned [OF ex] aligned [OF ey])
  then show ?thesis
    unfolding d_add_def Let_def e_def [symmetric]
    using rounded_round_to_double [of "fst x * 2 ^ nat (snd x - e) + fst y * 2 ^ nat (snd y - e)" e]
    by simp
qed

lemma rounded_d_sub: "rounded (d_val x - d_val y) (d_val (d_sub x y))"
proof -
  have "d_val (- fst y, snd y) = - d_val y" by (simp add: d_val_def)
  then show ?thesis
    unfolding d_sub_def using rounded_d_add [of x "(- fst y, snd y)"] by simp
qed

lemma rounded_Math_pow: "rounded (d_val x ^ n) (d_val (Math_pow x n))"
proof -
  have "d_val (fst x ^ n, snd x * int n) = d_val x ^ n"
    by (simp add: d_val_def power_mult_distrib power_int_mult)
  then show ?thesis
    unfolding Math_pow_def using rounded_round_to_double [of "fst x ^ n" "snd x * int n"] by simp
qed

lemma d_le_iff: "d_le x y \<longleftrightarrow> d_val x \<le> d_val y"
proof -
  define e where "e = min (snd x) (snd y)"
  have p: "(0::real) < 2 powi e" by simp
  have ex: "e \<le> snd x" and ey: "e \<le> snd y" unfolding e_def by simp_all
  have "d_val x \<le> d_val y \<longleftrightarrow>
      real_of_int (fst x * 2 ^ nat (snd x - e)) * 2 powi e
        \<le> real_of_int (fst y * 2 ^ nat (snd y - e)) * 2 powi e"
    unfolding d_val_def by (simp only: aligned [OF ex] aligned [OF ey])
  also have "\<dots> \<longleftrightarrow> real_of_int (fst x * 2 ^ nat (snd x - e)) \<le> real_of_int (fst y * 2 ^ nat (snd y - e))"
    using p by (simp only: mult_le_cancel_right_pos)
  also have "\<dots> \<longleftrightarrow> d_le x y"
    unfolding d_le_def Let_def e_def [symmetric] by (simp only: of_int_le_iff)
  finally show ?thesis by simp
qed

lemma d_val_Math_min: "d_val (Math_min x y) = min (d_val x) (d_val y)"
  by (simp add: Math_min_def d_le_iff min_def)

lemma d_val_int [simp]: "d_val (n, 0) = real_of_int n"
  by (simp add: d_val_def)

lemma is_double_int: "\<bar>n\<bar> < 2 ^ 53 \<Longrightarrow> is_double (n, 0)"
  by (simp add: is_double_def)

section \<open>The backoff delay\<close>

lemma default_config:
  assumes "EmailService_new EmailClient env = Inr this"
  shows "MAX_RETRIES this = 3" "INITIAL_DELAY_MS this = (1000, 0)"
    "MAX_DELAY_MS this = (30000, 0)" "BACKOFF_MULTIPLIER this = (2, 0)"
    "JITTER_PERCENTAGE this = (1, - 2)"
  using assms by (auto simp: EmailService_new_def split: option.splits if_splits)

lemma demo_service_new: "EmailService_new EmailClient demo_env = Inr (demo_service EmailClient)"
  by (simp add: EmailService_new_def demo_env_def demo_service_def)

text \<open>With the constants of the class the capped delay is a multiple of four.\<close>

lemma d_val_pair: "d_val (m, e) = real_of_int m * 2 powi e"
  by (simp add: d_val_def)

lemma capped_cases:
  fixes attempt :: nat
  assumes "1 \<le> attempt"
  shows "\<exists>k::int. min (1000 * 2 ^ attempt) (30000::real) = 4 * real_of_int k \<and> 500 \<le> k \<and> k \<le> 7500"
proof (cases "attempt \<le> 4")
  case True
  then have "attempt \<in> {1,2,3,4}" using assms by auto
  then consider "attempt = 1" | "attempt = 2" | "attempt = 3" | "attempt = 4" by blast
  then show ?thesis
  proof cases
    case 1 then show ?thesis by (intro exI [of _ 500]) simp
  next
    case 2 then show ?thesis by (intro exI [of _ 1000]) simp
  next
    case 3 then show ?thesis by (intro exI [of _ 2000]) simp
  next
    case 4 then show ?thesis by (intro exI [of _ 4000]) simp
  qed
next
  case False
  then have "5 \<le> attempt" by simp
  then have "(2::real) ^ 5 \<le> 2 ^ attempt" by (intro power_increasing) auto
  then have "min (1000 * 2 ^ attempt) (30000::real) = 30000" by simp
  then show ?thesis by (intro exI [of _ 7500]) simp
qed

lemma backoff_arithmetic:
  fixes attempt :: nat and rnd cappedDelay jitter :: double and total :: real
  assumes att: "1 \<le> attempt" and dbl: "is_double rnd" and r0: "0 \<le> d_val rnd" and r1: "d_val rnd < 1"
    and C: "cappedDelay = Math_min (d_mul (1000, 0) (Math_pow (2, 0) attempt)) (30000, 0)"
    and J: "jitter = d_mul (d_mul cappedDelay (1, - 2)) (d_sub (d_mul rnd (2, 0)) (1, 0))"
    and T: "total = d_val (d_add cappedDelay jitter)"
  shows "\<exists>k::int. min (1000 * 2 ^ attempt) (30000::real) = 4 * real_of_int k
    \<and> 500 \<le> k \<and> k \<le> 7500 \<and> d_val cappedDelay = 4 * real_of_int k
    \<and> \<bar>d_val jitter\<bar> \<le> real_of_int k
    \<and> \<bar>total - (4 * real_of_int k + real_of_int k * (d_val rnd * 2 - 1))\<bar> \<le> 7 * real_of_int k / 2 ^ 53
    \<and> 3 * real_of_int k \<le> total \<and> total \<le> 5 * real_of_int k"
proof -
  obtain k :: int where k: "min (1000 * 2 ^ attempt) (30000::real) = 4 * real_of_int k"
    "500 \<le> k" "k \<le> 7500"
    using capped_cases [OF att] by blast
  have kpos: "0 < real_of_int k" using k(2) by simp
  have dk: "is_double (k, 0)" "is_double (- k, 0)" "is_double (3 * k, 0)" "is_double (5 * k, 0)"
    using k(2,3) by (simp_all add: is_double_def)
  text \<open>the power and the base delay are exact\<close>
  have "d_val (Math_pow (2, 0) attempt) = d_val (2, 0) ^ attempt"
    by (rule rounded_exact [OF rounded_Math_pow, of "(1, int attempt)"])
      (simp_all add: is_double_def d_val_pair)
  then have pw: "d_val (Math_pow (2, 0) attempt) = 2 ^ attempt" by simp
  have "d_val (d_mul (1000, 0) (Math_pow (2, 0) attempt)) = d_val (1000, 0) * d_val (Math_pow (2, 0) attempt)"
    by (rule rounded_exact [OF rounded_d_mul, of "(1000, int attempt)"])
      (simp_all add: is_double_def d_val_pair pw)
  then have base: "d_val (d_mul (1000, 0) (Math_pow (2, 0) attempt)) = 1000 * 2 ^ attempt"
    using pw by simp
  have cv: "d_val cappedDelay = 4 * real_of_int k"
    unfolding C d_val_Math_min base using k(1) by simp
  text \<open>a quarter of the capped delay is exact\<close>
  have "d_val (d_mul cappedDelay (1, - 2)) = d_val cappedDelay * d_val (1, - 2)"
    by (rule rounded_exact [OF rounded_d_mul dk(1)]) (simp add: cv d_val_pair)
  then have c4: "d_val (d_mul cappedDelay (1, - 2)) = real_of_int k"
    unfolding cv by (simp add: d_val_pair)
  text \<open>twice the random number is exact\<close>
  have "d_val (d_mul rnd (2, 0)) = d_val rnd * d_val (2, 0)"
    by (rule rounded_exact [OF rounded_d_mul, of "(fst rnd, snd rnd + 1)"])
      (use dbl in \<open>simp_all add: is_double_def d_val_pair power_int_add d_val_def [of rnd]\<close>)
  then have r2: "d_val (d_mul rnd (2, 0)) = d_val rnd * 2" by simp
  text \<open>the factor\<close>
  define t where "t = d_sub (d_mul rnd (2, 0)) (1, 0)"
  have rt: "rounded (d_val rnd * 2 - 1) (d_val t)"
    unfolding t_def using rounded_d_sub [of "d_mul rnd (2, 0)" "(1, 0)"] unfolding r2 by simp
  have t_lo: "- 1 \<le> d_val t"
    using rounded_ge [OF rt, of "(- 1, 0)"] r0 by (simp add: is_double_def)
  have t_hi: "d_val t \<le> 1"
    using rounded_le [OF rt, of "(1, 0)"] r1 by (simp add: is_double_def)
  have "\<bar>d_val rnd * 2 - 1\<bar> \<le> 1" using r0 r1 by (simp add: abs_le_iff)
  then have t_err: "\<bar>d_val t - (d_val rnd * 2 - 1)\<bar> \<le> 1 / 2 ^ 53"
    using rounded_error [OF rt] by (simp add: field_simps)
  text \<open>the jitter\<close>
  have rj: "rounded (real_of_int k * d_val t) (d_val jitter)"
    unfolding J t_def [symmetric] using rounded_d_mul [of "d_mul cappedDelay (1, - 2)" t]
    unfolding c4 .
  have p_lo: "- real_of_int k \<le> real_of_int k * d_val t"
    using mult_left_mono [OF t_lo, of "real_of_int k"] kpos by simp
  have p_hi: "real_of_int k * d_val t \<le> real_of_int k"
    using mult_left_mono [OF t_hi, of "real_of_int k"] kpos by simp
  have j_lo: "- real_of_int k \<le> d_val jitter"
    using rounded_ge [OF rj dk(2)] p_lo by simp
  have j_hi: "d_val jitter \<le> real_of_int k"
    using rounded_le [OF rj dk(1)] p_hi by simp
  have "\<bar>real_of_int k * d_val t\<bar> \<le> real_of_int k" using p_lo p_hi by (simp add: abs_le_iff)
  then have j_err: "\<bar>d_val jitter - real_of_int k * d_val t\<bar> \<le> real_of_int k / 2 ^ 53"
    using rounded_error [OF rj] by (simp add: field_simps)
  text \<open>the sum\<close>
  have rs: "rounded (4 * real_of_int k + d_val jitter) total"
    unfolding T using rounded_d_add [of cappedDelay jitter] unfolding cv .
  have s_lo: "3 * real_of_int k \<le> total"
    using rounded_ge [OF rs dk(3)] j_lo by simp
  have s_hi: "total \<le> 5 * real_of_int k"
    using rounded_le [OF rs dk(4)] j_hi by simp
  have "\<bar>4 * real_of_int k + d_val jitter\<bar> \<le> 5 * real_of_int k"
    using j_lo j_hi kpos by (simp add: abs_le_iff)
  then have s_err: "\<bar>total - (4 * real_of_int k + d_val jitter)\<bar> \<le> 5 * real_of_int k / 2 ^ 53"
    using rounded_error [OF rs] by (simp add: field_simps)
  have "real_of_int k * \<bar>d_val t - (d_val rnd * 2 - 1)\<bar> \<le> real_of_int k * (1 / 2 ^ 53)"
    using t_err kpos by (simp only: mult_le_cancel_left_pos)
  then have t_err': "\<bar>real_of_int k * d_val t - real_of_int k * (d_val rnd * 2 - 1)\<bar> \<le> real_of_int k / 2 ^ 53"
    using kpos by (simp add: abs_mult flip: right_diff_distrib)
  have tri: "\<bar>a + b + c\<bar> \<le> \<bar>a\<bar> + \<bar>b\<bar> + \<bar>c\<bar>" for a b c :: real by linarith
  have "total - (4 * real_of_int k + real_of_int k * (d_val rnd * 2 - 1))
      = (total - (4 * real_of_int k + d_val jitter)) + (d_val jitter - real_of_int k * d_val t)
        + (real_of_int k * d_val t - real_of_int k * (d_val rnd * 2 - 1))" by simp
  also have "\<bar>\<dots>\<bar> \<le> 5 * real_of_int k / 2 ^ 53 + real_of_int k / 2 ^ 53 + real_of_int k / 2 ^ 53"
    using tri [of "total - (4 * real_of_int k + d_val jitter)" "d_val jitter - real_of_int k * d_val t"
        "real_of_int k * d_val t - real_of_int k * (d_val rnd * 2 - 1)"] s_err j_err t_err'
    by linarith
  finally have err: "\<bar>total - (4 * real_of_int k + real_of_int k * (d_val rnd * 2 - 1))\<bar> \<le> 7 * real_of_int k / 2 ^ 53"
    by simp
  have j_abs: "\<bar>d_val jitter\<bar> \<le> real_of_int k" using j_lo j_hi by (simp add: abs_le_iff)
  show ?thesis using k cv j_abs err s_lo s_hi by blast
qed

text \<open>Without jitter: the random number one half.\<close>

lemma delayMs_half:
  "delayMs (demo_service EmailClient) (Suc 0) (1, - 1) = 2000"
  "delayMs (demo_service EmailClient) (Suc (Suc 0)) (1, - 1) = 4000"
proof -
  have pow: "Math_pow (2, 0) (Suc 0) = (2, 0)" "Math_pow (2, 0) (Suc (Suc 0)) = (4, 0)"
    by (simp_all add: Math_pow_def round_to_double_def bit_length.simps)
  have base: "d_mul (1000, 0) (2, 0) = (2000, 0)" "d_mul (1000, 0) (4, 0) = (4000, 0)"
    by (simp_all add: d_mul_def round_to_double_def bit_length.simps)
  have cap: "Math_min (2000, 0) (30000, 0) = (2000, 0)" "Math_min (4000, 0) (30000, 0) = (4000, 0)"
    by (simp_all add: Math_min_def d_le_def)
  have quarter: "d_mul (2000, 0) (1, - 2) = (2000, - 2)" "d_mul (4000, 0) (1, - 2) = (4000, - 2)"
    by (simp_all add: d_mul_def round_to_double_def bit_length.simps)
  have twice: "d_mul (1, - 1) (2, 0) = (2, - 1)"
    by (simp add: d_mul_def round_to_double_def bit_length.simps)
  have factor: "d_sub (2, - 1) (1, 0) = (0, - 1)"
    by (simp add: d_sub_def d_add_def round_to_double_def bit_length.simps)
  have jitter: "d_mul (2000, - 2) (0, - 1) = (0, - 3)" "d_mul (4000, - 2) (0, - 1) = (0, - 3)"
    by (simp_all add: d_mul_def round_to_double_def bit_length.simps)
  have total: "d_add (2000, 0) (0, - 3) = (16000, - 3)" "d_add (4000, 0) (0, - 3) = (32000, - 3)"
    by (simp_all add: d_add_def round_to_double_def bit_length.simps)
  have nearest: "Math_round (16000, - 3) = 2000" "Math_round (32000, - 3) = 4000"
    by (simp_all add: Math_round_def d_val_def)
  show "delayMs (demo_service EmailClient) (Suc 0) (1, - 1) = 2000"
    unfolding delayMs_def demo_service_def
    by (simp only: EmailService.simps Let_def pow base cap quarter twice factor jitter total nearest)
  show "delayMs (demo_service EmailClient) (Suc (Suc 0)) (1, - 1) = 4000"
    unfolding delayMs_def demo_service_def
    by (simp only: EmailService.simps Let_def pow base cap quarter twice factor jitter total nearest)
qed

text \<open>
  C1. With the configuration every \<^verbatim>\<open>EmailService\<close> instance has, for every attempt number
  from 1 on and every double in [0, 1) that \<^verbatim>\<open>Math.random()\<close> returns: the capped
  exponential delay (exponent: the attempt number itself) is computed exactly; the
  jitter is at most a quarter of it in size; the sum of the two, as the double
  arithmetic of the source computes it, is within \<open>7/4 * capped / 2^53\<close> of the sum over
  the reals; the delay is the integer nearest to the computed sum, a tie going up, so
  it is within \<open>1/2 + 1/2^37\<close> of the sum over the reals; it lies between 75% and 125% of
  the capped delay; it is not negative, for which the source needs no clamp, 75% of the
  capped delay being at least 1500; and after attempt 1 it lies between 1500 and 2500 ms.
\<close>

theorem C1_backoff_delay:
  assumes new: "EmailService_new EmailClient env = Inr this"
    and att: "1 \<le> attempt"
    and dbl: "is_double rnd" and r0: "0 \<le> d_val rnd" and r1: "d_val rnd < 1"
  shows "let capped = min (1000 * 2 ^ attempt) (30000::real);
             ideal = capped + capped * 0.25 * (d_val rnd * 2 - 1);
             cappedDelay = Math_min (d_mul (1000, 0) (Math_pow (2, 0) attempt)) (30000, 0);
             jitter = d_mul (d_mul cappedDelay (1, - 2)) (d_sub (d_mul rnd (2, 0)) (1, 0));
             total = d_val (d_add cappedDelay jitter)
         in d_val cappedDelay = capped \<and>
            \<bar>d_val jitter\<bar> \<le> capped * 0.25 \<and>
            \<bar>total - ideal\<bar> \<le> capped * 7 / 4 / 2 ^ 53 \<and>
            delayMs this attempt rnd = \<lfloor>total + 1 / 2\<rfloor> \<and>
            \<bar>real_of_int (delayMs this attempt rnd) - ideal\<bar> \<le> 1 / 2 + 1 / 2 ^ 37 \<and>
            capped * (1 - 0.25) \<le> real_of_int (delayMs this attempt rnd) \<and>
            real_of_int (delayMs this attempt rnd) \<le> capped * (1 + 0.25) \<and>
            1500 \<le> capped * (1 - 0.25) \<and>
            0 \<le> delayMs this attempt rnd \<and>
            (attempt = 1 \<longrightarrow> 1500 \<le> delayMs this attempt rnd \<and> delayMs this attempt rnd \<le> 2500)"
proof -
  define capped :: real where "capped = min (1000 * 2 ^ attempt) 30000"
  define ideal where "ideal = capped + capped * 0.25 * (d_val rnd * 2 - 1)"
  define cappedDelay
    where "cappedDelay = Math_min (d_mul (1000, 0) (Math_pow (2, 0) attempt)) (30000, 0)"
  define jitter
    where "jitter = d_mul (d_mul cappedDelay (1, - 2)) (d_sub (d_mul rnd (2, 0)) (1, 0))"
  define total where "total = d_val (d_add cappedDelay jitter)"
  define d where "d = delayMs this attempt rnd"
  obtain k :: int where k: "capped = 4 * real_of_int k" "500 \<le> k" "k \<le> 7500"
    and cv: "d_val cappedDelay = 4 * real_of_int k"
    and jv: "\<bar>d_val jitter\<bar> \<le> real_of_int k"
    and err: "\<bar>total - (4 * real_of_int k + real_of_int k * (d_val rnd * 2 - 1))\<bar>
                \<le> 7 * real_of_int k / 2 ^ 53"
    and lo: "3 * real_of_int k \<le> total" and hi: "total \<le> 5 * real_of_int k"
    using backoff_arithmetic [OF att dbl r0 r1 cappedDelay_def jitter_def total_def]
    unfolding capped_def by blast
  have formula: "d = \<lfloor>total + 1 / 2\<rfloor>"
    unfolding d_def delayMs_def Math_round_def total_def jitter_def cappedDelay_def
    by (simp only: default_config [OF new] Let_def)
  have c1: "d_val cappedDelay = capped" using cv k(1) by simp
  have c2: "\<bar>d_val jitter\<bar> \<le> capped * 0.25" using jv k(1) by simp
  have id: "ideal = 4 * real_of_int k + real_of_int k * (d_val rnd * 2 - 1)"
    unfolding ideal_def k(1) by simp
  have c3: "\<bar>total - ideal\<bar> \<le> capped * 7 / 4 / 2 ^ 53" using err unfolding id k(1) by simp
  have "7 * real_of_int k / 2 ^ 53 \<le> 7 * 7500 / 2 ^ 53" using k(3) by simp
  also have "\<dots> \<le> 1 / 2 ^ 37" by simp
  finally have small: "\<bar>total - ideal\<bar> \<le> 1 / 2 ^ 37" using err unfolding id by linarith
  have "real_of_int d \<le> total + 1 / 2" "total + 1 / 2 < real_of_int d + 1"
    unfolding formula by linarith+
  then have c5: "\<bar>real_of_int d - ideal\<bar> \<le> 1 / 2 + 1 / 2 ^ 37" using small by linarith
  have "real_of_int (3 * k) \<le> total + 1 / 2" using lo by simp
  then have lo_int: "3 * k \<le> d" unfolding formula by (simp only: le_floor_iff)
  have "total + 1 / 2 < real_of_int (5 * k) + 1" using hi by simp
  then have hi_int: "d \<le> 5 * k" unfolding formula by (simp only: floor_le_iff)
  have lo': "capped * (1 - 0.25) \<le> real_of_int d"
  proof -
    have "capped * (1 - 0.25) = real_of_int (3 * k)" unfolding k(1) by simp
    also have "\<dots> \<le> real_of_int d" using lo_int by (simp only: of_int_le_iff)
    finally show ?thesis .
  qed
  have hi': "real_of_int d \<le> capped * (1 + 0.25)"
  proof -
    have "real_of_int d \<le> real_of_int (5 * k)" using hi_int by (simp only: of_int_le_iff)
    also have "\<dots> = capped * (1 + 0.25)" unfolding k(1) by simp
    finally show ?thesis .
  qed
  have least: "1500 \<le> capped * (1 - 0.25)" unfolding k(1) using k(2) by simp
  have nonneg: "0 \<le> d" using lo_int k(2) by simp
  have first: "attempt = 1 \<longrightarrow> 1500 \<le> d \<and> d \<le> 2500"
  proof
    assume "attempt = 1"
    then have "capped = 2000" unfolding capped_def by simp
    then have "k = 500" using k(1) by simp
    then show "1500 \<le> d \<and> d \<le> 2500" using lo_int hi_int by simp
  qed
  show ?thesis
    unfolding Let_def capped_def [symmetric] ideal_def [symmetric] cappedDelay_def [symmetric]
      jitter_def [symmetric] total_def [symmetric] d_def [symmetric]
    using c1 c2 c3 formula c5 lo' hi' least nonneg first by blast
qed

theorem C1_backoff_delay_witness:
  "EmailService_new accepting demo_env = Inr (demo_service accepting) \<and>
   (1::nat) \<le> 1 \<and> is_double demo_random \<and> 0 \<le> d_val demo_random \<and> d_val demo_random < 1 \<and>
   d_val (d_add (2000, 0)
            (d_mul (d_mul (2000, 0) (1, - 2)) (d_sub (d_mul demo_random (2, 0)) (1, 0))))
     = 3121 / 2 \<and>
   delayMs (demo_service accepting) 1 demo_random = 1561 \<and>
   \<lfloor>2000 + 2000 * 0.25 * (d_val demo_random * 2 - 1) + 1 / 2\<rfloor> = 1560 \<and>
   1500 \<le> delayMs (demo_service accepting) 1 demo_random \<and>
   delayMs (demo_service accepting) 1 demo_random \<le> 2500"
proof -
  have h: "EmailService_new accepting demo_env = Inr (demo_service accepting)"
    by (rule demo_service_new)
  have a: "(1::nat) \<le> 1" by simp
  have dbl: "is_double demo_random" by (simp add: is_double_def demo_random_def)
  have r0: "0 \<le> d_val demo_random" and r1: "d_val demo_random < 1"
    by (simp_all add: d_val_def demo_random_def)
  have capped: "Math_min (d_mul (1000, 0) (Math_pow (2, 0) 1)) (30000, 0) = (2000, 0)"
    by (simp add: Math_min_def d_le_def d_mul_def Math_pow_def round_to_double_def
          bit_length.simps)
  have twice: "d_mul demo_random (2, 0) = (544935554911830, - 52)"
    by (simp add: d_mul_def demo_random_def round_to_double_def bit_length.simps)
  have factor: "d_sub (544935554911830, - 52) (1, 0) = (- 3958664072458666, - 52)"
    by (simp add: d_sub_def d_add_def round_to_double_def bit_length.simps)
  have jitter: "d_mul (d_mul (2000, 0) (1, - 2)) (- 3958664072458666, - 52)
      = (- 7731765766520832, - 44)"
    by (simp add: d_mul_def round_to_double_def bit_length.simps round_half_even_def)
  have total: "d_add (2000, 0) (- 7731765766520832, - 44) = (6863151580577792, - 42)"
    by (simp add: d_add_def round_to_double_def bit_length.simps round_half_even_def)
  have v: "d_val (6863151580577792, - 42) = 3121 / 2" by (simp add: d_val_def)
  have sum: "d_val (d_add (2000, 0)
            (d_mul (d_mul (2000, 0) (1, - 2)) (d_sub (d_mul demo_random (2, 0)) (1, 0))))
     = 3121 / 2"
    unfolding twice factor jitter total v ..
  note T = C1_backoff_delay [OF h a dbl r0 r1, unfolded Let_def capped sum]
  have d: "delayMs (demo_service accepting) 1 demo_random = 1561"
    using T [THEN conjunct2, THEN conjunct2, THEN conjunct2, THEN conjunct1] by simp
  have i: "\<lfloor>2000 + 2000 * 0.25 * (d_val demo_random * 2 - 1) + 1 / 2\<rfloor> = (1560::int)"
    by (simp add: d_val_def demo_random_def)
  show ?thesis using h dbl r0 r1 sum d i by simp
qed

section \<open>The retry executor: exhaustion and abort\<close>

lemma after_invocations_0 [simp]: "after_invocations operation 0 g = g"
  by (simp add: after_invocations_def)

lemma after_invocations_Suc:
  "after_invocations operation (Suc n) g = after_invocations operation n (snd (operation g))"
  by (simp only: after_invocations_def funpow_Suc_right o_apply)

lemma retry_loop_retry_step:
  assumes "a < MAX_RETRIES this" "operation (gateway s) = (Inl e, g')" "\<not> isNonRetryableError e"
  shows "retry_loop this operation name a lastError s =
         retry_loop this operation name (Suc a) e
           (s\<lparr>gateway := g', randoms := (\<lambda>n. randoms s (Suc n)),
              trace := trace s @ retry_round this name a (randoms s 0)\<rparr>)"
  using assms
  by (subst retry_loop.simps)
     (simp add: invoke_def Math_random_def emit_def console_def sleep_def retry_round_def)

lemma retry_loop_abort_step:
  assumes "a \<le> MAX_RETRIES this" "operation (gateway s) = (Inl e, g')" "isNonRetryableError e"
  shows "retry_loop this operation name a lastError s =
         (Inl e, s\<lparr>gateway := g',
                   trace := trace s @ [Invoked name, Console Err ''failed with non-retryable error'']\<rparr>)"
  using assms
  by (subst retry_loop.simps) (simp add: invoke_def emit_def console_def)

lemma retry_loop_last_step:
  assumes "a = MAX_RETRIES this" "operation (gateway s) = (Inl e, g')" "\<not> isNonRetryableError e"
  shows "retry_loop this operation name a lastError s =
         (Inl e, s\<lparr>gateway := g',
                   trace := trace s @ [Invoked name, Console Err ''failed after attempts'']\<rparr>)"
proof -
  have "retry_loop this operation name a lastError s =
      retry_loop this operation name (Suc a) e
        (s\<lparr>gateway := g', trace := trace s @ [Invoked name, Console Err ''failed after attempts'']\<rparr>)"
    using assms by (subst retry_loop.simps) (simp add: invoke_def emit_def console_def)
  also have "\<dots> = (Inl e, s\<lparr>gateway := g',
                   trace := trace s @ [Invoked name, Console Err ''failed after attempts'']\<rparr>)"
    using assms(1) by (subst retry_loop.simps) simp
  finally show ?thesis .
qed

lemma retry_loop_success_step:
  assumes "a \<le> MAX_RETRIES this" "operation (gateway s) = (Inr v, g')"
  shows "retry_loop this operation name a lastError s =
         (Inr v, s\<lparr>gateway := g',
                   trace := trace s @ (if 1 < a then [Invoked name, Console Info ''succeeded on attempt'']
                                       else [Invoked name])\<rparr>)"
  using assms
  by (subst retry_loop.simps) (simp add: invoke_def emit_def console_def)

lemma retry_rounds_empty [simp]: "retry_rounds this name rs a a = []"
  by (simp add: retry_rounds_def)

lemma retry_rounds_Cons:
  assumes "a < b"
  shows "retry_rounds this name rs a b =
         retry_round this name a (rs 0) @ retry_rounds this name (\<lambda>n. rs (Suc n)) (Suc a) b"
proof -
  have m: "map (\<lambda>k. retry_round this name k (rs (Suc (k - Suc a)))) [Suc a..<b]
      = map (\<lambda>k. retry_round this name k (rs (k - a))) [Suc a..<b]"
  proof (rule map_cong [OF refl])
    fix k assume "k \<in> set [Suc a..<b]"
    then have "Suc (k - Suc a) = k - a" by auto
    then show "retry_round this name k (rs (Suc (k - Suc a))) = retry_round this name k (rs (k - a))"
      by simp
  qed
  show ?thesis
    unfolding retry_rounds_def using assms by (simp add: upt_conv_Cons m)
qed

lemma invocations_retry_rounds: "invocations (retry_rounds this name rs a b) = b - a"
  by (induction b) (simp_all add: retry_rounds_def invocations_def retry_round_def Suc_diff_le)

lemma sleeps_retry_rounds: "sleeps (retry_rounds this name rs a b) = b - a"
  by (induction b) (simp_all add: retry_rounds_def sleeps_def retry_round_def Suc_diff_le)

text \<open>k retryable failures, then an outcome that ends the loop.\<close>

lemma retry_loop_rounds:
  assumes "\<forall>j<k. \<exists>e g'. operation (after_invocations operation j (gateway s)) = (Inl e, g')
                      \<and> \<not> isNonRetryableError e"
    and "a + k \<le> MAX_RETRIES this"
  shows "retry_loop this operation name a lastError s =
         retry_loop this operation name (a + k)
           (if k = 0 then lastError
            else projl (fst (operation (after_invocations operation (k - 1) (gateway s)))))
           (s\<lparr>gateway := after_invocations operation k (gateway s),
              randoms := (\<lambda>n. randoms s (n + k)),
              trace := trace s @ retry_rounds this name (randoms s) a (a + k)\<rparr>)"
  using assms
proof (induction k arbitrary: a s lastError)
  case 0
  then show ?case by simp
next
  case (Suc k)
  obtain e g' where op: "operation (gateway s) = (Inl e, g')" "\<not> isNonRetryableError e"
    using Suc.prems(1) [rule_format, of 0] by auto
  define s1 where "s1 = s\<lparr>gateway := g', randoms := (\<lambda>n. randoms s (Suc n)),
              trace := trace s @ retry_round this name a (randoms s 0)\<rparr>"
  have lt: "a < MAX_RETRIES this" using Suc.prems(2) by simp
  have step: "retry_loop this operation name a lastError s = retry_loop this operation name (Suc a) e s1"
    unfolding s1_def using lt op by (rule retry_loop_retry_step)
  have g1: "gateway s1 = snd (operation (gateway s))" using op by (simp add: s1_def)
  have fails1: "\<forall>j<k. \<exists>e g'. operation (after_invocations operation j (gateway s1)) = (Inl e, g')
                      \<and> \<not> isNonRetryableError e"
  proof (intro allI impI)
    fix j assume "j < k"
    then have "Suc j < Suc k" by simp
    from Suc.prems(1) [rule_format, OF this]
    show "\<exists>e g'. operation (after_invocations operation j (gateway s1)) = (Inl e, g')
                      \<and> \<not> isNonRetryableError e"
      by (simp add: after_invocations_Suc g1)
  qed
  have le: "Suc a + k \<le> MAX_RETRIES this" using Suc.prems(2) by simp
  note IH = Suc.IH [OF fails1 le, of e]
  have err: "(if k = 0 then e
            else projl (fst (operation (after_invocations operation (k - 1) (gateway s1)))))
        = projl (fst (operation (after_invocations operation (Suc k - 1) (gateway s))))"
  proof (cases k)
    case 0
    then show ?thesis using op by simp
  next
    case (Suc k')
    then show ?thesis by (simp add: after_invocations_Suc g1)
  qed
  have st: "s1\<lparr>gateway := after_invocations operation k (gateway s1),
              randoms := (\<lambda>n. randoms s1 (n + k)),
              trace := trace s1 @ retry_rounds this name (randoms s1) (Suc a) (Suc a + k)\<rparr>
       = s\<lparr>gateway := after_invocations operation (Suc k) (gateway s),
              randoms := (\<lambda>n. randoms s (n + Suc k)),
              trace := trace s @ retry_rounds this name (randoms s) a (a + Suc k)\<rparr>"
  proof -
    have "retry_rounds this name (randoms s) a (Suc (a + k)) =
        retry_round this name a (randoms s 0)
          @ retry_rounds this name (\<lambda>n. randoms s (Suc n)) (Suc a) (Suc (a + k))"
      by (rule retry_rounds_Cons) simp
    then show ?thesis using op by (simp add: s1_def after_invocations_Suc)
  qed
  show ?case
    unfolding step IH err st by simp
qed


lemma events_since_append:
  "trace s' = trace s @ evs \<Longrightarrow> events_since s s' = evs"
  by (simp add: events_since_def)

lemma invocations_append [simp]: "invocations (xs @ ys) = invocations xs + invocations ys"
  by (simp add: invocations_def)

lemma sleeps_append [simp]: "sleeps (xs @ ys) = sleeps xs + sleeps ys"
  by (simp add: sleeps_def)

lemma filter_Slept_retry_rounds:
  "filter is_Slept (retry_rounds this name rs a b) =
   map (\<lambda>k. Slept (delayMs this k (rs (k - a)))) [a..<b]"
  by (induction b) (simp_all add: retry_rounds_def retry_round_def)

text \<open>
  C2. For every instance with at least one attempt and every operation that fails with a
  retryable error whenever it is called, the retry executor throws the error of the
  call made on the last attempt; it has then called the operation exactly
  \<open>MAX_RETRIES\<close> times; each attempt but the last is followed by a sleep of the backoff
  delay of that attempt (these are all the sleeps), and the last call is followed by a
  log line only.
\<close>

theorem C2_retry_exhaustion:
  assumes max: "1 \<le> MAX_RETRIES this"
    and fails: "\<forall>g. \<exists>e g'. operation g = (Inl e, g') \<and> \<not> isNonRetryableError e"
  shows "\<exists>e s'. retryWithBackoff this operation name s = (Inl e, s')
      \<and> fst (operation (after_invocations operation (MAX_RETRIES this - 1) (gateway s))) = Inl e
      \<and> trace s' = trace s @ retry_rounds this name (randoms s) 1 (MAX_RETRIES this)
                     @ [Invoked name, Console Err ''failed after attempts'']
      \<and> invocations (events_since s s') = MAX_RETRIES this
      \<and> filter is_Slept (events_since s s')
          = map (\<lambda>k. Slept (delayMs this k (randoms s (k - 1)))) [1..<MAX_RETRIES this]
      \<and> takeWhile (\<lambda>e. \<not> is_Invoked e) (rev (events_since s s'))
          = [Console Err ''failed after attempts'']"
proof -
  define k where "k = MAX_RETRIES this - 1"
  define s1 where "s1 = s\<lparr>gateway := after_invocations operation k (gateway s),
              randoms := (\<lambda>n. randoms s (n + k)),
              trace := trace s @ retry_rounds this name (randoms s) 1 (1 + k)\<rparr>"
  define lastError where "lastError = (if k = 0 then JUndefined
            else projl (fst (operation (after_invocations operation (k - 1) (gateway s)))))"
  have k: "1 + k = MAX_RETRIES this" using max by (simp add: k_def)
  have "\<forall>j<k. \<exists>e g'. operation (after_invocations operation j (gateway s)) = (Inl e, g')
                      \<and> \<not> isNonRetryableError e"
    using fails by blast
  from retry_loop_rounds [OF this, of 1 this name JUndefined] k
  have rounds: "retry_loop this operation name 1 JUndefined s
      = retry_loop this operation name (MAX_RETRIES this) lastError s1"
    by (simp add: s1_def lastError_def)
  obtain e g' where op: "operation (gateway s1) = (Inl e, g')" "\<not> isNonRetryableError e"
    using fails by blast
  define s' where "s' = s1\<lparr>gateway := g',
                   trace := trace s1 @ [Invoked name, Console Err ''failed after attempts'']\<rparr>"
  have last: "retry_loop this operation name (MAX_RETRIES this) lastError s1 = (Inl e, s')"
    unfolding s'_def using refl op by (rule retry_loop_last_step)
  have tr: "trace s' = trace s @ retry_rounds this name (randoms s) 1 (MAX_RETRIES this)
                     @ [Invoked name, Console Err ''failed after attempts'']"
    using k by (simp add: s'_def s1_def)
  have res: "retryWithBackoff this operation name s = (Inl e, s')"
    unfolding retryWithBackoff_def rounds last ..
  have err: "fst (operation (after_invocations operation (MAX_RETRIES this - 1) (gateway s))) = Inl e"
    using op(1) by (simp add: s1_def k_def)
  have inv: "invocations (events_since s s') = MAX_RETRIES this"
    using max by (simp add: events_since_append [OF tr] invocations_retry_rounds)
       (simp add: invocations_def)
  have sl: "filter is_Slept (events_since s s')
          = map (\<lambda>k. Slept (delayMs this k (randoms s (k - 1)))) [1..<MAX_RETRIES this]"
    by (simp add: events_since_append [OF tr] filter_Slept_retry_rounds)
  have after: "takeWhile (\<lambda>e. \<not> is_Invoked e) (rev (events_since s s'))
          = [Console Err ''failed after attempts'']"
    by (simp add: events_since_append [OF tr])
  show ?thesis using res err tr inv sl after by blast
qed


lemma not_retryable_timed_out: "\<not> isNonRetryableError timed_out"
  by (simp add: isNonRetryableError_def timed_out_def has_property_def)

theorem C2_retry_exhaustion_witness:
  "1 \<le> MAX_RETRIES (demo_service timing_out) \<and>
   (\<forall>g. \<exists>e g'. timing_out ''endpoint=acs'' demo_message g = (Inl e, g') \<and> \<not> isNonRetryableError e) \<and>
   fst (retryWithBackoff (demo_service timing_out) (timing_out ''endpoint=acs'' demo_message) ''send'' demo_state)
     = Inl timed_out \<and>
   invocations (events_since demo_state
     (snd (retryWithBackoff (demo_service timing_out) (timing_out ''endpoint=acs'' demo_message) ''send'' demo_state)))
     = 3 \<and>
   filter is_Slept (events_since demo_state
     (snd (retryWithBackoff (demo_service timing_out) (timing_out ''endpoint=acs'' demo_message) ''send'' demo_state)))
     = [Slept 2000, Slept 4000]"
proof -
  have h1: "1 \<le> MAX_RETRIES (demo_service timing_out)" by (simp add: demo_service_def)
  have h2: "\<forall>g. \<exists>e g'. timing_out ''endpoint=acs'' demo_message g = (Inl e, g') \<and> \<not> isNonRetryableError e"
    by (simp add: timing_out_def not_retryable_timed_out)
  have m: "MAX_RETRIES (demo_service timing_out) = 3" by (simp add: demo_service_def)
  have d: "map (\<lambda>k. Slept (delayMs (demo_service timing_out) k (randoms demo_state (k - 1)))) [1..<3]
      = [Slept 2000, Slept 4000]"
    by (simp add: upt_rec demo_state_def delayMs_half)
  from C2_retry_exhaustion [OF h1 h2, of "''send''" demo_state]
  obtain e s' where r: "retryWithBackoff (demo_service timing_out) (timing_out ''endpoint=acs'' demo_message) ''send'' demo_state = (Inl e, s')"
    "fst (timing_out ''endpoint=acs'' demo_message (after_invocations (timing_out ''endpoint=acs'' demo_message) (MAX_RETRIES (demo_service timing_out) - 1) (gateway demo_state))) = Inl e"
    "invocations (events_since demo_state s') = MAX_RETRIES (demo_service timing_out)"
    "filter is_Slept (events_since demo_state s')
          = map (\<lambda>k. Slept (delayMs (demo_service timing_out) k (randoms demo_state (k - 1)))) [1..<MAX_RETRIES (demo_service timing_out)]"
    by blast
  have "e = timed_out" using r(2) by (simp add: timing_out_def)
  then show ?thesis using h1 h2 r(1,3,4) unfolding m d by simp
qed


lemma retry_abort:
  assumes fails: "\<forall>j<k. \<exists>e' g'. operation (after_invocations operation j (gateway s)) = (Inl e', g')
                      \<and> \<not> isNonRetryableError e'"
    and op: "operation (after_invocations operation k (gateway s)) = (Inl e, g)"
    and nr: "isNonRetryableError e" and k: "k < MAX_RETRIES this"
  shows "\<exists>s'. retryWithBackoff this operation name s = (Inl e, s')
             \<and> trace s' = trace s @ retry_rounds this name (randoms s) 1 (Suc k)
                            @ [Invoked name, Console Err ''failed with non-retryable error'']
             \<and> invocations (events_since s s') = Suc k
             \<and> sleeps (events_since s s') = k"
proof -
  define s1 where "s1 = s\<lparr>gateway := after_invocations operation k (gateway s),
              randoms := (\<lambda>n. randoms s (n + k)),
              trace := trace s @ retry_rounds this name (randoms s) 1 (1 + k)\<rparr>"
  define lastError where "lastError = (if k = 0 then JUndefined
            else projl (fst (operation (after_invocations operation (k - 1) (gateway s)))))"
  have le: "1 + k \<le> MAX_RETRIES this" using k by simp
  have rounds: "retry_loop this operation name 1 JUndefined s
      = retry_loop this operation name (1 + k) lastError s1"
    unfolding s1_def lastError_def by (rule retry_loop_rounds [OF fails le])
  define s' where "s' = s1\<lparr>gateway := g,
                   trace := trace s1 @ [Invoked name, Console Err ''failed with non-retryable error'']\<rparr>"
  have op1: "operation (gateway s1) = (Inl e, g)" using op by (simp add: s1_def)
  have last: "retry_loop this operation name (1 + k) lastError s1 = (Inl e, s')"
    unfolding s'_def using le op1 nr by (rule retry_loop_abort_step)
  have tr: "trace s' = trace s @ retry_rounds this name (randoms s) 1 (Suc k)
                     @ [Invoked name, Console Err ''failed with non-retryable error'']"
    by (simp add: s'_def s1_def)
  have res: "retryWithBackoff this operation name s = (Inl e, s')"
    unfolding retryWithBackoff_def rounds last ..
  have inv: "invocations (events_since s s') = Suc k"
    by (simp add: events_since_append [OF tr] invocations_retry_rounds) (simp add: invocations_def)
  have sl: "sleeps (events_since s s') = k"
    by (simp add: events_since_append [OF tr] sleeps_retry_rounds) (simp add: sleeps_def)
  show ?thesis using res tr inv sl by blast
qed

lemma isNonRetryableError_iff:
  "isNonRetryableError err \<longleftrightarrow>
     typeof err = ''object'' \<and> err \<noteq> JNull \<and>
     (\<exists>n. map_of (properties err) ''statusCode'' = Some (JNumber n) \<and> n \<in> {400, 401, 403, 404})"
  by (cases "map_of (properties err) ''statusCode''")
     (auto simp: isNonRetryableError_def has_property_def get_property_def)

text \<open>
  C3. The classifier holds exactly of the objects whose \<^verbatim>\<open>statusCode\<close> property is the
  number 400, 401, 403 or 404, and of no value without that property. When the first
  \<open>k\<close> attempts fail with retryable errors and attempt \<open>k + 1\<close> (still within
  \<open>MAX_RETRIES\<close>) fails with an error the classifier holds of, the executor throws that
  error after exactly \<open>k + 1\<close> calls and \<open>k\<close> sleeps: the failed call is followed by a
  log line only. An operation that always fails with status code 404 is called exactly
  once, whatever \<open>MAX_RETRIES\<close> (at least 1) is.
\<close>

theorem C3_non_retryable_abort:
  "(isNonRetryableError err \<longleftrightarrow>
      typeof err = ''object'' \<and> err \<noteq> JNull \<and>
      (\<exists>n. map_of (properties err) ''statusCode'' = Some (JNumber n) \<and> n \<in> {400, 401, 403, 404}))
   \<and> (\<not> has_property ''statusCode'' err \<longrightarrow> \<not> isNonRetryableError err)
   \<and> ((\<forall>j<k. \<exists>e' g'. operation (after_invocations operation j (gateway s)) = (Inl e', g')
                      \<and> \<not> isNonRetryableError e')
        \<and> operation (after_invocations operation k (gateway s)) = (Inl e, g)
        \<and> isNonRetryableError e \<and> k < MAX_RETRIES this
      \<longrightarrow> (\<exists>s'. retryWithBackoff this operation name s = (Inl e, s')
             \<and> trace s' = trace s @ retry_rounds this name (randoms s) 1 (Suc k)
                            @ [Invoked name, Console Err ''failed with non-retryable error'']
             \<and> invocations (events_since s s') = Suc k
             \<and> sleeps (events_since s s') = k))
   \<and> ((\<forall>g. \<exists>e' g'. always404 g = (Inl e', g') \<and> typeof e' = ''object'' \<and> e' \<noteq> JNull
                   \<and> map_of (properties e') ''statusCode'' = Some (JNumber 404))
        \<and> 1 \<le> MAX_RETRIES this
      \<longrightarrow> (\<exists>e' s'. retryWithBackoff this always404 name s = (Inl e', s')
             \<and> fst (always404 (gateway s)) = Inl e'
             \<and> invocations (events_since s s') = 1
             \<and> sleeps (events_since s s') = 0))"
proof (intro conjI impI)
  show "isNonRetryableError err \<longleftrightarrow>
      typeof err = ''object'' \<and> err \<noteq> JNull \<and>
      (\<exists>n. map_of (properties err) ''statusCode'' = Some (JNumber n) \<and> n \<in> {400, 401, 403, 404})"
    by (rule isNonRetryableError_iff)
next
  assume "\<not> has_property ''statusCode'' err"
  then show "\<not> isNonRetryableError err" by (simp add: isNonRetryableError_def)
next
  assume a: "(\<forall>j<k. \<exists>e' g'. operation (after_invocations operation j (gateway s)) = (Inl e', g')
                      \<and> \<not> isNonRetryableError e')
        \<and> operation (after_invocations operation k (gateway s)) = (Inl e, g)
        \<and> isNonRetryableError e \<and> k < MAX_RETRIES this"
  show "\<exists>s'. retryWithBackoff this operation name s = (Inl e, s')
             \<and> trace s' = trace s @ retry_rounds this name (randoms s) 1 (Suc k)
                            @ [Invoked name, Console Err ''failed with non-retryable error'']
             \<and> invocations (events_since s s') = Suc k
             \<and> sleeps (events_since s s') = k"
    using a by (intro retry_abort) blast+
next
  assume a: "(\<forall>g. \<exists>e' g'. always404 g = (Inl e', g') \<and> typeof e' = ''object'' \<and> e' \<noteq> JNull
                   \<and> map_of (properties e') ''statusCode'' = Some (JNumber 404))
        \<and> 1 \<le> MAX_RETRIES this"
  then obtain e' g' where op: "always404 (gateway s) = (Inl e', g')" "typeof e' = ''object''"
      "e' \<noteq> JNull" "map_of (properties e') ''statusCode'' = Some (JNumber 404)"
    by blast
  have nr: "isNonRetryableError e'" using op(2-4) by (simp add: isNonRetryableError_iff)
  have "\<exists>s'. retryWithBackoff this always404 name s = (Inl e', s')
             \<and> trace s' = trace s @ retry_rounds this name (randoms s) 1 (Suc 0)
                            @ [Invoked name, Console Err ''failed with non-retryable error'']
             \<and> invocations (events_since s s') = Suc 0
             \<and> sleeps (events_since s s') = 0"
  proof (rule retry_abort)
    show "\<forall>j<0. \<exists>e' g'. always404 (after_invocations always404 j (gateway s)) = (Inl e', g')
                      \<and> \<not> isNonRetryableError e'" by simp
    show "always404 (after_invocations always404 0 (gateway s)) = (Inl e', g')" using op(1) by simp
    show "isNonRetryableError e'" by (rule nr)
    show "0 < MAX_RETRIES this" using a by simp
  qed
  then show "\<exists>e' s'. retryWithBackoff this always404 name s = (Inl e', s')
             \<and> fst (always404 (gateway s)) = Inl e'
             \<and> invocations (events_since s s') = 1
             \<and> sleeps (events_since s s') = 0"
    using op(1) by auto
qed


theorem C3_non_retryable_abort_witness:
  "isNonRetryableError not_found \<and>
   \<not> has_property ''statusCode'' timed_out \<and> \<not> isNonRetryableError timed_out \<and>
   timeout_then_404 (after_invocations timeout_then_404 0 (gateway demo_state)) = (Inl timed_out, 1) \<and>
   timeout_then_404 (after_invocations timeout_then_404 1 (gateway demo_state)) = (Inl not_found, 2) \<and>
   (1::nat) < MAX_RETRIES (demo_service accepting) \<and>
   fst (retryWithBackoff (demo_service accepting) timeout_then_404 ''send'' demo_state) = Inl not_found \<and>
   invocations (events_since demo_state
      (snd (retryWithBackoff (demo_service accepting) timeout_then_404 ''send'' demo_state))) = 2 \<and>
   sleeps (events_since demo_state
      (snd (retryWithBackoff (demo_service accepting) timeout_then_404 ''send'' demo_state))) = 1 \<and>
   (\<forall>g. \<exists>e' g'. answering_404 ''endpoint=acs'' demo_message g = (Inl e', g') \<and> typeof e' = ''object''
        \<and> e' \<noteq> JNull \<and> map_of (properties e') ''statusCode'' = Some (JNumber 404)) \<and>
   fst (retryWithBackoff (demo_service accepting) (answering_404 ''endpoint=acs'' demo_message)
          ''send'' demo_state) = Inl not_found \<and>
   invocations (events_since demo_state
      (snd (retryWithBackoff (demo_service accepting) (answering_404 ''endpoint=acs'' demo_message)
          ''send'' demo_state))) = 1 \<and>
   sleeps (events_since demo_state
      (snd (retryWithBackoff (demo_service accepting) (answering_404 ''endpoint=acs'' demo_message)
          ''send'' demo_state))) = 0"
proof -
  note T = C3_non_retryable_abort [where err = timed_out and k = 1 and operation = timeout_then_404
      and s = demo_state and e = not_found and g = 2 and this = "demo_service accepting"
      and name = "''send''" and ?always404.0 = "answering_404 ''endpoint=acs'' demo_message"]
  have c: "isNonRetryableError not_found"
    using C3_non_retryable_abort [where err = not_found, THEN conjunct1]
    by (simp add: not_found_def)
  have np: "\<not> has_property ''statusCode'' timed_out"
    by (simp add: has_property_def timed_out_def)
  have nr: "\<not> isNonRetryableError timed_out" using T np by blast
  have o0: "timeout_then_404 (after_invocations timeout_then_404 0 (gateway demo_state)) = (Inl timed_out, 1)"
    by (simp add: timeout_then_404_def demo_state_def)
  have o1: "timeout_then_404 (after_invocations timeout_then_404 1 (gateway demo_state)) = (Inl not_found, 2)"
    by (simp add: timeout_then_404_def demo_state_def after_invocations_def)
  have m: "(1::nat) < MAX_RETRIES (demo_service accepting)" by (simp add: demo_service_def)
  have f: "\<forall>j<1. \<exists>e' g'. timeout_then_404 (after_invocations timeout_then_404 j (gateway demo_state)) = (Inl e', g')
                      \<and> \<not> isNonRetryableError e'"
    using o0 nr by simp
  from T f o1 c m
  obtain s' where r: "retryWithBackoff (demo_service accepting) timeout_then_404 ''send'' demo_state = (Inl not_found, s')"
      "invocations (events_since demo_state s') = Suc 1" "sleeps (events_since demo_state s') = 1"
    by blast
  have a: "\<forall>g. \<exists>e' g'. answering_404 ''endpoint=acs'' demo_message g = (Inl e', g') \<and> typeof e' = ''object''
        \<and> e' \<noteq> JNull \<and> map_of (properties e') ''statusCode'' = Some (JNumber 404)"
    by (simp add: answering_404_def not_found_def)
  have m1: "1 \<le> MAX_RETRIES (demo_service accepting)" using m by simp
  from T a m1
  obtain e' s'' where r': "retryWithBackoff (demo_service accepting) (answering_404 ''endpoint=acs'' demo_message)
          ''send'' demo_state = (Inl e', s'')"
      "fst (answering_404 ''endpoint=acs'' demo_message (gateway demo_state)) = Inl e'"
      "invocations (events_since demo_state s'') = 1" "sleeps (events_since demo_state s'') = 0"
    by blast
  have e': "e' = not_found" using r'(2) by (simp add: answering_404_def)
  show ?thesis
    using c np nr o0 o1 m r r' a unfolding e' by simp
qed


section \<open>What the e-mail methods leave untouched\<close>

lemma only_notifies_refl [simp]: "only_notifies s s"
  by (simp add: only_notifies_def events_since_def)

lemma only_notifies_appendI:
  assumes "ContactSubmissions s' = ContactSubmissions s"
    "WaitlistSubmissions s' = WaitlistSubmissions s"
    "trace s' = trace s @ evs" "list_all (\<lambda>e. \<not> is_Created e) evs"
  shows "only_notifies s s'"
  using assms by (simp add: only_notifies_def events_since_def)

lemma only_notifies_appendD:
  assumes "only_notifies s s'"
  shows "trace s' = trace s @ events_since s s'"
  using assms unfolding only_notifies_def events_since_def
  by (metis append_take_drop_id)

lemma only_notifies_trans:
  assumes "only_notifies s s'" "only_notifies s' s''"
  shows "only_notifies s s''"
proof -
  have t1: "trace s' = trace s @ events_since s s'"
    using assms(1) by (rule only_notifies_appendD)
  have t2: "trace s'' = trace s' @ events_since s' s''"
    using assms(2) by (rule only_notifies_appendD)
  have "trace s'' = trace s @ (events_since s s' @ events_since s' s'')"
    using t1 t2 by simp
  moreover have "list_all (\<lambda>e. \<not> is_Created e) (events_since s s' @ events_since s' s'')"
    using assms by (simp add: only_notifies_def)
  moreover have "ContactSubmissions s'' = ContactSubmissions s"
    "WaitlistSubmissions s'' = WaitlistSubmissions s"
    using assms by (simp_all add: only_notifies_def)
  ultimately show ?thesis
    by (intro only_notifies_appendI [where evs = "events_since s s' @ events_since s' s''"])
qed

lemma only_notifies_console [simp]: "only_notifies s (console l t s)"
  by (rule only_notifies_appendI [where evs = "[Console l t]"]) (simp_all add: console_def emit_def)

lemma only_notifies_console_trans:
  "only_notifies s s' \<Longrightarrow> only_notifies s (console l t s')"
  by (erule only_notifies_trans) simp

lemma retry_loop_only_notifies:
  "n = Suc (MAX_RETRIES this) - a \<Longrightarrow> only_notifies s (snd (retry_loop this operation name a lastError s))"
proof (induction n arbitrary: a s lastError)
  case 0
  then have "\<not> a \<le> MAX_RETRIES this" by simp
  then show ?case by (subst retry_loop.simps) simp
next
  case (Suc n)
  then have le: "a \<le> MAX_RETRIES this" by simp
  obtain r g' where op: "operation (gateway s) = (r, g')" by (cases "operation (gateway s)")
  show ?case
  proof (cases r)
    case (Inr v)
    have "only_notifies s (s\<lparr>gateway := g',
                   trace := trace s @ (if 1 < a then [Invoked name, Console Info ''succeeded on attempt'']
                                       else [Invoked name])\<rparr>)"
      by (rule only_notifies_appendI [where evs = "if 1 < a then [Invoked name, Console Info ''succeeded on attempt'']
                                       else [Invoked name]"]) simp_all
    moreover have "retry_loop this operation name a lastError s = (Inr v, s\<lparr>gateway := g',
                   trace := trace s @ (if 1 < a then [Invoked name, Console Info ''succeeded on attempt'']
                                       else [Invoked name])\<rparr>)"
      using le op [unfolded Inr] by (rule retry_loop_success_step)
    ultimately show ?thesis by (simp only: snd_conv)
  next
    case (Inl e)
    show ?thesis
    proof (cases "isNonRetryableError e")
      case True
      have "only_notifies s (s\<lparr>gateway := g',
                   trace := trace s @ [Invoked name, Console Err ''failed with non-retryable error'']\<rparr>)"
        by (rule only_notifies_appendI [where evs = "[Invoked name, Console Err ''failed with non-retryable error'']"]) simp_all
      moreover have "retry_loop this operation name a lastError s = (Inl e, s\<lparr>gateway := g',
                   trace := trace s @ [Invoked name, Console Err ''failed with non-retryable error'']\<rparr>)"
        using le op [unfolded Inl] True by (rule retry_loop_abort_step)
      ultimately show ?thesis by (simp only: snd_conv)
    next
      case False
      show ?thesis
      proof (cases "a < MAX_RETRIES this")
        case True
        define s1 where "s1 = s\<lparr>gateway := g', randoms := (\<lambda>n. randoms s (Suc n)),
              trace := trace s @ retry_round this name a (randoms s 0)\<rparr>"
        have step: "retry_loop this operation name a lastError s = retry_loop this operation name (Suc a) e s1"
          unfolding s1_def using True op [unfolded Inl] False by (rule retry_loop_retry_step)
        have "only_notifies s s1"
          unfolding s1_def
          by (rule only_notifies_appendI [where evs = "retry_round this name a (randoms s 0)"])
             (simp_all add: retry_round_def)
        moreover have "only_notifies s1 (snd (retry_loop this operation name (Suc a) e s1))"
          using Suc.prems True by (intro Suc.IH) simp
        ultimately show ?thesis unfolding step by (rule only_notifies_trans)
      next
        case F: False
        then have eq: "a = MAX_RETRIES this" using le by simp
        have "only_notifies s (s\<lparr>gateway := g',
                   trace := trace s @ [Invoked name, Console Err ''failed after attempts'']\<rparr>)"
          by (rule only_notifies_appendI [where evs = "[Invoked name, Console Err ''failed after attempts'']"]) simp_all
        moreover have "retry_loop this operation name a lastError s = (Inl e, s\<lparr>gateway := g',
                   trace := trace s @ [Invoked name, Console Err ''failed after attempts'']\<rparr>)"
          using eq op [unfolded Inl] False by (rule retry_loop_last_step)
        ultimately show ?thesis by (simp only: snd_conv)
      qed
    qed
  qed
qed

lemma retryWithBackoff_only_notifies:
  "only_notifies s (snd (retryWithBackoff this operation name s))"
  unfolding retryWithBackoff_def by (rule retry_loop_only_notifies) simp

lemma sendContactConfirmationEmail_only_notifies:
  "only_notifies s (snd (sendContactConfirmationEmail this submission s))"
  using retryWithBackoff_only_notifies [of s this "client this \<lparr> msg_senderAddress = senderAddress this, msg_to = c_email submission,
              msg_subject = ''Thank You for Contacting AgentOja'' \<rparr>" "''Contact confirmation email to '' @ c_email submission"]
  by (auto simp: sendContactConfirmationEmail_def Let_def only_notifies_console_trans
           split: prod.splits sum.splits)

lemma sendContactNotificationEmail_only_notifies:
  "only_notifies s (snd (sendContactNotificationEmail this submission s))"
  using retryWithBackoff_only_notifies [of s this "client this \<lparr> msg_senderAddress = senderAddress this, msg_to = adminEmail this,
              msg_subject = ''New Contact Form Submission - '' @ c_name submission \<rparr>" "''Contact notification email to '' @ adminEmail this"]
  by (auto simp: sendContactNotificationEmail_def Let_def only_notifies_console_trans
           split: prod.splits sum.splits)


lemma contact_notify_only_notifies:
  "only_notifies s (snd (contact_notify emailService submission s))"
proof -
  define s2 where "s2 = console Info ''Contact submission saved to database:'' s"
  have a: "only_notifies s s2" by (simp add: s2_def)
  obtain r s3 where c: "sendContactConfirmationEmail emailService submission s2 = (r, s3)"
    by (cases "sendContactConfirmationEmail emailService submission s2")
  have b: "only_notifies s s3"
    using a sendContactConfirmationEmail_only_notifies [of s2 emailService submission] c
    by (auto intro: only_notifies_trans)
  show ?thesis
  proof (cases r)
    case (Inl err)
    then show ?thesis using b c
      by (simp add: contact_notify_def s2_def [symmetric] only_notifies_console_trans)
  next
    case (Inr u)
    define s3' where "s3' = console Info ''Confirmation email sent successfully'' s3"
    obtain outcome s4 where n: "sendContactNotificationEmail emailService submission s3' = (outcome, s4)"
      by (cases "sendContactNotificationEmail emailService submission s3'")
    have "only_notifies s s3'" using b by (simp add: s3'_def only_notifies_console_trans)
    then have "only_notifies s s4"
      using sendContactNotificationEmail_only_notifies [of s3' emailService submission] n
      by (auto intro: only_notifies_trans)
    then show ?thesis using c Inr n
      by (simp add: contact_notify_def s2_def [symmetric] s3'_def [symmetric]
            only_notifies_console_trans split: sum.splits)
  qed
qed

section \<open>The handlers, stage by stage\<close>

lemma failure_response_snd [simp]:
  "snd (failure_response t g e s) = console Err t s"
  by (simp add: failure_response_def Let_def)

lemma failure_response_data [simp]:
  "r_data (fst (failure_response t g e s)) = None"
  by (simp add: failure_response_def Let_def)

lemma failure_response_success [simp]:
  "r_success (fst (failure_response t g e s)) = False"
  by (simp add: failure_response_def Let_def)

lemma validation_response_snd [simp]:
  "snd (validation_response m s) = console Warn ''Validation failed:'' s"
  by (simp add: validation_response_def)

lemma validation_response_data [simp]:
  "r_data (fst (validation_response m s)) = None"
  by (simp add: validation_response_def)

lemma quiet_refl [simp]: "quiet s s"
  by (simp add: quiet_def events_since_def)

lemma quiet_appendI:
  assumes "ContactSubmissions s' = ContactSubmissions s"
    "WaitlistSubmissions s' = WaitlistSubmissions s" "gateway s' = gateway s"
    "trace s' = trace s @ evs" "list_all (\<lambda>e. \<not> is_Created e \<and> \<not> is_Invoked e) evs"
  shows "quiet s s'"
  using assms by (simp add: quiet_def events_since_def)

lemma quiet_appendD:
  assumes "quiet s s'"
  shows "trace s' = trace s @ events_since s s'"
  using assms unfolding quiet_def events_since_def
  by (metis append_take_drop_id)

lemma quiet_trans:
  assumes "quiet s s'" "quiet s' s''"
  shows "quiet s s''"
proof -
  have t1: "trace s' = trace s @ events_since s s'"
    using assms(1) by (rule quiet_appendD)
  have t2: "trace s'' = trace s' @ events_since s' s''"
    using assms(2) by (rule quiet_appendD)
  have "trace s'' = trace s @ (events_since s s' @ events_since s' s'')"
    using t1 t2 by simp
  moreover have "list_all (\<lambda>e. \<not> is_Created e \<and> \<not> is_Invoked e) (events_since s s' @ events_since s' s'')"
    using assms by (simp add: quiet_def)
  moreover have "ContactSubmissions s'' = ContactSubmissions s"
    "WaitlistSubmissions s'' = WaitlistSubmissions s" "gateway s'' = gateway s"
    using assms by (simp_all add: quiet_def)
  ultimately show ?thesis
    by (intro quiet_appendI [where evs = "events_since s s' @ events_since s' s''"])
qed

lemma quiet_console [simp]: "quiet s (console l t s)"
  by (rule quiet_appendI [where evs = "[Console l t]"]) (simp_all add: console_def emit_def)

lemma quiet_console_trans: "quiet s s' \<Longrightarrow> quiet s (console l t s')"
  by (erule quiet_trans) simp

lemma quiet_cosmos_request [simp]: "quiet s (snd (cosmos_request s))"
  by (rule quiet_appendI [where evs = "[]"]) (simp_all add: cosmos_request_def)

lemma quiet_randomUUID [simp]: "quiet s (snd (randomUUID s))"
  by (rule quiet_appendI [where evs = "[]"]) (simp_all add: randomUUID_def)

lemma quiet_Date_toISOString [simp]: "quiet s (snd (Date_toISOString s))"
  by (rule quiet_appendI [where evs = "[]"]) (simp_all add: Date_toISOString_def)

lemma quiet_log_rethrown [simp]: "quiet s (log_rethrown a b e s)"
  by (simp add: log_rethrown_def)

lemma quiet_log_rethrown_trans: "quiet s s' \<Longrightarrow> quiet s (log_rethrown a b e s')"
  by (erule quiet_trans) simp

lemma quiet_query_fetchAll [simp]: "quiet s (snd (query_fetchAll m n s))"
proof -
  obtain f s1 where c: "cosmos_request s = (f, s1)" by (cases "cosmos_request s")
  have "quiet s (snd (cosmos_request s))" by simp
  then have "quiet s s1" unfolding c by simp
  then show ?thesis by (cases f) (simp_all add: query_fetchAll_def c)
qed


lemma quiet_failure_response: "quiet s s' \<Longrightarrow> quiet s (snd (failure_response t g e s'))"
  by (simp add: quiet_console_trans)

section \<open>The database service, call by call\<close>

lemma createContactSubmission_Inl:
  assumes "createContactSubmission d s = (Inl e, s')"
  shows "quiet s s'"
proof -
  have [simp]: "\<And>evs f. quiet s (s\<lparr>uuids := f, cosmos_faults := evs\<rparr>)"
    by (rule quiet_appendI [where evs = "[]"]) simp_all
  show ?thesis
    using assms
    by (auto simp: createContactSubmission_def randomUUID_def create_contact_item_def
          cosmos_request_def Let_def log_rethrown_def quiet_console_trans
          split: prod.splits sum.splits option.splits if_splits)
qed

lemma createContactSubmission_Inr:
  assumes "createContactSubmission d s = (Inr sub, s')"
  shows "sub = \<lparr> c_id = ''contact-'' @ uuids s 0, c_name = cd_name d, c_email = cd_email d,
                  c_message = cd_message d, c_status = cd_status d,
                  c_submittedAt = cd_submittedAt d, c_partitionKey = cd_email d \<rparr>"
    and "ContactSubmissions s' = ContactSubmissions s @ [sub]"
    and "WaitlistSubmissions s' = WaitlistSubmissions s"
    and "trace s' = trace s @ [Created ''ContactSubmissions'' (c_id sub)]"
    and "gateway s' = gateway s"
    and "cosmos_faults s 0 = None"
    and "\<not> list_ex (\<lambda>x. c_id x = c_id sub \<and> c_partitionKey x = c_partitionKey sub) (ContactSubmissions s)"
  using assms
  by (auto simp: createContactSubmission_def randomUUID_def create_contact_item_def
        cosmos_request_def Let_def emit_def
        split: prod.splits sum.splits option.splits if_splits)

lemma createContactSubmission_succeeds:
  assumes "cosmos_faults s 0 = None"
    and "\<not> list_ex (\<lambda>x. c_id x = ''contact-'' @ uuids s 0 \<and> c_partitionKey x = cd_email d) (ContactSubmissions s)"
  shows "\<exists>sub s'. createContactSubmission d s = (Inr sub, s')"
  using assms
  by (simp add: createContactSubmission_def randomUUID_def create_contact_item_def
        cosmos_request_def Let_def)

lemma getWaitlistCount_Inl:
  assumes "getWaitlistCount s = (Inl e, s')"
  shows "quiet s s'"
proof -
  have [simp]: "\<And>evs. quiet s (s\<lparr>cosmos_faults := evs\<rparr>)"
    by (rule quiet_appendI [where evs = "[]"]) simp_all
  show ?thesis
    using assms
    by (auto simp: getWaitlistCount_def query_fetchAll_def cosmos_request_def
          log_rethrown_def quiet_console_trans
          split: prod.splits sum.splits option.splits if_splits)
qed

lemma getWaitlistCount_Inr:
  assumes "getWaitlistCount s = (Inr n, s')"
  shows "n = length (filter (\<lambda>c. w_status c = Active) (WaitlistSubmissions s))"
    and "s' = s\<lparr>cosmos_faults := (\<lambda>n. cosmos_faults s (Suc n))\<rparr>"
    and "cosmos_faults s 0 = None"
  using assms
  by (auto simp: getWaitlistCount_def query_fetchAll_def cosmos_request_def fetchAll_def
        pages_of.simps [of 0]
        split: prod.splits sum.splits option.splits if_splits)

lemma createWaitlistSubmission_Inl:
  assumes "createWaitlistSubmission d s = (Inl e, s')"
  shows "quiet s s'"
proof -
  obtain u s1 where u: "randomUUID s = (u, s1)" by (cases "randomUUID s")
  have q1: "quiet s s1" using quiet_randomUUID [of s] unfolding u by simp
  obtain r s2 where c: "getWaitlistCount s1 = (r, s2)" by (cases "getWaitlistCount s1")
  show ?thesis
  proof (cases r)
    case (Inl e')
    then have "quiet s1 s2" using c by (auto dest: getWaitlistCount_Inl)
    then have "quiet s s2" using q1 quiet_trans by blast
    then show ?thesis using assms u c Inl by (simp add: createWaitlistSubmission_def)
  next
    case (Inr n)
    have s2: "s2 = s1\<lparr>cosmos_faults := (\<lambda>n. cosmos_faults s1 (Suc n))\<rparr>"
      using c Inr by (auto dest: getWaitlistCount_Inr)
    have "quiet s1 s2" unfolding s2 by (rule quiet_appendI [where evs = "[]"]) simp_all
    then have q2: "quiet s s2" using q1 quiet_trans by blast
    have [simp]: "\<And>evs. quiet s (s2\<lparr>cosmos_faults := evs\<rparr>)"
      by (rule quiet_trans [OF q2]) (rule quiet_appendI [where evs = "[]"], simp_all)
    show ?thesis
      using assms u c Inr
      by (auto simp: createWaitlistSubmission_def create_waitlist_item_def
          cosmos_request_def Let_def log_rethrown_def quiet_console_trans
          split: prod.splits sum.splits option.splits if_splits)
  qed
qed

lemma createWaitlistSubmission_Inr:
  assumes "createWaitlistSubmission d s = (Inr sub, s')"
  shows "sub = \<lparr> w_id = ''waitlist-'' @ uuids s 0, w_email = wd_email d, w_name = wd_name d,
                  w_status = wd_status d,
                  w_position = length (filter (\<lambda>c. w_status c = Active) (WaitlistSubmissions s)) + 1,
                  w_submittedAt = wd_submittedAt d, w_partitionKey = wd_email d \<rparr>"
    and "WaitlistSubmissions s' = WaitlistSubmissions s @ [sub]"
    and "ContactSubmissions s' = ContactSubmissions s"
    and "trace s' = trace s @ [Created ''WaitlistSubmissions'' (w_id sub)]"
    and "gateway s' = gateway s"
    and "cosmos_faults s 0 = None" and "cosmos_faults s 1 = None"
    and "\<not> list_ex (\<lambda>x. w_id x = w_id sub \<and> w_partitionKey x = w_partitionKey sub) (WaitlistSubmissions s)"
proof -
  obtain u s1 where u: "randomUUID s = (u, s1)" by (cases "randomUUID s")
  have u': "u = uuids s 0" "s1 = s\<lparr>uuids := (\<lambda>n. uuids s (Suc n))\<rparr>"
    using u by (auto simp: randomUUID_def)
  obtain r s2 where c: "getWaitlistCount s1 = (r, s2)" by (cases "getWaitlistCount s1")
  obtain n where r: "r = Inr n"
    using assms u c by (cases r) (auto simp: createWaitlistSubmission_def)
  note cnt = getWaitlistCount_Inr [OF c [unfolded r]]
  have all: "sub = \<lparr> w_id = ''waitlist-'' @ uuids s 0, w_email = wd_email d, w_name = wd_name d,
                  w_status = wd_status d,
                  w_position = length (filter (\<lambda>c. w_status c = Active) (WaitlistSubmissions s)) + 1,
                  w_submittedAt = wd_submittedAt d, w_partitionKey = wd_email d \<rparr>
    \<and> WaitlistSubmissions s' = WaitlistSubmissions s @ [sub]
    \<and> ContactSubmissions s' = ContactSubmissions s
    \<and> trace s' = trace s @ [Created ''WaitlistSubmissions'' (w_id sub)]
    \<and> gateway s' = gateway s
    \<and> cosmos_faults s 0 = None \<and> cosmos_faults s 1 = None
    \<and> \<not> list_ex (\<lambda>x. w_id x = w_id sub \<and> w_partitionKey x = w_partitionKey sub) (WaitlistSubmissions s)"
    using assms u c r cnt u'
    by (auto simp: createWaitlistSubmission_def create_waitlist_item_def
          cosmos_request_def Let_def emit_def
          split: prod.splits sum.splits option.splits if_splits)
  show "sub = \<lparr> w_id = ''waitlist-'' @ uuids s 0, w_email = wd_email d, w_name = wd_name d,
                  w_status = wd_status d,
                  w_position = length (filter (\<lambda>c. w_status c = Active) (WaitlistSubmissions s)) + 1,
                  w_submittedAt = wd_submittedAt d, w_partitionKey = wd_email d \<rparr>"
    and "WaitlistSubmissions s' = WaitlistSubmissions s @ [sub]"
    and "ContactSubmissions s' = ContactSubmissions s"
    and "trace s' = trace s @ [Created ''WaitlistSubmissions'' (w_id sub)]"
    and "gateway s' = gateway s"
    and "cosmos_faults s 0 = None" and "cosmos_faults s 1 = None"
    and "\<not> list_ex (\<lambda>x. w_id x = w_id sub \<and> w_partitionKey x = w_partitionKey sub) (WaitlistSubmissions s)"
    using all by blast+
qed

lemma createWaitlistSubmission_succeeds:
  assumes "cosmos_faults s 0 = None" "cosmos_faults s 1 = None"
    and "\<not> list_ex (\<lambda>x. w_id x = ''waitlist-'' @ uuids s 0 \<and> w_partitionKey x = wd_email d)
              (WaitlistSubmissions s)"
  shows "\<exists>sub s'. createWaitlistSubmission d s = (Inr sub, s')"
  using assms
  by (simp add: createWaitlistSubmission_def randomUUID_def create_waitlist_item_def
        getWaitlistCount_def query_fetchAll_def fetchAll_def pages_of.simps [of 0]
        cosmos_request_def Let_def)

lemma getWaitlistSubmissionByEmail_quiet:
  "quiet s (snd (getWaitlistSubmissionByEmail e s))"
proof -
  have [simp]: "\<And>evs. quiet s (s\<lparr>cosmos_faults := evs\<rparr>)"
    by (rule quiet_appendI [where evs = "[]"]) simp_all
  show ?thesis
    by (auto simp: getWaitlistSubmissionByEmail_def query_fetchAll_def cosmos_request_def
          log_rethrown_def quiet_console_trans
          split: prod.splits sum.splits option.splits if_splits)
qed

lemma contact_notify_data [simp]:
  "r_data (fst (contact_notify es sub s)) = Some \<lparr> submissionId = c_id sub, email = c_email sub \<rparr>"
  by (simp add: contact_notify_def split: prod.splits sum.splits)



text \<open>
  Every run of \<^verbatim>\<open>contactForm\<close> either writes nothing, attempts no send and answers without
  data, or writes one submission after a quiet start and then only notifies.
\<close>

lemma contactForm_run:
  "(quiet s0 (snd (contactForm EmailClient body s0))
      \<and> r_data (fst (contactForm EmailClient body s0)) = None)
   \<or> (\<exists>es sub s1 s2. quiet s0 s1
         \<and> ContactSubmissions s2 = ContactSubmissions s1 @ [sub]
         \<and> WaitlistSubmissions s2 = WaitlistSubmissions s1
         \<and> trace s2 = trace s1 @ [Created ''ContactSubmissions'' (c_id sub)]
         \<and> contactForm EmailClient body s0 = contact_notify es sub s2)"
proof -
  define s where "s = console Info ''Contact form submission received'' s0"
  define sf where "sf = console Info ''Contact from:'' s"
  have qs: "quiet s0 s" by (simp add: s_def)
  have qf: "quiet s0 sf" unfolding sf_def using qs by (rule quiet_console_trans)
  show ?thesis
  proof (cases body)
    case (JsonThrows err)
    then show ?thesis using qs
      by (simp add: contactForm_def Let_def s_def [symmetric] quiet_console_trans)
  next
    case (ValidationFails msg)
    then show ?thesis using qf
      by (simp add: contactForm_def Let_def s_def [symmetric] sf_def [symmetric] quiet_console_trans)
  next
    case (Validated req)
    show ?thesis
    proof (cases "DatabaseService_new (process_env s)")
      case (Inl err)
      then show ?thesis using qf Validated
        by (simp add: contactForm_def Let_def s_def [symmetric] sf_def [symmetric] quiet_console_trans)
    next
      case db: (Inr dbService)
      show ?thesis
      proof (cases "EmailService_new EmailClient (process_env s)")
        case (Inl err)
        then show ?thesis using qf Validated db
          by (simp add: contactForm_def Let_def s_def [symmetric] sf_def [symmetric] quiet_console_trans)
      next
        case es: (Inr emailService)
        obtain submittedAt s1 where d: "Date_toISOString sf = (submittedAt, s1)"
          by (cases "Date_toISOString sf")
        have "quiet sf s1" using quiet_Date_toISOString [of sf] unfolding d by simp
        then have q1: "quiet s0 s1" using qf quiet_trans by blast
        define dat where "dat = \<lparr> cd_name = sanitizeString (req_name req) 100,
                       cd_email = trim (toLowerCase (req_email req)),
                       cd_message = sanitizeString (req_message req) 2000,
                       cd_status = New,
                       cd_submittedAt = submittedAt \<rparr>"
        obtain r s2 where c: "createContactSubmission dat s1 = (r, s2)"
          by (cases "createContactSubmission dat s1")
        show ?thesis
        proof (cases r)
          case (Inl err)
          then have "quiet s1 s2" using c by (auto dest: createContactSubmission_Inl)
          then have "quiet s0 s2" using q1 quiet_trans by blast
          then show ?thesis using Validated db es d c Inl
            by (simp add: contactForm_def Let_def s_def [symmetric] sf_def [symmetric]
                  dat_def [symmetric] quiet_console_trans)
        next
          case (Inr sub)
          note cr = createContactSubmission_Inr [OF c [unfolded Inr]]
          have "contactForm EmailClient body s0 = contact_notify emailService sub s2"
            using Validated db es d c Inr
            by (simp add: contactForm_def Let_def s_def [symmetric] sf_def [symmetric]
                  dat_def [symmetric])
          then show ?thesis using q1 cr(2,3,4) by blast
        qed
      qed
    qed
  qed
qed

section \<open>The contact handler and its two e-mails\<close>

lemmas run_defs = contactForm_def contact_notify_def sendContactConfirmationEmail_def
  sendContactNotificationEmail_def retryWithBackoff_def retry_loop.simps invoke_def
  Math_random_def sleep_def console_def emit_def
  isNonRetryableError_def has_property_def get_property_def
  createContactSubmission_def create_contact_item_def cosmos_request_def randomUUID_def
  Date_toISOString_def DatabaseService_new_def EmailService_new_def
  failure_response_def validation_response_def log_rethrown_def
  sanitizeString_def trim_def toLowerCase_def is_whitespace_def
  waitlist_def waitlist_notify_def sendWaitlistConfirmationEmail_def
  getWaitlistSubmissionByEmail_def query_fetchAll_def fetchAll_def pages_of.simps
  createWaitlistSubmission_def getWaitlistCount_def create_waitlist_item_def
  demo_state_def demo_env_def demo_request_def demo_signup_def demo_service_def
  demo_submission_def demo_waitlisted_def demo_notified_def timing_out_def timed_out_def
  accepting_def admin_unreachable_def answering_404_def not_found_def Let_def

lemma contactForm_store:
  "(r_data (fst (contactForm EmailClient body s0)) = None
      \<and> ContactSubmissions (snd (contactForm EmailClient body s0)) = ContactSubmissions s0)
   \<or> (\<exists>sub. r_data (fst (contactForm EmailClient body s0))
                = Some \<lparr> submissionId = c_id sub, email = c_email sub \<rparr>
         \<and> ContactSubmissions (snd (contactForm EmailClient body s0)) = ContactSubmissions s0 @ [sub])"
  using contactForm_run [of s0 EmailClient body]
proof (elim disjE exE conjE)
  assume "quiet s0 (snd (contactForm EmailClient body s0))"
    "r_data (fst (contactForm EmailClient body s0)) = None"
  then show ?thesis by (simp add: quiet_def)
next
  fix es sub s1 s2
  assume q: "quiet s0 s1" and c: "ContactSubmissions s2 = ContactSubmissions s1 @ [sub]"
    and r: "contactForm EmailClient body s0 = contact_notify es sub s2"
  have "only_notifies s2 (snd (contact_notify es sub s2))" by (rule contact_notify_only_notifies)
  then have "ContactSubmissions (snd (contact_notify es sub s2)) = ContactSubmissions s0 @ [sub]"
    using q c by (simp add: only_notifies_def quiet_def)
  then show ?thesis unfolding r by simp
qed

lemma retry_loop_rejected:
  assumes rej: "\<And>g. \<exists>e. fst (operation g) = Inl e"
  shows "\<exists>e s'. retry_loop this operation name a lastError s = (Inl e, s')"
proof (induction "Suc (MAX_RETRIES this) - a" arbitrary: a lastError s)
  case 0
  then have "\<not> a \<le> MAX_RETRIES this" by simp
  then show ?case by (subst retry_loop.simps) simp
next
  case (Suc n)
  then have le: "a \<le> MAX_RETRIES this" by simp
  obtain e g' where op: "operation (gateway s) = (Inl e, g')"
    using rej [of "gateway s"] by (cases "operation (gateway s)") auto
  show ?case
  proof (cases "isNonRetryableError e")
    case True
    have "retry_loop this operation name a lastError s =
         (Inl e, s\<lparr>gateway := g',
                   trace := trace s @ [Invoked name, Console Err ''failed with non-retryable error'']\<rparr>)"
      using le op True by (rule retry_loop_abort_step)
    then show ?thesis by blast
  next
    case False
    show ?thesis
    proof (cases "a < MAX_RETRIES this")
      case True
      have n: "n = Suc (MAX_RETRIES this) - Suc a" using Suc(2) by simp
      have "retry_loop this operation name a lastError s =
         retry_loop this operation name (Suc a) e
           (s\<lparr>gateway := g', randoms := (\<lambda>n. randoms s (Suc n)),
              trace := trace s @ retry_round this name a (randoms s 0)\<rparr>)"
        using True op False by (rule retry_loop_retry_step)
      then show ?thesis using Suc(1) [OF n] by simp
    next
      case F: False
      then have eq: "a = MAX_RETRIES this" using le by simp
      have "retry_loop this operation name a lastError s =
         (Inl e, s\<lparr>gateway := g',
                   trace := trace s @ [Invoked name, Console Err ''failed after attempts'']\<rparr>)"
        using eq op False by (rule retry_loop_last_step)
      then show ?thesis by blast
    qed
  qed
qed

lemma sendContactConfirmationEmail_rejected:
  assumes "\<And>m g. \<exists>e. fst (client this m g) = Inl e"
  shows "\<exists>e. fst (sendContactConfirmationEmail this submission s) = Inl e"
proof -
  let ?m = "\<lparr> msg_senderAddress = senderAddress this, msg_to = c_email submission,
              msg_subject = ''Thank You for Contacting AgentOja'' \<rparr>"
  obtain e s' where "retryWithBackoff this (client this ?m)
      (''Contact confirmation email to '' @ c_email submission) s = (Inl e, s')"
    unfolding retryWithBackoff_def
    using retry_loop_rejected [of "client this ?m", OF assms] by blast
  then show ?thesis by (simp add: sendContactConfirmationEmail_def)
qed

lemma contact_notify_degraded:
  assumes "fst (sendContactConfirmationEmail this submission
               (console Info ''Contact submission saved to database:'' s)) = Inl err"
  shows "fst (contact_notify this submission s)
          = \<lparr> r_status = 500, r_success = False,
               r_message = ''Your message was saved, but we could not send the confirmation email. Please try again or contact us directly.'',
               r_error = Some ''Failed to send confirmation email'',
               r_data = Some \<lparr> submissionId = c_id submission, email = c_email submission \<rparr> \<rparr>"
  using assms
  by (cases "sendContactConfirmationEmail this submission
               (console Info ''Contact submission saved to database:'' s)")
     (simp add: contact_notify_def)

lemma contactForm_persisted:
  assumes db: "DatabaseService_new (process_env s0) = Inr dbService"
    and es: "EmailService_new EmailClient (process_env s0) = Inr emailService"
    and cr: "createContactSubmission
               \<lparr> cd_name = sanitizeString (req_name requestData) 100,
                 cd_email = trim (toLowerCase (req_email requestData)),
                 cd_message = sanitizeString (req_message requestData) 2000,
                 cd_status = New,
                 cd_submittedAt = fst (Date_toISOString (console Info ''Contact from:''
                    (console Info ''Contact form submission received'' s0))) \<rparr>
               (snd (Date_toISOString (console Info ''Contact from:''
                    (console Info ''Contact form submission received'' s0)))) = (Inr persisted, s2)"
  shows "contactForm EmailClient (Validated requestData) s0 = contact_notify emailService persisted s2"
    and "ContactSubmissions s2 = ContactSubmissions s0 @ [persisted]"
    and "WaitlistSubmissions s2 = WaitlistSubmissions s0"
proof -
  let ?s = "console Info ''Contact form submission received'' s0"
  have env: "process_env ?s = process_env s0" by (simp add: console_def emit_def)
  obtain submittedAt s1
    where d: "Date_toISOString (console Info ''Contact from:'' ?s) = (submittedAt, s1)"
    by (cases "Date_toISOString (console Info ''Contact from:'' ?s)")
  have cr': "createContactSubmission
               \<lparr> cd_name = sanitizeString (req_name requestData) 100,
                 cd_email = trim (toLowerCase (req_email requestData)),
                 cd_message = sanitizeString (req_message requestData) 2000,
                 cd_status = New,
                 cd_submittedAt = submittedAt \<rparr> s1 = (Inr persisted, s2)"
    using cr unfolding d by simp
  show "contactForm EmailClient (Validated requestData) s0 = contact_notify emailService persisted s2"
    using db es d cr' by (simp add: contactForm_def Let_def env)
  show "ContactSubmissions s2 = ContactSubmissions s0 @ [persisted]"
    using createContactSubmission_Inr(2) [OF cr]
    by (simp add: Date_toISOString_def console_def emit_def)
  show "WaitlistSubmissions s2 = WaitlistSubmissions s0"
    using createContactSubmission_Inr(3) [OF cr]
    by (simp add: Date_toISOString_def console_def emit_def)
qed


lemma contactForm_degraded:
  assumes db: "DatabaseService_new (process_env s0) = Inr dbService"
    and es: "EmailService_new EmailClient (process_env s0) = Inr emailService"
    and cr: "createContactSubmission
               \<lparr> cd_name = sanitizeString (req_name requestData) 100,
                 cd_email = trim (toLowerCase (req_email requestData)),
                 cd_message = sanitizeString (req_message requestData) 2000,
                 cd_status = New,
                 cd_submittedAt = fst (Date_toISOString (console Info ''Contact from:''
                    (console Info ''Contact form submission received'' s0))) \<rparr>
               (snd (Date_toISOString (console Info ''Contact from:''
                    (console Info ''Contact form submission received'' s0)))) = (Inr persisted, s2)"
    and fails: "fst (sendContactConfirmationEmail emailService persisted
                  (console Info ''Contact submission saved to database:'' s2)) = Inl failure"
  shows "fst (contactForm EmailClient (Validated requestData) s0)
          = \<lparr> r_status = 500, r_success = False,
               r_message = ''Your message was saved, but we could not send the confirmation email. Please try again or contact us directly.'',
               r_error = Some ''Failed to send confirmation email'',
               r_data = Some \<lparr> submissionId = c_id persisted, email = c_email persisted \<rparr> \<rparr>"
    and "ContactSubmissions (snd (contactForm EmailClient (Validated requestData) s0))
          = ContactSubmissions s0 @ [persisted]"
    and "WaitlistSubmissions (snd (contactForm EmailClient (Validated requestData) s0))
          = WaitlistSubmissions s0"
proof -
  note p = contactForm_persisted [OF db es cr]
  have o: "only_notifies s2 (snd (contact_notify emailService persisted s2))"
    by (rule contact_notify_only_notifies)
  show "fst (contactForm EmailClient (Validated requestData) s0)
          = \<lparr> r_status = 500, r_success = False,
               r_message = ''Your message was saved, but we could not send the confirmation email. Please try again or contact us directly.'',
               r_error = Some ''Failed to send confirmation email'',
               r_data = Some \<lparr> submissionId = c_id persisted, email = c_email persisted \<rparr> \<rparr>"
    unfolding p(1) using fails by (rule contact_notify_degraded)
  show "ContactSubmissions (snd (contactForm EmailClient (Validated requestData) s0))
          = ContactSubmissions s0 @ [persisted]"
    unfolding p(1) using o p(2) by (simp add: only_notifies_def)
  show "WaitlistSubmissions (snd (contactForm EmailClient (Validated requestData) s0))
          = WaitlistSubmissions s0"
    unfolding p(1) using o p(3) by (simp add: only_notifies_def)
qed

lemma contactForm_rejected:
  assumes db: "DatabaseService_new (process_env s0) = Inr dbService"
    and es: "EmailService_new EmailClient (process_env s0) = Inr emailService"
    and served: "cosmos_faults s0 0 = None"
    and fresh: "\<not> list_ex (\<lambda>x. c_id x = ''contact-'' @ uuids s0 0
                  \<and> c_partitionKey x = trim (toLowerCase (req_email requestData)))
                (ContactSubmissions s0)"
    and rej: "\<forall>m g. \<exists>e. fst (client emailService m g) = Inl e"
  shows "fst (contactForm EmailClient (Validated requestData) s0)
          = \<lparr> r_status = 500, r_success = False,
               r_message = ''Your message was saved, but we could not send the confirmation email. Please try again or contact us directly.'',
               r_error = Some ''Failed to send confirmation email'',
               r_data = Some \<lparr> submissionId = ''contact-'' @ uuids s0 0,
                               email = trim (toLowerCase (req_email requestData)) \<rparr> \<rparr>"
    and "ContactSubmissions (snd (contactForm EmailClient (Validated requestData) s0))
          = ContactSubmissions s0 @
            [\<lparr> c_id = ''contact-'' @ uuids s0 0,
               c_name = sanitizeString (req_name requestData) 100,
               c_email = trim (toLowerCase (req_email requestData)),
               c_message = sanitizeString (req_message requestData) 2000,
               c_status = New, c_submittedAt = clock s0 0,
               c_partitionKey = trim (toLowerCase (req_email requestData)) \<rparr>]"
proof -
  define sf where "sf = console Info ''Contact from:''
                    (console Info ''Contact form submission received'' s0)"
  define s1 where "s1 = snd (Date_toISOString sf)"
  define dat where "dat = \<lparr> cd_name = sanitizeString (req_name requestData) 100,
                 cd_email = trim (toLowerCase (req_email requestData)),
                 cd_message = sanitizeString (req_message requestData) 2000,
                 cd_status = New,
                 cd_submittedAt = fst (Date_toISOString sf) \<rparr>"
  have s1: "cosmos_faults s1 0 = None" "uuids s1 = uuids s0"
    "ContactSubmissions s1 = ContactSubmissions s0"
    using served by (simp_all add: s1_def sf_def Date_toISOString_def console_def emit_def)
  have at: "fst (Date_toISOString sf) = clock s0 0"
    by (simp add: sf_def Date_toISOString_def console_def emit_def)
  have "\<not> list_ex (\<lambda>x. c_id x = ''contact-'' @ uuids s1 0 \<and> c_partitionKey x = cd_email dat)
          (ContactSubmissions s1)"
    using fresh unfolding s1 dat_def by simp
  then obtain persisted s2 where cr: "createContactSubmission dat s1 = (Inr persisted, s2)"
    using createContactSubmission_succeeds [OF s1(1), of dat] by blast
  have shape: "persisted = \<lparr> c_id = ''contact-'' @ uuids s0 0,
               c_name = sanitizeString (req_name requestData) 100,
               c_email = trim (toLowerCase (req_email requestData)),
               c_message = sanitizeString (req_message requestData) 2000,
               c_status = New, c_submittedAt = clock s0 0,
               c_partitionKey = trim (toLowerCase (req_email requestData)) \<rparr>"
    using createContactSubmission_Inr(1) [OF cr] unfolding s1 dat_def at by simp
  obtain failure where fails: "fst (sendContactConfirmationEmail emailService persisted
                  (console Info ''Contact submission saved to database:'' s2)) = Inl failure"
    using sendContactConfirmationEmail_rejected [of emailService persisted] rej by blast
  note d = contactForm_degraded [OF db es cr [unfolded dat_def s1_def sf_def] fails]
  show "fst (contactForm EmailClient (Validated requestData) s0)
          = \<lparr> r_status = 500, r_success = False,
               r_message = ''Your message was saved, but we could not send the confirmation email. Please try again or contact us directly.'',
               r_error = Some ''Failed to send confirmation email'',
               r_data = Some \<lparr> submissionId = ''contact-'' @ uuids s0 0,
                               email = trim (toLowerCase (req_email requestData)) \<rparr> \<rparr>"
    unfolding d(1) by (simp add: shape)
  show "ContactSubmissions (snd (contactForm EmailClient (Validated requestData) s0))
          = ContactSubmissions s0 @
            [\<lparr> c_id = ''contact-'' @ uuids s0 0,
               c_name = sanitizeString (req_name requestData) 100,
               c_email = trim (toLowerCase (req_email requestData)),
               c_message = sanitizeString (req_message requestData) 2000,
               c_status = New, c_submittedAt = clock s0 0,
               c_partitionKey = trim (toLowerCase (req_email requestData)) \<rparr>]"
    unfolding d(2) shape ..
qed

text \<open>
  C4. When the retry executor throws a cause (after exhaustion or on a non-retryable
  error), \<^verbatim>\<open>sendContactConfirmationEmail\<close> throws a new \<^verbatim>\<open>Error\<close> whose message carries the
  cause's message (or \<^verbatim>\<open>Unknown error\<close> when the cause is no \<^verbatim>\<open>Error\<close>). When the
  confirmation send throws after \<^verbatim>\<open>createContactSubmission\<close> has returned the persisted
  record, the response of \<^verbatim>\<open>contactForm\<close> has status 500 and \<^verbatim>\<open>success: false\<close>, flags the
  confirmation e-mail in \<^verbatim>\<open>error\<close> and still reports the id and e-mail of the persisted
  record, which stays in its container, and the other container is as before. So it
  is for every valid request when the services are configured, Cosmos DB serves the
  write of a fresh id and the gateway rejects every send. In every run of the handler
  the response carries data exactly when a record was persisted, so this outcome differs
  from every failure in which nothing was persisted.
\<close>

theorem C4_confirmation_failure_degraded:
  "(retryWithBackoff this
       (client this \<lparr> msg_senderAddress = senderAddress this, msg_to = c_email submission,
                       msg_subject = ''Thank You for Contacting AgentOja'' \<rparr>)
       (''Contact confirmation email to '' @ c_email submission) s = (Inl cause, s1)
     \<longrightarrow> sendContactConfirmationEmail this submission s
          = (Inl (JError (''Failed to send confirmation email: ''
                           @ message_or cause ''Unknown error'') []),
             console Err ''Failed to send contact confirmation email after all retries:'' s1))
   \<and> (fst (sendContactConfirmationEmail this submission
               (console Info ''Contact submission saved to database:'' s)) = Inl err
     \<longrightarrow> fst (contact_notify this submission s)
          = \<lparr> r_status = 500, r_success = False,
               r_message = ''Your message was saved, but we could not send the confirmation email. Please try again or contact us directly.'',
               r_error = Some ''Failed to send confirmation email'',
               r_data = Some \<lparr> submissionId = c_id submission, email = c_email submission \<rparr> \<rparr>
        \<and> only_notifies s (snd (contact_notify this submission s)))
   \<and> (DatabaseService_new (process_env s0) = Inr dbService
        \<and> EmailService_new EmailClient (process_env s0) = Inr emailService
        \<and> createContactSubmission
               \<lparr> cd_name = sanitizeString (req_name requestData) 100,
                 cd_email = trim (toLowerCase (req_email requestData)),
                 cd_message = sanitizeString (req_message requestData) 2000,
                 cd_status = New,
                 cd_submittedAt = fst (Date_toISOString (console Info ''Contact from:''
                    (console Info ''Contact form submission received'' s0))) \<rparr>
               (snd (Date_toISOString (console Info ''Contact from:''
                    (console Info ''Contact form submission received'' s0)))) = (Inr persisted, s2)
        \<and> fst (sendContactConfirmationEmail emailService persisted
                  (console Info ''Contact submission saved to database:'' s2)) = Inl failure
     \<longrightarrow> fst (contactForm EmailClient (Validated requestData) s0)
          = \<lparr> r_status = 500, r_success = False,
               r_message = ''Your message was saved, but we could not send the confirmation email. Please try again or contact us directly.'',
               r_error = Some ''Failed to send confirmation email'',
               r_data = Some \<lparr> submissionId = c_id persisted, email = c_email persisted \<rparr> \<rparr>
        \<and> ContactSubmissions (snd (contactForm EmailClient (Validated requestData) s0))
            = ContactSubmissions s0 @ [persisted]
        \<and> WaitlistSubmissions (snd (contactForm EmailClient (Validated requestData) s0))
            = WaitlistSubmissions s0)
   \<and> (DatabaseService_new (process_env s0) = Inr dbService
        \<and> EmailService_new EmailClient (process_env s0) = Inr emailService
        \<and> cosmos_faults s0 0 = None
        \<and> \<not> list_ex (\<lambda>x. c_id x = ''contact-'' @ uuids s0 0
                  \<and> c_partitionKey x = trim (toLowerCase (req_email requestData)))
                (ContactSubmissions s0)
        \<and> (\<forall>m g. \<exists>e. fst (client emailService m g) = Inl e)
     \<longrightarrow> fst (contactForm EmailClient (Validated requestData) s0)
          = \<lparr> r_status = 500, r_success = False,
               r_message = ''Your message was saved, but we could not send the confirmation email. Please try again or contact us directly.'',
               r_error = Some ''Failed to send confirmation email'',
               r_data = Some \<lparr> submissionId = ''contact-'' @ uuids s0 0,
                               email = trim (toLowerCase (req_email requestData)) \<rparr> \<rparr>
        \<and> ContactSubmissions (snd (contactForm EmailClient (Validated requestData) s0))
            = ContactSubmissions s0 @
              [\<lparr> c_id = ''contact-'' @ uuids s0 0,
                 c_name = sanitizeString (req_name requestData) 100,
                 c_email = trim (toLowerCase (req_email requestData)),
                 c_message = sanitizeString (req_message requestData) 2000,
                 c_status = New, c_submittedAt = clock s0 0,
                 c_partitionKey = trim (toLowerCase (req_email requestData)) \<rparr>])
   \<and> (r_data (fst (contactForm EmailClient body s0)) = None
        \<longleftrightarrow> ContactSubmissions (snd (contactForm EmailClient body s0)) = ContactSubmissions s0)
   \<and> (\<forall>d. r_data (fst (contactForm EmailClient body s0)) = Some d
        \<longrightarrow> (\<exists>sub. d = \<lparr> submissionId = c_id sub, email = c_email sub \<rparr> \<and>
              ContactSubmissions (snd (contactForm EmailClient body s0)) = ContactSubmissions s0 @ [sub]))"
proof -
  have wrapped: "sendContactConfirmationEmail this submission s
          = (Inl (JError (''Failed to send confirmation email: ''
                           @ message_or cause ''Unknown error'') []),
             console Err ''Failed to send contact confirmation email after all retries:'' s1)"
    if "retryWithBackoff this
       (client this \<lparr> msg_senderAddress = senderAddress this, msg_to = c_email submission,
                       msg_subject = ''Thank You for Contacting AgentOja'' \<rparr>)
       (''Contact confirmation email to '' @ c_email submission) s = (Inl cause, s1)"
    using that by (simp add: sendContactConfirmationEmail_def)
  have tail: "fst (contact_notify this submission s)
          = \<lparr> r_status = 500, r_success = False,
               r_message = ''Your message was saved, but we could not send the confirmation email. Please try again or contact us directly.'',
               r_error = Some ''Failed to send confirmation email'',
               r_data = Some \<lparr> submissionId = c_id submission, email = c_email submission \<rparr> \<rparr>
        \<and> only_notifies s (snd (contact_notify this submission s))"
    if "fst (sendContactConfirmationEmail this submission
               (console Info ''Contact submission saved to database:'' s)) = Inl err"
    using contact_notify_degraded [OF that] contact_notify_only_notifies [of s this submission]
    by (rule conjI)
  have none: "r_data (fst (contactForm EmailClient body s0)) = None
        \<longleftrightarrow> ContactSubmissions (snd (contactForm EmailClient body s0)) = ContactSubmissions s0"
    using contactForm_store [of EmailClient body s0] by auto
  have some: "\<forall>d. r_data (fst (contactForm EmailClient body s0)) = Some d
        \<longrightarrow> (\<exists>sub. d = \<lparr> submissionId = c_id sub, email = c_email sub \<rparr> \<and>
              ContactSubmissions (snd (contactForm EmailClient body s0)) = ContactSubmissions s0 @ [sub])"
    using contactForm_store [of EmailClient body s0] by auto
  show ?thesis
  proof (intro conjI impI)
    show "r_data (fst (contactForm EmailClient body s0)) = None
        \<longleftrightarrow> ContactSubmissions (snd (contactForm EmailClient body s0)) = ContactSubmissions s0"
      by (rule none)
    show "\<forall>d. r_data (fst (contactForm EmailClient body s0)) = Some d
        \<longrightarrow> (\<exists>sub. d = \<lparr> submissionId = c_id sub, email = c_email sub \<rparr> \<and>
              ContactSubmissions (snd (contactForm EmailClient body s0)) = ContactSubmissions s0 @ [sub])"
      by (rule some)
  qed (use wrapped tail in \<open>blast intro: contactForm_degraded contactForm_rejected\<close>)+
qed

theorem C4_confirmation_failure_degraded_witness:
  "retryWithBackoff (demo_service timing_out)
       (client (demo_service timing_out)
          \<lparr> msg_senderAddress = senderAddress (demo_service timing_out),
            msg_to = c_email demo_submission,
            msg_subject = ''Thank You for Contacting AgentOja'' \<rparr>)
       (''Contact confirmation email to '' @ c_email demo_submission) demo_state
     = (Inl timed_out,
        snd (retryWithBackoff (demo_service timing_out)
          (client (demo_service timing_out)
             \<lparr> msg_senderAddress = senderAddress (demo_service timing_out),
               msg_to = c_email demo_submission,
               msg_subject = ''Thank You for Contacting AgentOja'' \<rparr>)
          (''Contact confirmation email to '' @ c_email demo_submission) demo_state)) \<and>
   fst (sendContactConfirmationEmail (demo_service timing_out) demo_submission demo_state)
     = Inl (JError ''Failed to send confirmation email: Request timed out'' []) \<and>
   fst (sendContactConfirmationEmail (demo_service timing_out) demo_submission
          (console Info ''Contact submission saved to database:'' demo_state))
     = Inl (JError ''Failed to send confirmation email: Request timed out'' []) \<and>
   fst (contact_notify (demo_service timing_out) demo_submission demo_state)
     = \<lparr> r_status = 500, r_success = False,
          r_message = ''Your message was saved, but we could not send the confirmation email. Please try again or contact us directly.'',
          r_error = Some ''Failed to send confirmation email'',
          r_data = Some \<lparr> submissionId = ''contact-uuid-'', email = ''jane@x.com'' \<rparr> \<rparr> \<and>
   EmailService_new timing_out (process_env demo_state) = Inr (demo_service timing_out) \<and>
   cosmos_faults demo_state 0 = None \<and>
   ContactSubmissions demo_state = [] \<and>
   fst (timing_out ''endpoint=acs'' demo_message 0) = Inl timed_out \<and>
   fst (contactForm timing_out (Validated demo_request) demo_state)
     = \<lparr> r_status = 500, r_success = False,
          r_message = ''Your message was saved, but we could not send the confirmation email. Please try again or contact us directly.'',
          r_error = Some ''Failed to send confirmation email'',
          r_data = Some \<lparr> submissionId = ''contact-uuid-'', email = ''jane@x.com'' \<rparr> \<rparr> \<and>
   ContactSubmissions (snd (contactForm timing_out (Validated demo_request) demo_state))
     = ContactSubmissions demo_state @ [demo_submission] \<and>
   r_data (fst (contactForm timing_out (JsonThrows timed_out) demo_state)) = None \<and>
   ContactSubmissions (snd (contactForm timing_out (JsonThrows timed_out) demo_state))
     = ContactSubmissions demo_state"
proof -
  let ?svc = "demo_service timing_out"
  let ?op = "client ?svc
          \<lparr> msg_senderAddress = senderAddress ?svc, msg_to = c_email demo_submission,
            msg_subject = ''Thank You for Contacting AgentOja'' \<rparr>"
  let ?name = "''Contact confirmation email to '' @ c_email demo_submission"
  let ?saved = "console Info ''Contact submission saved to database:'' demo_state"
  note T = C4_confirmation_failure_degraded [where this = ?svc and submission = demo_submission
      and cause = timed_out and EmailClient = timing_out]
  have h1: "retryWithBackoff ?svc ?op ?name demo_state
      = (Inl timed_out, snd (retryWithBackoff ?svc ?op ?name demo_state))"
    by (rule prod_eqI) (simp_all add: run_defs)
  have h1': "retryWithBackoff ?svc ?op ?name ?saved
      = (Inl timed_out, snd (retryWithBackoff ?svc ?op ?name ?saved))"
    by (rule prod_eqI) (simp_all add: run_defs)
  have c1: "fst (sendContactConfirmationEmail ?svc demo_submission demo_state)
     = Inl (JError ''Failed to send confirmation email: Request timed out'' [])"
    using T [where s = demo_state and ?s1.0 = "snd (retryWithBackoff ?svc ?op ?name demo_state)",
        THEN conjunct1] h1
    by (simp add: timed_out_def)
  have c2: "fst (sendContactConfirmationEmail ?svc demo_submission ?saved)
     = Inl (JError ''Failed to send confirmation email: Request timed out'' [])"
    using T [where s = ?saved and ?s1.0 = "snd (retryWithBackoff ?svc ?op ?name ?saved)",
        THEN conjunct1] h1'
    by (simp add: timed_out_def)
  have c3: "fst (contact_notify ?svc demo_submission demo_state)
     = \<lparr> r_status = 500, r_success = False,
          r_message = ''Your message was saved, but we could not send the confirmation email. Please try again or contact us directly.'',
          r_error = Some ''Failed to send confirmation email'',
          r_data = Some \<lparr> submissionId = ''contact-uuid-'', email = ''jane@x.com'' \<rparr> \<rparr>"
    using T [where s = demo_state and err = "JError ''Failed to send confirmation email: Request timed out'' []",
        THEN conjunct2, THEN conjunct1] c2
    by (simp add: demo_submission_def)
  obtain db where db: "DatabaseService_new (process_env demo_state) = Inr db"
    by (simp add: DatabaseService_new_def demo_state_def demo_env_def)
  have es: "EmailService_new timing_out (process_env demo_state) = Inr ?svc"
    by (simp add: demo_state_def demo_service_new)
  have served: "cosmos_faults demo_state 0 = None" by (simp add: demo_state_def)
  have empty: "ContactSubmissions demo_state = []" by (simp add: demo_state_def)
  have fresh: "\<not> list_ex (\<lambda>x. c_id x = ''contact-'' @ uuids demo_state 0
                  \<and> c_partitionKey x = trim (toLowerCase (req_email demo_request)))
                (ContactSubmissions demo_state)"
    unfolding empty by simp
  have rej: "\<forall>m g. \<exists>e. fst (client ?svc m g) = Inl e"
    by (simp add: demo_service_def timing_out_def)
  have once: "fst (timing_out ''endpoint=acs'' demo_message 0) = Inl timed_out"
    by (simp add: timing_out_def)
  have id: "''contact-'' @ uuids demo_state 0 = ''contact-uuid-''"
    by (simp add: demo_state_def)
  have em: "trim (toLowerCase (req_email demo_request)) = ''jane@x.com''"
    by (simp add: demo_request_def trim_def toLowerCase_def is_whitespace_def)
  have sub: "\<lparr> c_id = ''contact-'' @ uuids demo_state 0,
                 c_name = sanitizeString (req_name demo_request) 100,
                 c_email = trim (toLowerCase (req_email demo_request)),
                 c_message = sanitizeString (req_message demo_request) 2000,
                 c_status = New, c_submittedAt = clock demo_state 0,
                 c_partitionKey = trim (toLowerCase (req_email demo_request)) \<rparr> = demo_submission"
    unfolding id em
    by (simp add: demo_submission_def demo_request_def demo_state_def sanitizeString_def trim_def
          is_whitespace_def)
  note R = T [where ?s0.0 = demo_state and dbService = db and emailService = ?svc
      and requestData = demo_request,
      THEN conjunct2, THEN conjunct2, THEN conjunct2, THEN conjunct1, rule_format,
      OF conjI [OF db conjI [OF es conjI [OF served conjI [OF fresh rej]]]]]
  have c4: "fst (contactForm timing_out (Validated demo_request) demo_state)
     = \<lparr> r_status = 500, r_success = False,
          r_message = ''Your message was saved, but we could not send the confirmation email. Please try again or contact us directly.'',
          r_error = Some ''Failed to send confirmation email'',
          r_data = Some \<lparr> submissionId = ''contact-uuid-'', email = ''jane@x.com'' \<rparr> \<rparr>"
    using R [THEN conjunct1] unfolding id em .
  have c5: "ContactSubmissions (snd (contactForm timing_out (Validated demo_request) demo_state))
     = ContactSubmissions demo_state @ [demo_submission]"
    using R [THEN conjunct2] unfolding sub .
  have d2: "ContactSubmissions (snd (contactForm timing_out (JsonThrows timed_out) demo_state))
     = ContactSubmissions demo_state"
    by (simp add: run_defs)
  have c6: "r_data (fst (contactForm timing_out (JsonThrows timed_out) demo_state)) = None"
    using T [where body = "JsonThrows timed_out" and ?s0.0 = demo_state,
        THEN conjunct2, THEN conjunct2, THEN conjunct2, THEN conjunct2, THEN conjunct1] d2
    by simp
  show ?thesis using h1 c1 c2 c3 es served empty once c4 c5 c6 d2 by (intro conjI)
qed



section \<open>The waitlist handler\<close>

lemma waitlist_notify_eq:
  "waitlist_notify es sub s =
     (\<lparr> r_status = 500, r_success = False,
        r_message = ''You have been added to the waitlist, but we could not send the confirmation email. Please try again or contact us directly.'',
        r_error = Some ''Failed to send confirmation email'',
        r_data = Some \<lparr> submissionId = w_id sub, email = w_email sub, position = w_position sub \<rparr> \<rparr>,
      console Err ''Failed to send waitlist confirmation email after retries:''
        (console Info ''Waitlist submission saved to database:'' s))"
  by (simp add: waitlist_notify_def sendWaitlistConfirmationEmail_def)

lemma waitlist_notify_quiet: "quiet s (snd (waitlist_notify es sub s))"
  by (simp add: waitlist_notify_eq quiet_console_trans)

lemma getWaitlistSubmissionByEmail_Inr:
  assumes "getWaitlistSubmissionByEmail e s = (Inr r, s')"
  shows "r = (case filter (\<lambda>c. w_email c = e) (WaitlistSubmissions s) of
                [] \<Rightarrow> None | x # xs \<Rightarrow> Some x)"
    and "cosmos_faults s 0 = None"
proof -
  have c: "concat (pages_of (Suc 0) xs) = xs" for xs :: "WaitlistSubmission list"
    by (induction "Suc 0" xs rule: pages_of.induct) (subst pages_of.simps, auto)
  show "r = (case filter (\<lambda>c. w_email c = e) (WaitlistSubmissions s) of
                [] \<Rightarrow> None | x # xs \<Rightarrow> Some x)" and "cosmos_faults s 0 = None"
    using assms
    by (auto simp: getWaitlistSubmissionByEmail_def query_fetchAll_def cosmos_request_def
          fetchAll_def c
          split: prod.splits sum.splits option.splits if_splits list.splits)
qed

text \<open>
  Every run of \<^verbatim>\<open>waitlist\<close> writes nothing and answers without data, or finds a stored
  record with the e-mail address and answers with it, or writes one submission after a
  quiet start and goes on to the notifications.
\<close>

lemma waitlist_run:
  "(quiet s0 (snd (waitlist EmailClient body s0))
      \<and> r_data (fst (waitlist EmailClient body s0)) = None)
   \<or> (\<exists>ex. quiet s0 (snd (waitlist EmailClient body s0))
         \<and> ex \<in> set (WaitlistSubmissions s0)
         \<and> r_success (fst (waitlist EmailClient body s0))
         \<and> r_data (fst (waitlist EmailClient body s0))
             = Some \<lparr> submissionId = w_id ex, email = w_email ex, position = w_position ex \<rparr>)
   \<or> (\<exists>es sub s1 s2. quiet s0 s1
         \<and> WaitlistSubmissions s2 = WaitlistSubmissions s1 @ [sub]
         \<and> ContactSubmissions s2 = ContactSubmissions s1
         \<and> gateway s2 = gateway s1
         \<and> trace s2 = trace s1 @ [Created ''WaitlistSubmissions'' (w_id sub)]
         \<and> waitlist EmailClient body s0 = waitlist_notify es sub s2)"
proof -
  define s where "s = console Info ''Waitlist submission received'' s0"
  define sf where "sf = console Info ''Waitlist signup from:'' s"
  have qs: "quiet s0 s" by (simp add: s_def)
  have qf: "quiet s0 sf" unfolding sf_def using qs by (rule quiet_console_trans)
  show ?thesis
  proof (cases body)
    case (JsonThrows err)
    then show ?thesis using qs
      by (simp add: waitlist_def Let_def s_def [symmetric] quiet_console_trans)
  next
    case (ValidationFails msg)
    then show ?thesis using qf
      by (simp add: waitlist_def Let_def s_def [symmetric] sf_def [symmetric] quiet_console_trans)
  next
    case (Validated req)
    show ?thesis
    proof (cases "DatabaseService_new (process_env s)")
      case (Inl err)
      then show ?thesis using qf Validated
        by (simp add: waitlist_def Let_def s_def [symmetric] sf_def [symmetric] quiet_console_trans)
    next
      case db: (Inr dbService)
      show ?thesis
      proof (cases "EmailService_new EmailClient (process_env s)")
        case (Inl err)
        then show ?thesis using qf Validated db
          by (simp add: waitlist_def Let_def s_def [symmetric] sf_def [symmetric] quiet_console_trans)
      next
        case es: (Inr emailService)
        define e where "e = trim (toLowerCase (wreq_email req))"
        obtain r s1 where g: "getWaitlistSubmissionByEmail e sf = (r, s1)"
          by (cases "getWaitlistSubmissionByEmail e sf")
        have "quiet sf s1" using getWaitlistSubmissionByEmail_quiet [of sf e] unfolding g by simp
        then have q1: "quiet s0 s1" using qf quiet_trans by blast
        show ?thesis
        proof (cases r)
          case (Inl err)
          then show ?thesis using Validated db es g q1
            by (simp add: waitlist_def Let_def s_def [symmetric] sf_def [symmetric]
                  e_def [symmetric] quiet_console_trans)
        next
          case (Inr found)
          show ?thesis
          proof (cases found)
            case (Some ex)
            have "Some ex = (case filter (\<lambda>c. w_email c = e) (WaitlistSubmissions sf) of
                [] \<Rightarrow> None | x # xs \<Rightarrow> Some x)"
              using getWaitlistSubmissionByEmail_Inr(1) [OF g [unfolded Inr Some]] .
            then have "ex \<in> set (filter (\<lambda>c. w_email c = e) (WaitlistSubmissions sf))"
              by (cases "filter (\<lambda>c. w_email c = e) (WaitlistSubmissions sf)") auto
            then have "ex \<in> set (WaitlistSubmissions s0)"
              using qf by (simp add: quiet_def)
            moreover have "waitlist EmailClient body s0 =
                  (\<lparr> r_status = 200, r_success = True,
                     r_message = ''You are already on our waitlist! We will notify you when we launch.'',
                     r_error = None,
                     r_data = Some \<lparr> submissionId = w_id ex, email = w_email ex,
                                     position = w_position ex \<rparr> \<rparr>,
                   console Info ''Email already exists in waitlist:'' s1)"
              using Validated db es g Inr Some
              by (simp add: waitlist_def Let_def s_def [symmetric] sf_def [symmetric]
                  e_def [symmetric])
            ultimately have "quiet s0 (snd (waitlist EmailClient body s0))
               \<and> ex \<in> set (WaitlistSubmissions s0)
               \<and> r_success (fst (waitlist EmailClient body s0))
               \<and> r_data (fst (waitlist EmailClient body s0))
                   = Some \<lparr> submissionId = w_id ex, email = w_email ex, position = w_position ex \<rparr>"
              using q1 by (simp add: quiet_console_trans)
            then show ?thesis by blast
          next
            case None
            obtain submittedAt s2 where d: "Date_toISOString s1 = (submittedAt, s2)"
              by (cases "Date_toISOString s1")
            have "quiet s1 s2" using quiet_Date_toISOString [of s1] unfolding d by simp
            then have q2: "quiet s0 s2" using q1 quiet_trans by blast
            define dat where "dat = \<lparr> wd_email = e,
                       wd_name = (case wreq_name req of
                                    None \<Rightarrow> None
                                  | Some n \<Rightarrow> if n = [] then None else Some (sanitizeString n 100)),
                       wd_status = Active,
                       wd_submittedAt = submittedAt \<rparr>"
            obtain r' s3 where c: "createWaitlistSubmission dat s2 = (r', s3)"
              by (cases "createWaitlistSubmission dat s2")
            show ?thesis
            proof (cases r')
              case (Inl err)
              then have "quiet s2 s3" using c by (auto dest: createWaitlistSubmission_Inl)
              then have "quiet s0 s3" using q2 quiet_trans by blast
              then show ?thesis using Validated db es g Inr None d c Inl
                by (simp add: waitlist_def Let_def s_def [symmetric] sf_def [symmetric]
                      e_def [symmetric] dat_def [symmetric] quiet_console_trans)
            next
              case sub: (Inr sub)
              note cr = createWaitlistSubmission_Inr [OF c [unfolded sub]]
              have "waitlist EmailClient body s0 = waitlist_notify emailService sub s3"
                using Validated db es g Inr None d c sub
                by (simp add: waitlist_def Let_def s_def [symmetric] sf_def [symmetric]
                      e_def [symmetric] dat_def [symmetric])
              then show ?thesis using q2 cr(2,3,4,5) by blast
            qed
          qed
        qed
      qed
    qed
  qed
qed


section \<open>Persistence comes first and stays\<close>




text \<open>What a run of \<^verbatim>\<open>waitlist\<close> does to the containers and says about it.\<close>

lemma waitlist_store:
  "(WaitlistSubmissions (snd (waitlist EmailClient body s0)) = WaitlistSubmissions s0
      \<and> (r_data (fst (waitlist EmailClient body s0)) = None
          \<or> r_success (fst (waitlist EmailClient body s0))))
   \<or> (\<exists>sub. WaitlistSubmissions (snd (waitlist EmailClient body s0)) = WaitlistSubmissions s0 @ [sub]
         \<and> fst (waitlist EmailClient body s0) =
             \<lparr> r_status = 500, r_success = False,
                r_message = ''You have been added to the waitlist, but we could not send the confirmation email. Please try again or contact us directly.'',
                r_error = Some ''Failed to send confirmation email'',
                r_data = Some \<lparr> submissionId = w_id sub, email = w_email sub,
                                position = w_position sub \<rparr> \<rparr>)"
  using waitlist_run [of s0 EmailClient body]
proof (elim disjE exE conjE)
  assume "quiet s0 (snd (waitlist EmailClient body s0))"
    "r_data (fst (waitlist EmailClient body s0)) = None"
  then show ?thesis by (simp add: quiet_def)
next
  fix ex
  assume "quiet s0 (snd (waitlist EmailClient body s0))"
    "r_success (fst (waitlist EmailClient body s0))"
  then show ?thesis by (simp add: quiet_def)
next
  fix es sub s1 s2
  assume q: "quiet s0 s1" and c: "WaitlistSubmissions s2 = WaitlistSubmissions s1 @ [sub]"
    and r: "waitlist EmailClient body s0 = waitlist_notify es sub s2"
  have "quiet s2 (snd (waitlist_notify es sub s2))" by (rule waitlist_notify_quiet)
  then have "WaitlistSubmissions (snd (waitlist_notify es sub s2)) = WaitlistSubmissions s0 @ [sub]"
    using q c by (simp add: quiet_def)
  then show ?thesis unfolding r by (simp add: waitlist_notify_eq)
qed





section \<open>The waitlist: position, stub and duplicate check\<close>

text \<open>
  C7. Whenever \<^verbatim>\<open>createWaitlistSubmission\<close> returns a record, its position is the number
  of stored records with status \<^verbatim>\<open>active\<close> before the write plus one (6 when there were
  5), its id is \<^verbatim>\<open>waitlist-\<close> followed by the generated UUID and was not stored in its
  partition before, its other fields are the caller's, and it is the one item appended
  to the container. It does return one when the count query and the write are served
  and the generated id is new.
\<close>

theorem C7_waitlist_position:
  "(createWaitlistSubmission d s = (Inr sub, s')
      \<longrightarrow> w_position sub = length (filter (\<lambda>c. w_status c = Active) (WaitlistSubmissions s)) + 1
        \<and> (length (filter (\<lambda>c. w_status c = Active) (WaitlistSubmissions s)) = 5
             \<longrightarrow> w_position sub = 6)
        \<and> w_id sub = ''waitlist-'' @ uuids s 0
        \<and> \<not> list_ex (\<lambda>x. w_id x = w_id sub \<and> w_partitionKey x = w_partitionKey sub)
               (WaitlistSubmissions s)
        \<and> w_email sub = wd_email d \<and> w_name sub = wd_name d \<and> w_status sub = wd_status d
        \<and> w_submittedAt sub = wd_submittedAt d \<and> w_partitionKey sub = wd_email d
        \<and> WaitlistSubmissions s' = WaitlistSubmissions s @ [sub])
   \<and> (cosmos_faults s 0 = None \<and> cosmos_faults s 1 = None
        \<and> \<not> list_ex (\<lambda>x. w_id x = ''waitlist-'' @ uuids s 0 \<and> w_partitionKey x = wd_email d)
               (WaitlistSubmissions s)
      \<longrightarrow> (\<exists>sub s'. createWaitlistSubmission d s = (Inr sub, s')))"
proof (intro conjI impI)
  assume a: "createWaitlistSubmission d s = (Inr sub, s')"
  note cr = createWaitlistSubmission_Inr [OF a]
  show "w_position sub = length (filter (\<lambda>c. w_status c = Active) (WaitlistSubmissions s)) + 1"
    by (subst cr(1)) simp
  then show "w_position sub = 6"
    if "length (filter (\<lambda>c. w_status c = Active) (WaitlistSubmissions s)) = 5"
    using that by simp
  show "w_id sub = ''waitlist-'' @ uuids s 0" by (subst cr(1)) simp
  show "\<not> list_ex (\<lambda>x. w_id x = w_id sub \<and> w_partitionKey x = w_partitionKey sub)
               (WaitlistSubmissions s)" by (rule cr(8))
  show "w_email sub = wd_email d" by (subst cr(1)) simp
  show "w_name sub = wd_name d" by (subst cr(1)) simp
  show "w_status sub = wd_status d" by (subst cr(1)) simp
  show "w_submittedAt sub = wd_submittedAt d" by (subst cr(1)) simp
  show "w_partitionKey sub = wd_email d" by (subst cr(1)) simp
  show "WaitlistSubmissions s' = WaitlistSubmissions s @ [sub]" by (rule cr(2))
next
  assume "cosmos_faults s 0 = None \<and> cosmos_faults s 1 = None
        \<and> \<not> list_ex (\<lambda>x. w_id x = ''waitlist-'' @ uuids s 0 \<and> w_partitionKey x = wd_email d)
               (WaitlistSubmissions s)"
  then show "\<exists>sub s'. createWaitlistSubmission d s = (Inr sub, s')"
    by (intro createWaitlistSubmission_succeeds) simp_all
qed

theorem C7_waitlist_position_witness:
  "cosmos_faults (demo_state\<lparr>WaitlistSubmissions := demo_notified # five_active\<rparr>) 0 = None \<and>
   cosmos_faults (demo_state\<lparr>WaitlistSubmissions := demo_notified # five_active\<rparr>) 1 = None \<and>
   \<not> list_ex (\<lambda>x. w_id x = ''waitlist-'' @ uuids (demo_state\<lparr>WaitlistSubmissions := demo_notified # five_active\<rparr>) 0
                  \<and> w_partitionKey x = wd_email demo_data)
         (WaitlistSubmissions (demo_state\<lparr>WaitlistSubmissions := demo_notified # five_active\<rparr>)) \<and>
   length (filter (\<lambda>c. w_status c = Active)
      (WaitlistSubmissions (demo_state\<lparr>WaitlistSubmissions := demo_notified # five_active\<rparr>))) = 5 \<and>
   (\<exists>sub s'. createWaitlistSubmission demo_data
                (demo_state\<lparr>WaitlistSubmissions := demo_notified # five_active\<rparr>) = (Inr sub, s')
      \<and> w_position sub = 6 \<and> w_id sub = ''waitlist-uuid-''
      \<and> WaitlistSubmissions s' = demo_notified # five_active @ [sub])"
proof -
  let ?s = "demo_state\<lparr>WaitlistSubmissions := demo_notified # five_active\<rparr>"
  note T = C7_waitlist_position [where s = ?s and d = demo_data]
  have h1: "cosmos_faults ?s 0 = None" and h2: "cosmos_faults ?s 1 = None"
    by (simp_all add: demo_state_def)
  have h3: "\<not> list_ex (\<lambda>x. w_id x = ''waitlist-'' @ uuids ?s 0 \<and> w_partitionKey x = wd_email demo_data)
         (WaitlistSubmissions ?s)"
    by (simp add: demo_state_def demo_notified_def five_active_def demo_data_def)
  have h4: "length (filter (\<lambda>c. w_status c = Active) (WaitlistSubmissions ?s)) = 5"
    by (simp add: demo_state_def demo_notified_def five_active_def)
  from T [THEN conjunct2, rule_format, OF conjI, OF h1 conjI, OF h2 h3]
  obtain sub s' where r: "createWaitlistSubmission demo_data ?s = (Inr sub, s')" by blast
  note R = T [where sub = sub and s' = s', THEN conjunct1, rule_format, OF r]
  have p: "w_position sub = 6" using R h4 by blast
  have i: "w_id sub = ''waitlist-uuid-''" using R by (simp add: demo_state_def)
  have w: "WaitlistSubmissions s' = demo_notified # five_active @ [sub]" using R by simp
  show ?thesis using h1 h2 h3 h4 r p i w by blast
qed

lemma waitlist_gateway:
  "gateway (snd (waitlist EmailClient body s0)) = gateway s0
   \<and> invocations (events_since s0 (snd (waitlist EmailClient body s0))) = 0"
proof -
  have q: "quiet s0 s' \<Longrightarrow> gateway s' = gateway s0 \<and> invocations (events_since s0 s') = 0" for s'
    by (auto simp: quiet_def invocations_def list_all_iff filter_empty_conv)
  show ?thesis
    using waitlist_run [of s0 EmailClient body]
  proof (elim disjE exE conjE)
    fix es sub s1 s2
    assume q1: "quiet s0 s1" and g: "gateway s2 = gateway s1"
      and c: "trace s2 = trace s1 @ [Created ''WaitlistSubmissions'' (w_id sub)]"
      and r: "waitlist EmailClient body s0 = waitlist_notify es sub s2"
    have t1: "trace s1 = trace s0 @ events_since s0 s1" using q1 by (rule quiet_appendD)
    have "trace (snd (waitlist_notify es sub s2)) = trace s0 @ (events_since s0 s1 @
        [Created ''WaitlistSubmissions'' (w_id sub),
         Console Info ''Waitlist submission saved to database:'',
         Console Err ''Failed to send waitlist confirmation email after retries:''])"
      using t1 c by (simp add: waitlist_notify_eq console_def emit_def)
    then have "events_since s0 (snd (waitlist_notify es sub s2)) = events_since s0 s1 @
        [Created ''WaitlistSubmissions'' (w_id sub),
         Console Info ''Waitlist submission saved to database:'',
         Console Err ''Failed to send waitlist confirmation email after retries:'']"
      by (rule events_since_append)
    moreover have "invocations (events_since s0 s1) = 0" using q [OF q1] by simp
    moreover have "gateway (snd (waitlist_notify es sub s2)) = gateway s0"
      using q1 g by (simp add: waitlist_notify_eq console_def emit_def quiet_def)
    ultimately show ?thesis unfolding r by (simp add: invocations_def)
  next
    assume "quiet s0 (snd (waitlist EmailClient body s0))"
    then show ?thesis by (rule q)
  next
    assume "quiet s0 (snd (waitlist EmailClient body s0))"
    then show ?thesis by (rule q)
  qed
qed

text \<open>
  C8. The class method \<^verbatim>\<open>sendWaitlistConfirmationEmail\<close> throws
  \<^verbatim>\<open>Error('Method not implemented.')\<close> for every submission and leaves the state as it was:
  no retry, no gateway call. So from the persisted submission on, the handler answers
  with status 500 and \<^verbatim>\<open>success: false\<close>, reporting the record. Over whole runs: the
  gateway is never reached; whenever a record was added to the container the response
  is that failure response; and a successful response is given only when nothing was
  added.
\<close>

theorem C8_waitlist_confirmation_stub:
  "sendWaitlistConfirmationEmail this submission s = (Inl (JError ''Method not implemented.'' []), s)
   \<and> waitlist_notify this submission s =
       (\<lparr> r_status = 500, r_success = False,
          r_message = ''You have been added to the waitlist, but we could not send the confirmation email. Please try again or contact us directly.'',
          r_error = Some ''Failed to send confirmation email'',
          r_data = Some \<lparr> submissionId = w_id submission, email = w_email submission,
                          position = w_position submission \<rparr> \<rparr>,
        console Err ''Failed to send waitlist confirmation email after retries:''
          (console Info ''Waitlist submission saved to database:'' s))
   \<and> gateway (snd (waitlist EmailClient body s0)) = gateway s0
   \<and> invocations (events_since s0 (snd (waitlist EmailClient body s0))) = 0
   \<and> (WaitlistSubmissions (snd (waitlist EmailClient body s0)) \<noteq> WaitlistSubmissions s0
       \<longrightarrow> (\<exists>sub. WaitlistSubmissions (snd (waitlist EmailClient body s0)) = WaitlistSubmissions s0 @ [sub]
             \<and> fst (waitlist EmailClient body s0) =
                 \<lparr> r_status = 500, r_success = False,
                    r_message = ''You have been added to the waitlist, but we could not send the confirmation email. Please try again or contact us directly.'',
                    r_error = Some ''Failed to send confirmation email'',
                    r_data = Some \<lparr> submissionId = w_id sub, email = w_email sub,
                                    position = w_position sub \<rparr> \<rparr>))
   \<and> (r_success (fst (waitlist EmailClient body s0))
       \<longrightarrow> WaitlistSubmissions (snd (waitlist EmailClient body s0)) = WaitlistSubmissions s0)"
proof (intro conjI impI)
  show "sendWaitlistConfirmationEmail this submission s = (Inl (JError ''Method not implemented.'' []), s)"
    by (simp add: sendWaitlistConfirmationEmail_def)
  show "waitlist_notify this submission s =
       (\<lparr> r_status = 500, r_success = False,
          r_message = ''You have been added to the waitlist, but we could not send the confirmation email. Please try again or contact us directly.'',
          r_error = Some ''Failed to send confirmation email'',
          r_data = Some \<lparr> submissionId = w_id submission, email = w_email submission,
                          position = w_position submission \<rparr> \<rparr>,
        console Err ''Failed to send waitlist confirmation email after retries:''
          (console Info ''Waitlist submission saved to database:'' s))"
    by (rule waitlist_notify_eq)
  show "gateway (snd (waitlist EmailClient body s0)) = gateway s0"
    using waitlist_gateway [of EmailClient body s0] by (rule conjunct1)
  show "invocations (events_since s0 (snd (waitlist EmailClient body s0))) = 0"
    using waitlist_gateway [of EmailClient body s0] by (rule conjunct2)
next
  assume "WaitlistSubmissions (snd (waitlist EmailClient body s0)) \<noteq> WaitlistSubmissions s0"
  then show "\<exists>sub :: WaitlistSubmission. WaitlistSubmissions (snd (waitlist EmailClient body s0)) = WaitlistSubmissions s0 @ [sub]
             \<and> fst (waitlist EmailClient body s0) =
                 \<lparr> r_status = 500, r_success = False,
                    r_message = ''You have been added to the waitlist, but we could not send the confirmation email. Please try again or contact us directly.'',
                    r_error = Some ''Failed to send confirmation email'',
                    r_data = Some \<lparr> submissionId = w_id sub, email = w_email sub,
                                    position = w_position sub \<rparr> \<rparr>"
    using waitlist_store [of EmailClient body s0] by blast
next
  assume a: "r_success (fst (waitlist EmailClient body s0))"
  show "WaitlistSubmissions (snd (waitlist EmailClient body s0)) = WaitlistSubmissions s0"
    using waitlist_store [of EmailClient body s0]
  proof (elim disjE exE conjE)
    fix sub :: WaitlistSubmission
    assume "fst (waitlist EmailClient body s0) =
             \<lparr> r_status = 500, r_success = False,
                r_message = ''You have been added to the waitlist, but we could not send the confirmation email. Please try again or contact us directly.'',
                r_error = Some ''Failed to send confirmation email'',
                r_data = Some \<lparr> submissionId = w_id sub, email = w_email sub,
                                position = w_position sub \<rparr> \<rparr>"
    then have "\<not> r_success (fst (waitlist EmailClient body s0))" by simp
    then show ?thesis using a by simp
  qed
qed

theorem C8_waitlist_confirmation_stub_witness:
  "WaitlistSubmissions (snd (waitlist accepting (Validated demo_signup) demo_state))
     \<noteq> WaitlistSubmissions demo_state \<and>
   WaitlistSubmissions (snd (waitlist accepting (Validated demo_signup) demo_state))
     = [demo_waitlisted] \<and>
   r_status (fst (waitlist accepting (Validated demo_signup) demo_state)) = 500 \<and>
   \<not> r_success (fst (waitlist accepting (Validated demo_signup) demo_state)) \<and>
   r_data (fst (waitlist accepting (Validated demo_signup) demo_state))
     = Some \<lparr> submissionId = ''waitlist-uuid-'', email = ''jane@x.com'', position = 1 \<rparr> \<and>
   gateway (snd (waitlist accepting (Validated demo_signup) demo_state)) = 0 \<and>
   r_success (fst (waitlist accepting (Validated demo_signup)
                     (demo_state\<lparr>WaitlistSubmissions := [demo_notified]\<rparr>))) \<and>
   WaitlistSubmissions (snd (waitlist accepting (Validated demo_signup)
                     (demo_state\<lparr>WaitlistSubmissions := [demo_notified]\<rparr>))) = [demo_notified]"
proof -
  let ?r = "waitlist accepting (Validated demo_signup) demo_state"
  let ?s2 = "demo_state\<lparr>WaitlistSubmissions := [demo_notified]\<rparr>"
  note T = C8_waitlist_confirmation_stub [where EmailClient = accepting
      and body = "Validated demo_signup"]
  have st: "WaitlistSubmissions (snd ?r) = [demo_waitlisted]"
    by (simp add: run_defs)
  have ne: "WaitlistSubmissions (snd ?r) \<noteq> WaitlistSubmissions demo_state"
    unfolding st by (simp add: demo_state_def)
  note I5 = T [where ?s0.0 = demo_state, THEN conjunct2, THEN conjunct2, THEN conjunct2,
      THEN conjunct2, THEN conjunct1, rule_format, OF ne]
  obtain sub where sub: "WaitlistSubmissions (snd ?r) = WaitlistSubmissions demo_state @ [sub]"
      "fst ?r = \<lparr> r_status = 500, r_success = False,
                    r_message = ''You have been added to the waitlist, but we could not send the confirmation email. Please try again or contact us directly.'',
                    r_error = Some ''Failed to send confirmation email'',
                    r_data = Some \<lparr> submissionId = w_id sub, email = w_email sub,
                                    position = w_position sub \<rparr> \<rparr>"
    using I5 by (elim exE conjE)
  have "sub = demo_waitlisted" using sub(1) st by (simp add: demo_state_def)
  then have d: "r_data (fst ?r)
     = Some \<lparr> submissionId = ''waitlist-uuid-'', email = ''jane@x.com'', position = 1 \<rparr>"
    and c: "r_status (fst ?r) = 500" and f: "\<not> r_success (fst ?r)"
    using sub(2) by (simp_all add: demo_waitlisted_def)
  have g: "gateway (snd ?r) = 0"
    using T [where ?s0.0 = demo_state, THEN conjunct2, THEN conjunct2, THEN conjunct1]
    by (simp add: demo_state_def)
  have ok: "r_success (fst (waitlist accepting (Validated demo_signup) ?s2))"
    by (simp add: run_defs)
  have same: "WaitlistSubmissions (snd (waitlist accepting (Validated demo_signup) ?s2)) = [demo_notified]"
    using T [where ?s0.0 = ?s2, THEN conjunct2, THEN conjunct2, THEN conjunct2,
      THEN conjunct2, THEN conjunct2, rule_format, OF ok]
    by simp
  show ?thesis using ne st c f d g ok same by (intro conjI)
qed

lemma concat_pages_of: "concat (pages_of n xs) = xs"
proof (induction n xs rule: pages_of.induct)
  case (1 maxItemCount xs)
  show ?case
  proof (cases "maxItemCount = 0 \<or> length xs \<le> maxItemCount")
    case True
    then show ?thesis by (subst pages_of.simps) simp
  next
    case False
    then have "concat (pages_of maxItemCount (drop maxItemCount xs)) = drop maxItemCount xs"
      using "1.IH" by simp
    then show ?thesis using False by (subst pages_of.simps) simp
  qed
qed

lemma pages_of_bounded:
  "0 < n \<Longrightarrow> list_all (\<lambda>p. length p \<le> n) (pages_of n xs)"
proof (induction n xs rule: pages_of.induct)
  case (1 maxItemCount xs)
  show ?case
  proof (cases "length xs \<le> maxItemCount")
    case True
    then show ?thesis by (subst pages_of.simps) simp
  next
    case False
    then have "list_all (\<lambda>p. length p \<le> maxItemCount) (pages_of maxItemCount (drop maxItemCount xs))"
      using "1.IH" "1.prems" by simp
    then show ?thesis using False "1.prems" by (subst pages_of.simps) simp
  qed
qed

lemma query_fetchAll_served:
  assumes "cosmos_faults s 0 = None"
  shows "query_fetchAll matching n s =
         (Inr (matching (s\<lparr>cosmos_faults := (\<lambda>n. cosmos_faults s (Suc n))\<rparr>)),
          s\<lparr>cosmos_faults := (\<lambda>n. cosmos_faults s (Suc n))\<rparr>)"
  using assms by (simp add: query_fetchAll_def cosmos_request_def fetchAll_def concat_pages_of)

lemma getWaitlistSubmissionByEmail_served:
  assumes "cosmos_faults s 0 = None"
  shows "getWaitlistSubmissionByEmail e s =
         (Inr (case filter (\<lambda>c. w_email c = e) (WaitlistSubmissions s) of
                 [] \<Rightarrow> None | x # xs \<Rightarrow> Some x),
          s\<lparr>cosmos_faults := (\<lambda>n. cosmos_faults s (Suc n))\<rparr>)"
  by (cases "filter (\<lambda>c. w_email c = e) (WaitlistSubmissions s)")
     (simp_all add: getWaitlistSubmissionByEmail_def query_fetchAll_served [OF assms])

text \<open>
  C9. The lookup by e-mail address returns the first stored record with that address,
  whatever its status. So when the services can be built, the lookup is served and
  exactly one stored record has the (lower-cased, trimmed) address of the request, the
  handler answers that the address is already on the waitlist, with the id, e-mail and
  position of that record, and writes nothing: the container is as before, and if the
  record is not active there is still no active record with this address.
\<close>

theorem C9_duplicate_check_any_status:
  assumes db: "DatabaseService_new (process_env s0) = Inr dbService"
    and es: "EmailService_new EmailClient (process_env s0) = Inr emailService"
    and served: "cosmos_faults s0 0 = None"
    and only: "filter (\<lambda>c. w_email c = trim (toLowerCase (wreq_email req))) (WaitlistSubmissions s0) = [r]"
  shows "fst (getWaitlistSubmissionByEmail (trim (toLowerCase (wreq_email req))) s0) = Inr (Some r)
    \<and> fst (waitlist EmailClient (Validated req) s0) =
        \<lparr> r_status = 200, r_success = True,
           r_message = ''You are already on our waitlist! We will notify you when we launch.'',
           r_error = None,
           r_data = Some \<lparr> submissionId = w_id r, email = w_email r, position = w_position r \<rparr> \<rparr>
    \<and> WaitlistSubmissions (snd (waitlist EmailClient (Validated req) s0)) = WaitlistSubmissions s0
    \<and> list_all (\<lambda>e. \<not> is_Created e) (events_since s0 (snd (waitlist EmailClient (Validated req) s0)))
    \<and> (w_status r = Notified \<or> w_status r = Converted
         \<longrightarrow> \<not> list_ex (\<lambda>c. w_email c = trim (toLowerCase (wreq_email req)) \<and> w_status c = Active)
                 (WaitlistSubmissions (snd (waitlist EmailClient (Validated req) s0))))"
proof -
  define e where "e = trim (toLowerCase (wreq_email req))"
  define sf where "sf = console Info ''Waitlist signup from:''
      (console Info ''Waitlist submission received'' s0)"
  have env: "process_env (console Info ''Waitlist submission received'' s0) = process_env s0"
    by (simp add: console_def emit_def)
  have sf: "cosmos_faults sf 0 = None" "WaitlistSubmissions sf = WaitlistSubmissions s0"
    using served by (simp_all add: sf_def console_def emit_def)
  have lookup0: "fst (getWaitlistSubmissionByEmail e s0) = Inr (Some r)"
    using only by (simp add: getWaitlistSubmissionByEmail_served [OF served] e_def)
  have lookup: "getWaitlistSubmissionByEmail e sf
      = (Inr (Some r), sf\<lparr>cosmos_faults := (\<lambda>n. cosmos_faults sf (Suc n))\<rparr>)"
    using only by (simp add: getWaitlistSubmissionByEmail_served [OF sf(1)] sf(2) e_def)
  have run: "waitlist EmailClient (Validated req) s0 =
      (\<lparr> r_status = 200, r_success = True,
           r_message = ''You are already on our waitlist! We will notify you when we launch.'',
           r_error = None,
           r_data = Some \<lparr> submissionId = w_id r, email = w_email r, position = w_position r \<rparr> \<rparr>,
       console Info ''Email already exists in waitlist:''
         (sf\<lparr>cosmos_faults := (\<lambda>n. cosmos_faults sf (Suc n))\<rparr>))"
    using db es lookup
    by (simp add: waitlist_def Let_def env e_def [symmetric] sf_def [symmetric])
  have store: "WaitlistSubmissions (snd (waitlist EmailClient (Validated req) s0)) = WaitlistSubmissions s0"
    unfolding run by (simp add: sf(2) console_def emit_def)
  have "trace (snd (waitlist EmailClient (Validated req) s0)) = trace s0 @
      [Console Info ''Waitlist submission received'', Console Info ''Waitlist signup from:'',
       Console Info ''Email already exists in waitlist:'']"
    unfolding run by (simp add: sf_def console_def emit_def)
  then have "events_since s0 (snd (waitlist EmailClient (Validated req) s0)) =
      [Console Info ''Waitlist submission received'', Console Info ''Waitlist signup from:'',
       Console Info ''Email already exists in waitlist:'']"
    by (rule events_since_append)
  then have nowrite: "list_all (\<lambda>e. \<not> is_Created e)
      (events_since s0 (snd (waitlist EmailClient (Validated req) s0)))"
    by simp
  have noactive: "\<not> list_ex (\<lambda>c. w_email c = e \<and> w_status c = Active)
                 (WaitlistSubmissions (snd (waitlist EmailClient (Validated req) s0)))"
    if "w_status r = Notified \<or> w_status r = Converted"
  proof
    assume "list_ex (\<lambda>c. w_email c = e \<and> w_status c = Active)
                 (WaitlistSubmissions (snd (waitlist EmailClient (Validated req) s0)))"
    then obtain c where c: "c \<in> set (WaitlistSubmissions s0)" "w_email c = e" "w_status c = Active"
      unfolding store list_ex_iff by blast
    then have "c \<in> set (filter (\<lambda>c. w_email c = e) (WaitlistSubmissions s0))" by simp
    then have "c = r" using only by (simp add: e_def)
    then show False using c(3) that by auto
  qed
  show ?thesis
    using lookup0 run store nowrite noactive unfolding e_def by simp
qed

theorem C9_duplicate_check_any_status_witness:
  "DatabaseService_new (process_env (demo_state\<lparr>WaitlistSubmissions := [demo_notified]\<rparr>))
     = Inr \<lparr> databaseName = ''AgentOjaDB'' \<rparr> \<and>
   EmailService_new accepting (process_env (demo_state\<lparr>WaitlistSubmissions := [demo_notified]\<rparr>))
     = Inr (demo_service accepting) \<and>
   cosmos_faults (demo_state\<lparr>WaitlistSubmissions := [demo_notified]\<rparr>) 0 = None \<and>
   filter (\<lambda>c. w_email c = trim (toLowerCase (wreq_email demo_signup)))
     (WaitlistSubmissions (demo_state\<lparr>WaitlistSubmissions := [demo_notified]\<rparr>)) = [demo_notified] \<and>
   w_status demo_notified = Notified \<and>
   fst (waitlist accepting (Validated demo_signup) (demo_state\<lparr>WaitlistSubmissions := [demo_notified]\<rparr>)) =
        \<lparr> r_status = 200, r_success = True,
           r_message = ''You are already on our waitlist! We will notify you when we launch.'',
           r_error = None,
           r_data = Some \<lparr> submissionId = ''waitlist-0001'', email = ''jane@x.com'', position = 3 \<rparr> \<rparr> \<and>
   WaitlistSubmissions (snd (waitlist accepting (Validated demo_signup)
        (demo_state\<lparr>WaitlistSubmissions := [demo_notified]\<rparr>))) = [demo_notified] \<and>
   \<not> list_ex (\<lambda>c. w_email c = trim (toLowerCase (wreq_email demo_signup)) \<and> w_status c = Active)
       (WaitlistSubmissions (snd (waitlist accepting (Validated demo_signup)
          (demo_state\<lparr>WaitlistSubmissions := [demo_notified]\<rparr>))))"
proof -
  let ?s = "demo_state\<lparr>WaitlistSubmissions := [demo_notified]\<rparr>"
  have h1: "DatabaseService_new (process_env ?s) = Inr \<lparr> databaseName = ''AgentOjaDB'' \<rparr>"
    by (simp add: DatabaseService_new_def demo_state_def demo_env_def)
  have h2: "EmailService_new accepting (process_env ?s) = Inr (demo_service accepting)"
    by (simp add: demo_state_def demo_service_new)
  have h3: "cosmos_faults ?s 0 = None" by (simp add: demo_state_def)
  have h4: "filter (\<lambda>c. w_email c = trim (toLowerCase (wreq_email demo_signup)))
     (WaitlistSubmissions ?s) = [demo_notified]"
    by (simp add: demo_notified_def demo_signup_def trim_def toLowerCase_def is_whitespace_def)
  have h5: "w_status demo_notified = Notified" by (simp add: demo_notified_def)
  note T = C9_duplicate_check_any_status [OF h1 h2 h3 h4]
  have c1: "fst (waitlist accepting (Validated demo_signup) ?s) =
        \<lparr> r_status = 200, r_success = True,
           r_message = ''You are already on our waitlist! We will notify you when we launch.'',
           r_error = None,
           r_data = Some \<lparr> submissionId = ''waitlist-0001'', email = ''jane@x.com'', position = 3 \<rparr> \<rparr>"
    using T [THEN conjunct2, THEN conjunct1] by (simp add: demo_notified_def)
  have c2: "WaitlistSubmissions (snd (waitlist accepting (Validated demo_signup) ?s)) = [demo_notified]"
    using T [THEN conjunct2, THEN conjunct2, THEN conjunct1] by simp
  have c3: "\<not> list_ex (\<lambda>c. w_email c = trim (toLowerCase (wreq_email demo_signup)) \<and> w_status c = Active)
       (WaitlistSubmissions (snd (waitlist accepting (Validated demo_signup) ?s)))"
    using T [THEN conjunct2, THEN conjunct2, THEN conjunct2, THEN conjunct2] h5 by blast
  show ?thesis using h1 h2 h3 h4 h5 c1 c2 c3 by (intro conjI)
qed

section \<open>Listing submissions\<close>

lemma sorted_wrt_rev_sort_key:
  fixes f :: "'a \<Rightarrow> 'k :: linorder"
  shows "sorted_wrt (\<lambda>a b. f b \<le> f a) (rev (sort_key f xs))"
proof -
  have "sorted (map f (sort_key f xs))" by simp
  then have "sorted_wrt (\<lambda>a b. f a \<le> f b) (sort_key f xs)"
    by (simp add: sorted_wrt_map)
  then show ?thesis by (simp add: sorted_wrt_rev)
qed

text \<open>
  When the query is served, both listings return every matching record, in the order
  the query asks for; the \<open>limit\<close> argument has no influence on the result.
\<close>

lemma getAllContactSubmissions_served:
  assumes "cosmos_faults s 0 = None"
  shows "fst (getAllContactSubmissions status limit_arg s) =
         Inr (rev (sort_key c_submittedAt
                (filter (\<lambda>c. case status of None \<Rightarrow> True | Some st \<Rightarrow> c_status c = st)
                   (ContactSubmissions s))))"
  by (cases status)
     (simp_all add: getAllContactSubmissions_def Let_def query_fetchAll_served [OF assms])

lemma getAllWaitlistSubmissions_served:
  assumes "cosmos_faults s 0 = None"
  shows "fst (getAllWaitlistSubmissions status limit_arg s) =
         Inr (sort_key w_position
                (filter (\<lambda>c. case status of None \<Rightarrow> True | Some st \<Rightarrow> w_status c = st)
                   (WaitlistSubmissions s)))"
  by (cases status)
     (simp_all add: getAllWaitlistSubmissions_def Let_def query_fetchAll_served [OF assms])

lemma listings_ordered_and_filtered:
  assumes "cosmos_faults s 0 = None"
  shows "\<exists>cs ws. fst (getAllContactSubmissions status limit_arg s) = Inr cs
      \<and> fst (getAllWaitlistSubmissions wstatus limit_arg s) = Inr ws
      \<and> sorted_wrt (\<lambda>a b. c_submittedAt b \<le> c_submittedAt a) cs
      \<and> sorted_wrt (\<lambda>a b. w_position a \<le> w_position b) ws
      \<and> (\<forall>st. status = Some st \<longrightarrow> list_all (\<lambda>c. c_status c = st) cs)
      \<and> (\<forall>st. wstatus = Some st \<longrightarrow> list_all (\<lambda>c. w_status c = st) ws)"
proof -
  have "sorted (map w_position (sort_key w_position
                (filter (\<lambda>c. case wstatus of None \<Rightarrow> True | Some st \<Rightarrow> w_status c = st)
                   (WaitlistSubmissions s))))" by simp
  then have "sorted_wrt (\<lambda>a b. w_position a \<le> w_position b) (sort_key w_position
                (filter (\<lambda>c. case wstatus of None \<Rightarrow> True | Some st \<Rightarrow> w_status c = st)
                   (WaitlistSubmissions s)))"
    by (simp add: sorted_wrt_map)
  then show ?thesis
    unfolding getAllContactSubmissions_served [OF assms] getAllWaitlistSubmissions_served [OF assms]
    by (auto simp: sorted_wrt_rev_sort_key list_all_iff)
qed

text \<open>
  C10. The listings are ordered and filtered as stated and the limit defaults to 100,
  but the limit does not bound the result: it is handed to the query as its page size,
  and \<^verbatim>\<open>fetchAll\<close> then fetches every page. With two stored contact submissions and
  \<open>limit = 1\<close> the contact listing returns both; with six stored waitlist records and
  \<open>limit = 1\<close> the waitlist listing returns all six.
\<close>

theorem C10_limit_is_only_a_page_size:
  "pages_of 1 [later_submission, demo_submission] = [[later_submission], [demo_submission]]
   \<and> fst (getAllContactSubmissions None (Some 1)
          (demo_state\<lparr>ContactSubmissions := [demo_submission, later_submission]\<rparr>))
     = Inr [later_submission, demo_submission]
   \<and> length (projr (fst (getAllWaitlistSubmissions None (Some 1)
          (demo_state\<lparr>WaitlistSubmissions := demo_notified # five_active\<rparr>)))) = 6"
proof (intro conjI)
  show "pages_of 1 [later_submission, demo_submission] = [[later_submission], [demo_submission]]"
    by (simp add: pages_of.simps)
  show "fst (getAllContactSubmissions None (Some 1)
          (demo_state\<lparr>ContactSubmissions := [demo_submission, later_submission]\<rparr>))
     = Inr [later_submission, demo_submission]"
    by (simp add: getAllContactSubmissions_def query_fetchAll_def cosmos_request_def
          fetchAll_def pages_of.simps Let_def demo_state_def demo_submission_def
          later_submission_def)
  show "length (projr (fst (getAllWaitlistSubmissions None (Some 1)
          (demo_state\<lparr>WaitlistSubmissions := demo_notified # five_active\<rparr>)))) = 6"
    by (simp add: getAllWaitlistSubmissions_def query_fetchAll_def cosmos_request_def
          fetchAll_def pages_of.simps Let_def demo_state_def demo_notified_def
          five_active_def)
qed

end
